theory Spec2Isabelle
  imports Complex_Main "HOL-Library.Word" "HOL-Library.Sublist"
begin

section \<open>The ISDF convergence notebook\<close>

text \<open>
  The notebook \<^verbatim>\<open>isdf.ipynb\<close> is a flat script over library calls. Its own logic is the
  parameter sweeps of four code cells:
  \<^item> the THC-rank sweep (source lines 157-174), which fills \<^verbatim>\<open>delta_eri\<close> and
    \<^verbatim>\<open>delta_mp2\<close>;
  \<^item> the mesh sweep (lines 266-299), which fills \<^verbatim>\<open>results[mesh]\<close>;
  \<^item> the basis sweep (lines 326-360), which fills \<^verbatim>\<open>basis_results[basis]\<close>;
  \<^item> the seeded \<open>\<lambda>\<close> sweep (lines 401-440), which prints one error per rank.

  The library routines the cells call (PySCF, the THC helpers of
  \<^verbatim>\<open>openfermion.resource_estimates.pbc\<close>) are not part of the notebook. They are
  parameters of the model: a record of functions over opaque types. Every theorem
  holds for every library.
\<close>

subsection \<open>Values\<close>

text \<open>
  A Python exception is a value. \<open>LibraryError\<close> is whatever a library routine raises;
  \<open>ValueError\<close> is what NumPy raises when two arrays cannot be subtracted or when
  \<^verbatim>\<open>np.max\<close> is given an array with no element; \<open>KeyError\<close> is a dictionary
  lookup of an absent key.
\<close>

datatype error = LibraryError string | ValueError | KeyError

text \<open>
  \<^verbatim>\<open>np.arange(2, 20, 2)\<close> is an array of 64-bit integers, and a product with one of its
  elements is a 64-bit integer that wraps around.
\<close>

type_synonym int64 = "64 word"

text \<open>
  A floating-point number is modelled as a real number: rounding, infinities and NaN
  are outside the model. An integral tensor is the list of its (complex) elements in
  row-major order; its shape is modelled by its length.
\<close>

type_synonym tensor = "complex list"

text \<open>
  A library call reads and advances hidden state and may raise. The hidden state is
  NumPy's global random-number generator, the only library state the notebook itself
  sets (\<^verbatim>\<open>np.random.seed(7)\<close>). The state a call leaves behind persists also when
  the call raises.
\<close>

type_synonym ('a, 'g) call = "'g \<Rightarrow> (error + 'a) \<times> 'g"

record ('cell, 'mf, 'cc, 'thc, 'hlp, 'hc, 'g) library =
  build_cell :: "string \<Rightarrow> nat \<Rightarrow> bool \<Rightarrow> ('cell, 'g) call"
  len_kpts :: "'cell \<Rightarrow> nat"
  KRHF :: "'cell \<Rightarrow> ('mf, 'g) call"
  scf_kernel :: "'mf \<Rightarrow> ('mf, 'g) call"
  e_tot :: "'mf \<Rightarrow> real"
  mo_dim :: "'mf \<Rightarrow> int"
  kmp2_kernel :: "'mf \<Rightarrow> (real, 'g) call"
  build_cc_inst :: "'mf \<Rightarrow> ('cc, 'g) call"
  ao2mo :: "'cc \<Rightarrow> (tensor, 'g) call"
  init_amps :: "'cc \<Rightarrow> tensor \<Rightarrow> (real, 'g) call"
  solve_kmeans_kpisdf :: "'mf \<Rightarrow> int64 \<Rightarrow> ('thc, 'g) call"
  KPTHCHelperDoubleTranslation :: "'thc \<Rightarrow> 'mf \<Rightarrow> ('hlp, 'g) call"
  get_eri :: "'hlp \<Rightarrow> nat list \<Rightarrow> (tensor, 'g) call"
  get_eri_exact :: "'hlp \<Rightarrow> nat list \<Rightarrow> (tensor, 'g) call"
  compute_emp2_approx :: "'mf \<Rightarrow> 'hlp \<Rightarrow> (real, 'g) call"
  mo_hcore :: "'mf \<Rightarrow> ('hc, 'g) call"
  hcore_dim :: "'hc \<Rightarrow> int"
  compute_lambda :: "'hc \<Rightarrow> 'hlp \<Rightarrow> (real, 'g) call"
  random_seed :: "nat \<Rightarrow> 'g"

text \<open>
  The fields of \<open>library\<close>, by the source text they stand for:
  \<^item> \<open>build_cell basis mesh discard\<close>: the statements from \<^verbatim>\<open>bulk("C", "diamond", a=3.5)\<close>
    to \<^verbatim>\<open>kpts = cell.make_kpts(kmesh)\<close> (lines 269-282, 328-342, 401-414), with
    \<^verbatim>\<open>cell.basis = basis\<close>, \<^verbatim>\<open>cell.mesh = [mesh]*3\<close> and, when \<open>discard\<close>,
    \<^verbatim>\<open>cell.exp_to_discard = 0.1\<close>. Its value stands for \<^verbatim>\<open>cell\<close> and \<^verbatim>\<open>kpts\<close>
    together; the variables these statements bind (\<^verbatim>\<open>ase_atom\<close>, \<^verbatim>\<open>cell\<close>,
    \<^verbatim>\<open>kmesh\<close>, \<^verbatim>\<open>kpts\<close>) are read by nothing else in the model;
  \<^item> \<open>len_kpts cell\<close>: \<^verbatim>\<open>len(kpts)\<close>;
  \<^item> \<open>KRHF cell\<close>: \<^verbatim>\<open>scf.KRHF(cell, kpts)\<close>;
  \<^item> \<open>scf_kernel mf\<close>: \<^verbatim>\<open>mf.kernel()\<close>. The call changes the object in place: its
    value is the object after the call, and when the call raises \<^verbatim>\<open>mf\<close> stays bound to
    the object as \<^verbatim>\<open>scf.KRHF\<close> built it;
  \<^item> \<open>e_tot mf\<close>: \<^verbatim>\<open>mf.e_tot\<close>; \<open>mo_dim mf\<close>: \<^verbatim>\<open>mf.mo_coeff[0].shape[-1]\<close>;
  \<^item> \<open>kmp2_kernel mf\<close>: \<^verbatim>\<open>KMP2(mf).kernel()[0]\<close>;
  \<^item> \<open>ao2mo cc\<close>: \<^verbatim>\<open>cc_inst.ao2mo()\<close>; \<open>init_amps cc eri\<close>: the first component of
    \<^verbatim>\<open>cc_inst.init_amps(eri)\<close>;
  \<^item> \<open>solve_kmeans_kpisdf mf num_thc\<close>: \<^verbatim>\<open>kthc.solve_kmeans_kpisdf(mf, num_thc, verbose=False)\<close>;
  \<^item> \<open>KPTHCHelperDoubleTranslation kpt_thc mf\<close>: the helper built from
    \<^verbatim>\<open>kpt_thc.chi\<close>, \<^verbatim>\<open>kpt_thc.zeta\<close> and \<^verbatim>\<open>mf\<close>;
  \<^item> \<open>mo_hcore mf\<close>: the array \<^verbatim>\<open>hcore\<close> of line 422; \<open>hcore_dim hcore\<close>:
    \<^verbatim>\<open>hcore.shape[-1]\<close>;
  \<^item> \<open>compute_lambda hcore helper\<close>: \<^verbatim>\<open>kthc.compute_lambda(hcore, helper).lambda_total\<close>;
  \<^item> \<open>random_seed n\<close>: the generator state after \<^verbatim>\<open>np.random.seed(n)\<close>.
\<close>

text \<open>What the cells print, before formatting.\<close>

datatype line =
  ScfEnergy real
  | MeshMp2 nat real
  | BasisMp2 string real
  | RunningMesh nat int64
  | RunningBasis string int64
  | FftdfMp2 real
  | Mp2Error int64 real real
  | Mp2Below int64 real real

text \<open>
  The notebook's global variables that one statement writes and a later statement or
  a later cell reads. \<open>results\<close> and \<open>basis_results\<close> are dictionaries of lists, kept
  in insertion order.
\<close>

record ('mf, 'hc, 'g) notebook =
  mf :: 'mf
  num_kpts :: nat
  num_spatial_orbs :: int
  eri_kindices :: "nat list"
  eri_exact :: tensor
  emp2_exact :: real
  thc_ranks :: "int64 list"
  num_thc :: int64
  delta_eri :: "real list"
  delta_mp2 :: "real list"
  results :: "(nat \<times> real list) list"
  basis_results :: "(string \<times> real list) list"
  hcore :: 'hc
  stdout :: "line list"
  rng :: 'g

subsection \<open>NumPy expressions\<close>

text \<open>\<^verbatim>\<open>np.arange(2, 20, 2)\<close>.\<close>

definition arange_2_20_2 :: "int64 list" where
  "arange_2_20_2 = [2, 4, 6, 8, 10, 12, 14, 16, 18]"

text \<open>
  \<^verbatim>\<open>np.max(np.abs(a - b))\<close>. Both tensors come from the same helper at the same
  indices and so have one shape; the model raises where the lengths differ. On complex
  numbers \<^verbatim>\<open>np.abs\<close> is the modulus.
\<close>

definition max_abs_diff :: "tensor \<Rightarrow> tensor \<Rightarrow> error + real" where
  "max_abs_diff a b =
     (if length a \<noteq> length b then Inl ValueError
      else if a = [] then Inl ValueError
      else Inr (Max (set (map2 (\<lambda>x y. cmod (x - y)) a b))))"

subsection \<open>The THC-rank sweep (lines 157-174)\<close>

text \<open>
  One iteration of \<^verbatim>\<open>for cthc in thc_ranks\<close> (lines 166-174). The result is the
  exception raised, if any, and the variables as the iteration leaves them. The
  variables an iteration assigns before it reads them (\<^verbatim>\<open>kpt_thc\<close>,
  \<^verbatim>\<open>kthc_eri_helper\<close>, \<^verbatim>\<open>eri_thc\<close>, \<^verbatim>\<open>emp2_approx\<close>) are bound locally.
  \<^verbatim>\<open>num_spatial_orbs\<close> is a Python integer (an array dimension); in the product with
  the 64-bit \<^verbatim>\<open>cthc\<close> it becomes a 64-bit integer. \<^verbatim>\<open>num_kpts\<close> is the length of a
  k-point list and is positive in every run of the notebook; a division by 0
  (\<^verbatim>\<open>inf\<close> or \<^verbatim>\<open>nan\<close> in NumPy, 0 in HOL) is outside the model, as infinities
  and NaN are.
\<close>

definition rank_step ::
  "('cell, 'mf, 'cc, 'thc, 'hlp, 'hc, 'g) library \<Rightarrow> int64 \<Rightarrow> ('mf, 'hc, 'g) notebook
     \<Rightarrow> error option \<times> ('mf, 'hc, 'g) notebook" where
  "rank_step lib cthc s =
     (let s1 = s\<lparr>num_thc := cthc * word_of_int (num_spatial_orbs s)\<rparr> in
      case solve_kmeans_kpisdf lib (mf s1) (num_thc s1) (rng s1) of
        (Inl e, g1) \<Rightarrow> (Some e, s1\<lparr>rng := g1\<rparr>)
      | (Inr kpt_thc, g1) \<Rightarrow>
      (case KPTHCHelperDoubleTranslation lib kpt_thc (mf s1) g1 of
        (Inl e, g2) \<Rightarrow> (Some e, s1\<lparr>rng := g2\<rparr>)
      | (Inr kthc_eri_helper, g2) \<Rightarrow>
      (case get_eri lib kthc_eri_helper (eri_kindices s1) g2 of
        (Inl e, g3) \<Rightarrow> (Some e, s1\<lparr>rng := g3\<rparr>)
      | (Inr eri_thc, g3) \<Rightarrow>
      (case get_eri_exact lib kthc_eri_helper (eri_kindices s1) g3 of
        (Inl e, g4) \<Rightarrow> (Some e, s1\<lparr>rng := g4\<rparr>)
      | (Inr exact, g4) \<Rightarrow>
      (let s2 = s1\<lparr>eri_exact := exact, rng := g4\<rparr> in
       case max_abs_diff eri_thc (eri_exact s2) of
        Inl e \<Rightarrow> (Some e, s2)
      | Inr m \<Rightarrow>
      (let s3 = s2\<lparr>delta_eri := delta_eri s2 @ [m / real (num_kpts s2)]\<rparr> in
       case compute_emp2_approx lib (mf s3) kthc_eri_helper (rng s3) of
        (Inl e, g5) \<Rightarrow> (Some e, s3\<lparr>rng := g5\<rparr>)
      | (Inr emp2_approx, g5) \<Rightarrow>
          (None, s3\<lparr>delta_mp2 := delta_mp2 s3 @ [emp2_exact s3 - emp2_approx],
                     rng := g5\<rparr>)))))))"

text \<open>The loop: an exception ends it, with the variables as they are then.\<close>

fun rank_sweep ::
  "('cell, 'mf, 'cc, 'thc, 'hlp, 'hc, 'g) library \<Rightarrow> int64 list \<Rightarrow> ('mf, 'hc, 'g) notebook
     \<Rightarrow> error option \<times> ('mf, 'hc, 'g) notebook" where
  "rank_sweep lib [] s = (None, s)"
| "rank_sweep lib (cthc # rest) s =
     (case rank_step lib cthc s of
        (Some e, s') \<Rightarrow> (Some e, s')
      | (None, s') \<Rightarrow> rank_sweep lib rest s')"

text \<open>The statements before the loop (lines 158-164).\<close>

definition rank_setup ::
  "('cell, 'mf, 'cc, 'thc, 'hlp, 'hc, 'g) library \<Rightarrow> ('mf, 'hc, 'g) notebook
     \<Rightarrow> error option \<times> ('mf, 'hc, 'g) notebook" where
  "rank_setup lib s =
     (case build_cc_inst lib (mf s) (rng s) of
        (Inl e, g1) \<Rightarrow> (Some e, s\<lparr>rng := g1\<rparr>)
      | (Inr cc_inst, g1) \<Rightarrow>
      (case ao2mo lib cc_inst g1 of
        (Inl e, g2) \<Rightarrow> (Some e, s\<lparr>rng := g2\<rparr>)
      | (Inr eri, g2) \<Rightarrow>
      (let s1 = s\<lparr>eri_exact := eri, rng := g2\<rparr> in
       case init_amps lib cc_inst (eri_exact s1) (rng s1) of
        (Inl e, g3) \<Rightarrow> (Some e, s1\<lparr>rng := g3\<rparr>)
      | (Inr emp2, g3) \<Rightarrow>
      (let s2 = s1\<lparr>emp2_exact := emp2, rng := g3\<rparr>;
           s3 = s2\<lparr>emp2_exact := emp2_exact s2 + e_tot lib (mf s2)\<rparr>;
           s4 = s3\<lparr>delta_eri := [], delta_mp2 := [], thc_ranks := arange_2_20_2\<rparr>
       in (None, s4)))))"

text \<open>The whole cell (lines 158-174): the statements before the loop, then the loop.\<close>

definition rank_cell ::
  "('cell, 'mf, 'cc, 'thc, 'hlp, 'hc, 'g) library \<Rightarrow> ('mf, 'hc, 'g) notebook
     \<Rightarrow> error option \<times> ('mf, 'hc, 'g) notebook" where
  "rank_cell lib s =
     (case rank_setup lib s of
        (Some e, s') \<Rightarrow> (Some e, s')
      | (None, s') \<Rightarrow> rank_sweep lib (thc_ranks s') s')"

subsection \<open>Dictionaries of lists\<close>

text \<open>\<^verbatim>\<open>d[k].append(x)\<close> on a dictionary kept as an association list.\<close>

definition dict_append ::
  "'k \<Rightarrow> real \<Rightarrow> ('k \<times> real list) list \<Rightarrow> error + ('k \<times> real list) list" where
  "dict_append k x d =
     (if k \<in> set (map fst d)
      then Inr (map (\<lambda>(k', v). if k' = k then (k', v @ [x]) else (k', v)) d)
      else Inl KeyError)"

text \<open>\<^verbatim>\<open>d[k]\<close>, for reading the lists back.\<close>

definition dict_get :: "'k \<Rightarrow> ('k \<times> real list) list \<Rightarrow> error + real list" where
  "dict_get k d = (case map_of d k of None \<Rightarrow> Inl KeyError | Some v \<Rightarrow> Inr v)"

subsection \<open>The mesh sweep (lines 266-299)\<close>

text \<open>One iteration of the inner loop (lines 293-299).\<close>

definition mesh_step ::
  "('cell, 'mf, 'cc, 'thc, 'hlp, 'hc, 'g) library \<Rightarrow> nat \<Rightarrow> int64 \<Rightarrow> ('mf, 'hc, 'g) notebook
     \<Rightarrow> error option \<times> ('mf, 'hc, 'g) notebook" where
  "mesh_step lib mesh cthc s =
     (let s0 = s\<lparr>stdout := stdout s @ [RunningMesh mesh cthc]\<rparr>;
          s1 = s0\<lparr>num_thc := cthc * word_of_int (num_spatial_orbs s0)\<rparr> in
      case solve_kmeans_kpisdf lib (mf s1) (num_thc s1) (rng s1) of
        (Inl e, g1) \<Rightarrow> (Some e, s1\<lparr>rng := g1\<rparr>)
      | (Inr kpt_thc, g1) \<Rightarrow>
      (case KPTHCHelperDoubleTranslation lib kpt_thc (mf s1) g1 of
        (Inl e, g2) \<Rightarrow> (Some e, s1\<lparr>rng := g2\<rparr>)
      | (Inr kthc_eri_helper, g2) \<Rightarrow>
      (case compute_emp2_approx lib (mf s1) kthc_eri_helper g2 of
        (Inl e, g3) \<Rightarrow> (Some e, s1\<lparr>rng := g3\<rparr>)
      | (Inr emp2_approx, g3) \<Rightarrow>
      (let s2 = s1\<lparr>rng := g3\<rparr> in
       case dict_append mesh (emp2_exact s2 - emp2_approx) (results s2) of
        Inl e \<Rightarrow> (Some e, s2)
      | Inr d \<Rightarrow> (None, s2\<lparr>results := d\<rparr>)))))"

fun mesh_sweep ::
  "('cell, 'mf, 'cc, 'thc, 'hlp, 'hc, 'g) library \<Rightarrow> nat \<Rightarrow> int64 list \<Rightarrow> ('mf, 'hc, 'g) notebook
     \<Rightarrow> error option \<times> ('mf, 'hc, 'g) notebook" where
  "mesh_sweep lib mesh [] s = (None, s)"
| "mesh_sweep lib mesh (cthc # rest) s =
     (case mesh_step lib mesh cthc s of
        (Some e, s') \<Rightarrow> (Some e, s')
      | (None, s') \<Rightarrow> mesh_sweep lib mesh rest s')"

text \<open>
  The statements of an iteration of the outer loop before the inner loop (lines 269-291).
  \<^verbatim>\<open>num_kpts\<close> is assigned before \<^verbatim>\<open>mf\<close> (lines 283-284) and \<^verbatim>\<open>mf\<close> before
  \<^verbatim>\<open>mf.kernel()\<close> runs, so an exception of a later call finds them rebound.
  \<^verbatim>\<open>num_spatial_orbs\<close> is not assigned here: it keeps the value an earlier cell gave it.
\<close>

definition mesh_setup ::
  "('cell, 'mf, 'cc, 'thc, 'hlp, 'hc, 'g) library \<Rightarrow> nat \<Rightarrow> ('mf, 'hc, 'g) notebook
     \<Rightarrow> error option \<times> ('mf, 'hc, 'g) notebook" where
  "mesh_setup lib mesh s =
     (case build_cell lib ''gth-szv'' mesh False (rng s) of
        (Inl e, g0) \<Rightarrow> (Some e, s\<lparr>rng := g0\<rparr>)
      | (Inr cell, g0) \<Rightarrow>
      (let k1 = s\<lparr>num_kpts := len_kpts lib cell, rng := g0\<rparr> in
       case KRHF lib cell (rng k1) of
        (Inl e, g0') \<Rightarrow> (Some e, k1\<lparr>rng := g0'\<rparr>)
      | (Inr m0, g0') \<Rightarrow>
      (let k2 = k1\<lparr>mf := m0, rng := g0'\<rparr> in
       case scf_kernel lib (mf k2) (rng k2) of
        (Inl e, g1) \<Rightarrow> (Some e, k2\<lparr>rng := g1\<rparr>)
      | (Inr m, g1) \<Rightarrow>
      (let s1 = k2\<lparr>mf := m, rng := g1\<rparr>;
           s2 = s1\<lparr>stdout := stdout s1 @ [ScfEnergy (e_tot lib (mf s1))]\<rparr> in
       case kmp2_kernel lib (mf s2) (rng s2) of
        (Inl e, g2) \<Rightarrow> (Some e, s2\<lparr>rng := g2\<rparr>)
      | (Inr emp2, g2) \<Rightarrow>
      (let s3 = s2\<lparr>emp2_exact := emp2 + e_tot lib (mf s2), rng := g2\<rparr>;
           s4 = s3\<lparr>stdout := stdout s3 @ [MeshMp2 mesh (emp2_exact s3 - e_tot lib (mf s3))]\<rparr>;
           s5 = s4\<lparr>thc_ranks := arange_2_20_2\<rparr>
       in (None, s5))))))"

text \<open>
  One iteration of the outer loop (lines 269-299; the plot of line 301 is left out):
  the statements before the inner loop, then the inner loop.
\<close>

definition mesh_config ::
  "('cell, 'mf, 'cc, 'thc, 'hlp, 'hc, 'g) library \<Rightarrow> nat \<Rightarrow> ('mf, 'hc, 'g) notebook
     \<Rightarrow> error option \<times> ('mf, 'hc, 'g) notebook" where
  "mesh_config lib mesh s =
     (case mesh_setup lib mesh s of
        (Some e, s') \<Rightarrow> (Some e, s')
      | (None, s') \<Rightarrow> mesh_sweep lib mesh (thc_ranks s') s')"

fun mesh_loop ::
  "('cell, 'mf, 'cc, 'thc, 'hlp, 'hc, 'g) library \<Rightarrow> nat list \<Rightarrow> ('mf, 'hc, 'g) notebook
     \<Rightarrow> error option \<times> ('mf, 'hc, 'g) notebook" where
  "mesh_loop lib [] s = (None, s)"
| "mesh_loop lib (mesh # rest) s =
     (case mesh_config lib mesh s of
        (Some e, s') \<Rightarrow> (Some e, s')
      | (None, s') \<Rightarrow> mesh_loop lib rest s')"

text \<open>The whole cell: \<^verbatim>\<open>list(results.keys())\<close> is read once, before the loop.\<close>

definition mesh_cell ::
  "('cell, 'mf, 'cc, 'thc, 'hlp, 'hc, 'g) library \<Rightarrow> ('mf, 'hc, 'g) notebook
     \<Rightarrow> error option \<times> ('mf, 'hc, 'g) notebook" where
  "mesh_cell lib s =
     (let s1 = s\<lparr>results := [(11, []), (15, []), (19, []), (21, []), (28, [])]\<rparr>
      in mesh_loop lib (map fst (results s1)) s1)"

subsection \<open>The basis sweep (lines 326-360)\<close>

definition basis_step ::
  "('cell, 'mf, 'cc, 'thc, 'hlp, 'hc, 'g) library \<Rightarrow> string \<Rightarrow> int64 \<Rightarrow> ('mf, 'hc, 'g) notebook
     \<Rightarrow> error option \<times> ('mf, 'hc, 'g) notebook" where
  "basis_step lib basis cthc s =
     (let s0 = s\<lparr>stdout := stdout s @ [RunningBasis basis cthc]\<rparr>;
          s1 = s0\<lparr>num_thc := cthc * word_of_int (num_spatial_orbs s0)\<rparr> in
      case solve_kmeans_kpisdf lib (mf s1) (num_thc s1) (rng s1) of
        (Inl e, g1) \<Rightarrow> (Some e, s1\<lparr>rng := g1\<rparr>)
      | (Inr kpt_thc, g1) \<Rightarrow>
      (case KPTHCHelperDoubleTranslation lib kpt_thc (mf s1) g1 of
        (Inl e, g2) \<Rightarrow> (Some e, s1\<lparr>rng := g2\<rparr>)
      | (Inr kthc_eri_helper, g2) \<Rightarrow>
      (case compute_emp2_approx lib (mf s1) kthc_eri_helper g2 of
        (Inl e, g3) \<Rightarrow> (Some e, s1\<lparr>rng := g3\<rparr>)
      | (Inr emp2_approx, g3) \<Rightarrow>
      (let s2 = s1\<lparr>rng := g3\<rparr> in
       case dict_append basis (emp2_exact s2 - emp2_approx) (basis_results s2) of
        Inl e \<Rightarrow> (Some e, s2)
      | Inr d \<Rightarrow> (None, s2\<lparr>basis_results := d\<rparr>)))))"

fun basis_sweep ::
  "('cell, 'mf, 'cc, 'thc, 'hlp, 'hc, 'g) library \<Rightarrow> string \<Rightarrow> int64 list \<Rightarrow> ('mf, 'hc, 'g) notebook
     \<Rightarrow> error option \<times> ('mf, 'hc, 'g) notebook" where
  "basis_sweep lib basis [] s = (None, s)"
| "basis_sweep lib basis (cthc # rest) s =
     (case basis_step lib basis cthc s of
        (Some e, s') \<Rightarrow> (Some e, s')
      | (None, s') \<Rightarrow> basis_sweep lib basis rest s')"

text \<open>
  The statements of an iteration of the outer loop before the inner loop (lines 328-352).
\<close>

definition basis_setup ::
  "('cell, 'mf, 'cc, 'thc, 'hlp, 'hc, 'g) library \<Rightarrow> string \<Rightarrow> ('mf, 'hc, 'g) notebook
     \<Rightarrow> error option \<times> ('mf, 'hc, 'g) notebook" where
  "basis_setup lib basis s =
     (case build_cell lib basis 15 True (rng s) of
        (Inl e, g0) \<Rightarrow> (Some e, s\<lparr>rng := g0\<rparr>)
      | (Inr cell, g0) \<Rightarrow>
      (let k1 = s\<lparr>num_kpts := len_kpts lib cell, rng := g0\<rparr> in
       case KRHF lib cell (rng k1) of
        (Inl e, g0') \<Rightarrow> (Some e, k1\<lparr>rng := g0'\<rparr>)
      | (Inr m0, g0') \<Rightarrow>
      (let k2 = k1\<lparr>mf := m0, rng := g0'\<rparr> in
       case scf_kernel lib (mf k2) (rng k2) of
        (Inl e, g1) \<Rightarrow> (Some e, k2\<lparr>rng := g1\<rparr>)
      | (Inr m, g1) \<Rightarrow>
      (let s1 = k2\<lparr>mf := m, rng := g1\<rparr>;
           s2 = s1\<lparr>stdout := stdout s1 @ [ScfEnergy (e_tot lib (mf s1))]\<rparr>;
           s3 = s2\<lparr>num_spatial_orbs := mo_dim lib (mf s2)\<rparr> in
       case kmp2_kernel lib (mf s3) (rng s3) of
        (Inl e, g2) \<Rightarrow> (Some e, s3\<lparr>rng := g2\<rparr>)
      | (Inr emp2, g2) \<Rightarrow>
      (let s4 = s3\<lparr>emp2_exact := emp2 + e_tot lib (mf s3), rng := g2\<rparr>;
           s5 = s4\<lparr>stdout := stdout s4 @ [BasisMp2 basis (emp2_exact s4 - e_tot lib (mf s4))]\<rparr>;
           s6 = s5\<lparr>thc_ranks := arange_2_20_2\<rparr>
       in (None, s6))))))"

text \<open>One iteration of the outer loop (lines 328-360; the plot of line 362 is left out).\<close>

definition basis_config ::
  "('cell, 'mf, 'cc, 'thc, 'hlp, 'hc, 'g) library \<Rightarrow> string \<Rightarrow> ('mf, 'hc, 'g) notebook
     \<Rightarrow> error option \<times> ('mf, 'hc, 'g) notebook" where
  "basis_config lib basis s =
     (case basis_setup lib basis s of
        (Some e, s') \<Rightarrow> (Some e, s')
      | (None, s') \<Rightarrow> basis_sweep lib basis (thc_ranks s') s')"

fun basis_loop ::
  "('cell, 'mf, 'cc, 'thc, 'hlp, 'hc, 'g) library \<Rightarrow> string list \<Rightarrow> ('mf, 'hc, 'g) notebook
     \<Rightarrow> error option \<times> ('mf, 'hc, 'g) notebook" where
  "basis_loop lib [] s = (None, s)"
| "basis_loop lib (basis # rest) s =
     (case basis_config lib basis s of
        (Some e, s') \<Rightarrow> (Some e, s')
      | (None, s') \<Rightarrow> basis_loop lib rest s')"

definition basis_cell ::
  "('cell, 'mf, 'cc, 'thc, 'hlp, 'hc, 'g) library \<Rightarrow> ('mf, 'hc, 'g) notebook
     \<Rightarrow> error option \<times> ('mf, 'hc, 'g) notebook" where
  "basis_cell lib s =
     (let s1 = s\<lparr>basis_results := [(''gth-szv'', []), (''gth-dzvp'', []), (''gth-tzvp'', [])]\<rparr>
      in basis_loop lib (map fst (basis_results s1)) s1)"

subsection \<open>The seeded \<open>\<lambda>\<close> sweep (lines 401-440)\<close>

text \<open>
  One iteration (lines 431-440). The error is printed, not stored; the line printed
  is the record of the iteration.
\<close>

definition lambda_step ::
  "('cell, 'mf, 'cc, 'thc, 'hlp, 'hc, 'g) library \<Rightarrow> int64 \<Rightarrow> ('mf, 'hc, 'g) notebook
     \<Rightarrow> error option \<times> ('mf, 'hc, 'g) notebook" where
  "lambda_step lib cthc s =
     (let s1 = s\<lparr>num_thc := cthc * word_of_int (num_spatial_orbs s)\<rparr> in
      case solve_kmeans_kpisdf lib (mf s1) (num_thc s1) (rng s1) of
        (Inl e, g1) \<Rightarrow> (Some e, s1\<lparr>rng := g1\<rparr>)
      | (Inr kpt_thc, g1) \<Rightarrow>
      (case KPTHCHelperDoubleTranslation lib kpt_thc (mf s1) g1 of
        (Inl e, g2) \<Rightarrow> (Some e, s1\<lparr>rng := g2\<rparr>)
      | (Inr kthc_eri_helper, g2) \<Rightarrow>
      (case compute_lambda lib (hcore s1) kthc_eri_helper g2 of
        (Inl e, g3) \<Rightarrow> (Some e, s1\<lparr>rng := g3\<rparr>)
      | (Inr lambda_total, g3) \<Rightarrow>
      (case compute_emp2_approx lib (mf s1) kthc_eri_helper g3 of
        (Inl e, g4) \<Rightarrow> (Some e, s1\<lparr>rng := g4\<rparr>)
      | (Inr emp2, g4) \<Rightarrow>
      (let s2 = s1\<lparr>rng := g4\<rparr>;
           emp2_approx = emp2 - e_tot lib (mf s2);
           emp2_error = \<bar>emp2_approx - emp2_exact s2\<bar>;
           s3 = s2\<lparr>stdout := stdout s2 @ [Mp2Error cthc emp2_error lambda_total]\<rparr>
       in if emp2_error < 1 / 10000
          then (None, s3\<lparr>stdout := stdout s3 @ [Mp2Below cthc emp2_error lambda_total]\<rparr>)
          else (None, s3))))))"

fun lambda_sweep ::
  "('cell, 'mf, 'cc, 'thc, 'hlp, 'hc, 'g) library \<Rightarrow> int64 list \<Rightarrow> ('mf, 'hc, 'g) notebook
     \<Rightarrow> error option \<times> ('mf, 'hc, 'g) notebook" where
  "lambda_sweep lib [] s = (None, s)"
| "lambda_sweep lib (cthc # rest) s =
     (case lambda_step lib cthc s of
        (Some e, s') \<Rightarrow> (Some e, s')
      | (None, s') \<Rightarrow> lambda_sweep lib rest s')"

text \<open>Lines 428-440: the seed, one print, and the loop.\<close>

definition lambda_seeded ::
  "('cell, 'mf, 'cc, 'thc, 'hlp, 'hc, 'g) library \<Rightarrow> ('mf, 'hc, 'g) notebook
     \<Rightarrow> error option \<times> ('mf, 'hc, 'g) notebook" where
  "lambda_seeded lib s =
     (let s1 = s\<lparr>rng := random_seed lib 7\<rparr>;
          s2 = s1\<lparr>stdout := stdout s1 @ [FftdfMp2 (emp2_exact s1)]\<rparr>
      in lambda_sweep lib (thc_ranks s2) s2)"

text \<open>The statements before the seed (lines 401-427).\<close>

definition lambda_setup ::
  "('cell, 'mf, 'cc, 'thc, 'hlp, 'hc, 'g) library \<Rightarrow> ('mf, 'hc, 'g) notebook
     \<Rightarrow> error option \<times> ('mf, 'hc, 'g) notebook" where
  "lambda_setup lib s =
     (case build_cell lib ''gth-dzv'' 15 False (rng s) of
        (Inl e, g0) \<Rightarrow> (Some e, s\<lparr>rng := g0\<rparr>)
      | (Inr cell, g0) \<Rightarrow>
      (let k1 = s\<lparr>num_kpts := len_kpts lib cell, rng := g0\<rparr> in
       case KRHF lib cell (rng k1) of
        (Inl e, g0') \<Rightarrow> (Some e, k1\<lparr>rng := g0'\<rparr>)
      | (Inr m0, g0') \<Rightarrow>
      (let k2 = k1\<lparr>mf := m0, rng := g0'\<rparr> in
       case scf_kernel lib (mf k2) (rng k2) of
        (Inl e, g1) \<Rightarrow> (Some e, k2\<lparr>rng := g1\<rparr>)
      | (Inr m, g1) \<Rightarrow>
      (let s1 = k2\<lparr>mf := m, rng := g1\<rparr>;
           s2 = s1\<lparr>stdout := stdout s1 @ [ScfEnergy (e_tot lib (mf s1))]\<rparr> in
       case mo_hcore lib (mf s2) (rng s2) of
        (Inl e, g2) \<Rightarrow> (Some e, s2\<lparr>rng := g2\<rparr>)
      | (Inr h, g2) \<Rightarrow>
      (let s3 = s2\<lparr>hcore := h, rng := g2\<rparr>;
           s4 = s3\<lparr>num_spatial_orbs := hcore_dim lib (hcore s3)\<rparr>;
           s5 = s4\<lparr>thc_ranks := arange_2_20_2\<rparr> in
       case build_cc_inst lib (mf s5) (rng s5) of
        (Inl e, g3) \<Rightarrow> (Some e, s5\<lparr>rng := g3\<rparr>)
      | (Inr cc_inst, g3) \<Rightarrow>
      (case ao2mo lib cc_inst g3 of
        (Inl e, g4) \<Rightarrow> (Some e, s5\<lparr>rng := g4\<rparr>)
      | (Inr eri, g4) \<Rightarrow>
      (let s6 = s5\<lparr>eri_exact := eri, rng := g4\<rparr> in
       case init_amps lib cc_inst (eri_exact s6) (rng s6) of
        (Inl e, g5) \<Rightarrow> (Some e, s6\<lparr>rng := g5\<rparr>)
      | (Inr emp2, g5) \<Rightarrow>
          (None, s6\<lparr>emp2_exact := emp2, rng := g5\<rparr>))))))))"

text \<open>The whole cell (lines 401-440).\<close>

definition lambda_cell ::
  "('cell, 'mf, 'cc, 'thc, 'hlp, 'hc, 'g) library \<Rightarrow> ('mf, 'hc, 'g) notebook
     \<Rightarrow> error option \<times> ('mf, 'hc, 'g) notebook" where
  "lambda_cell lib s =
     (case lambda_setup lib s of
        (Some e, s') \<Rightarrow> (Some e, s')
      | (None, s') \<Rightarrow> lambda_seeded lib s')"

section \<open>Hypotheses and test data\<close>

text \<open>
  The library calls of one iteration of the THC-rank sweep never raise, and the two
  tensors an iteration compares have one shape and at least one element.
\<close>

definition rank_calls_succeed :: "('cell, 'mf, 'cc, 'thc, 'hlp, 'hc, 'g) library \<Rightarrow> bool" where
  "rank_calls_succeed lib \<longleftrightarrow>
     (\<forall>m n g. \<exists>k g'. solve_kmeans_kpisdf lib m n g = (Inr k, g')) \<and>
     (\<forall>k m g. \<exists>h g'. KPTHCHelperDoubleTranslation lib k m g = (Inr h, g')) \<and>
     (\<forall>h i g. \<exists>a g'. get_eri lib h i g = (Inr a, g') \<and> a \<noteq> [] \<and>
        (\<forall>g1. \<exists>b g2. get_eri_exact lib h i g1 = (Inr b, g2) \<and> length b = length a)) \<and>
     (\<forall>m h g. \<exists>x g'. compute_emp2_approx lib m h g = (Inr x, g'))"

text \<open>
  Two states of the notebook agree on everything an iteration of a sweep reads: the
  configuration, the reference energy and the state of the random-number generator.
\<close>

definition same_inputs :: "('mf, 'hc, 'g) notebook \<Rightarrow> ('mf, 'hc, 'g) notebook \<Rightarrow> bool" where
  "same_inputs s t \<longleftrightarrow>
     mf s = mf t \<and> num_kpts s = num_kpts t \<and> num_spatial_orbs s = num_spatial_orbs t \<and>
     eri_kindices s = eri_kindices t \<and> emp2_exact s = emp2_exact t \<and> hcore s = hcore t \<and>
     rng s = rng t"

text \<open>
  The scenario of a repeated sweep under a fixed seed: \<^verbatim>\<open>np.random.seed(n)\<close>, then
  lines 162-174 (the two lists are emptied, the loop runs). The \<open>\<lambda>\<close> cell seeds in
  this way itself (line 428); the cell of the THC-rank sweep leaves it to its caller.
\<close>

definition seeded_rank_sweep ::
  "('cell, 'mf, 'cc, 'thc, 'hlp, 'hc, 'g) library \<Rightarrow> nat \<Rightarrow> int64 list \<Rightarrow> ('mf, 'hc, 'g) notebook
     \<Rightarrow> error option \<times> ('mf, 'hc, 'g) notebook" where
  "seeded_rank_sweep lib n ranks s =
     rank_sweep lib ranks (s\<lparr>delta_eri := [], delta_mp2 := [], rng := random_seed lib n\<rparr>)"

text \<open>The lines a run adds to the output.\<close>

definition printed ::
  "(('mf, 'hc, 'g) notebook \<Rightarrow> error option \<times> ('mf, 'hc, 'g) notebook)
     \<Rightarrow> ('mf, 'hc, 'g) notebook \<Rightarrow> line list" where
  "printed f s = drop (length (stdout s)) (stdout (snd (f s)))"

text \<open>
  A small library for running the cells on concrete data. Its generator state is a
  counter that \<open>solve_kmeans_kpisdf\<close> advances; the factorization it returns remembers
  the state it was computed from, as a random choice of interpolation points does.
\<close>

definition toy_lib :: "(unit, unit, unit, int64 \<times> nat, int64 \<times> nat, unit, nat) library" where
  "toy_lib =
     \<lparr>build_cell = (\<lambda>basis mesh discard g. (Inr (), g)),
      len_kpts = (\<lambda>cell. 3),
      KRHF = (\<lambda>cell g. (Inr (), g)),
      scf_kernel = (\<lambda>m g. (Inr m, g)),
      e_tot = (\<lambda>m. - 10),
      mo_dim = (\<lambda>m. 8),
      kmp2_kernel = (\<lambda>m g. (Inr (- 1 / 4), g)),
      build_cc_inst = (\<lambda>m g. (Inr (), g)),
      ao2mo = (\<lambda>cc g. (Inr [1, 1, 1], g)),
      init_amps = (\<lambda>cc eri g. (Inr (- 1 / 4), g)),
      solve_kmeans_kpisdf = (\<lambda>m n g. (Inr (n, g), Suc g)),
      KPTHCHelperDoubleTranslation = (\<lambda>k m g. (Inr k, g)),
      get_eri = (\<lambda>h idx g. (Inr [of_nat (snd h), 3], g)),
      get_eri_exact = (\<lambda>h idx g. (Inr [0, 0], g)),
      compute_emp2_approx = (\<lambda>m h g. (Inr (real (snd h) - 11), g)),
      mo_hcore = (\<lambda>m g. (Inr (), g)),
      hcore_dim = (\<lambda>h. 8),
      compute_lambda = (\<lambda>hc h g. (Inr 5, g)),
      random_seed = (\<lambda>n. n)\<rparr>"

text \<open>The same library, refusing more interpolation points than an \<open>11\<^sup>3\<close> grid has.\<close>

definition strict_lib :: "(unit, unit, unit, int64 \<times> nat, int64 \<times> nat, unit, nat) library" where
  "strict_lib =
     toy_lib\<lparr>solve_kmeans_kpisdf :=
       (\<lambda>m n g. if 1331 < n then (Inl (LibraryError ''num_thc''), g)
                 else solve_kmeans_kpisdf toy_lib m n g)\<rparr>"

text \<open>
  The first library with an exact tensor that depends on the helper it is asked through:
  nothing in the notebook makes the tensor of line 170 the same in every iteration.
\<close>

definition drift_lib :: "(unit, unit, unit, int64 \<times> nat, int64 \<times> nat, unit, nat) library" where
  "drift_lib = toy_lib\<lparr>get_eri_exact := (\<lambda>h idx g. (Inr [of_nat (snd h), 0], g))\<rparr>"

text \<open>The variables as the cells before a sweep could leave them.\<close>

definition toy_state :: "(unit, unit, nat) notebook" where
  "toy_state =
     \<lparr>mf = (), num_kpts = 3, num_spatial_orbs = 8, eri_kindices = [1, 0, 2, 0],
      eri_exact = [1, 1, 1], emp2_exact = - 41 / 4, thc_ranks = arange_2_20_2, num_thc = 0,
      delta_eri = [], delta_mp2 = [], results = [(11, [])],
      basis_results = [(''gth-szv'', [])], hcore = (), stdout = [], rng = 0\<rparr>"

section \<open>What an iteration does\<close>

subsection \<open>The THC-rank sweep\<close>

lemma max_abs_diff_InrD:
  assumes "max_abs_diff a b = Inr m"
  shows "length a = length b" and "a \<noteq> []"
    and "m = Max (set (map2 (\<lambda>x y. cmod (x - y)) a b))"
  using assms by (auto simp: max_abs_diff_def split: if_splits)

lemma max_abs_diff_nonneg:
  assumes "max_abs_diff a b = Inr m"
  shows "0 \<le> m"
proof -
  note d = max_abs_diff_InrD [OF assms]
  from d(1,2) have "map2 (\<lambda>x y. cmod (x - y)) a b \<noteq> []"
    by (cases a; cases b) auto
  then obtain z where z: "z \<in> set (map2 (\<lambda>x y. cmod (x - y)) a b)"
    by (meson last_in_set)
  then have "0 \<le> z" by auto
  moreover from z have "z \<le> m" unfolding d(3) by (intro Max_ge) auto
  ultimately show ?thesis by simp
qed

lemma rank_step_NoneE:
  assumes "rank_step lib c s = (None, s')"
  obtains k g1 h g2 a g3 b g4 m approx g5 where
    "solve_kmeans_kpisdf lib (mf s) (c * word_of_int (num_spatial_orbs s)) (rng s) = (Inr k, g1)"
    "KPTHCHelperDoubleTranslation lib k (mf s) g1 = (Inr h, g2)"
    "get_eri lib h (eri_kindices s) g2 = (Inr a, g3)"
    "get_eri_exact lib h (eri_kindices s) g3 = (Inr b, g4)"
    "max_abs_diff a b = Inr m"
    "compute_emp2_approx lib (mf s) h g4 = (Inr approx, g5)"
    "s' = s\<lparr>num_thc := c * word_of_int (num_spatial_orbs s), eri_exact := b,
            delta_eri := delta_eri s @ [m / real (num_kpts s)],
            delta_mp2 := delta_mp2 s @ [emp2_exact s - approx], rng := g5\<rparr>"
  using assms
  by (auto simp: rank_step_def Let_def split: prod.splits sum.splits)

lemma rank_step_SomeD:
  assumes "rank_step lib c s = (Some e, s')"
  shows "delta_mp2 s' = delta_mp2 s"
    and "delta_eri s' = delta_eri s \<or> (\<exists>x. delta_eri s' = delta_eri s @ [x])"
  using assms by (auto simp: rank_step_def Let_def split: prod.splits sum.splits)

lemma rank_step_succeeds:
  assumes "rank_calls_succeed lib"
  shows "fst (rank_step lib c s) = None"
proof -
  let ?n = "c * word_of_int (num_spatial_orbs s)"
  from assms obtain k g1 where 1: "solve_kmeans_kpisdf lib (mf s) ?n (rng s) = (Inr k, g1)"
    unfolding rank_calls_succeed_def by blast
  from assms obtain h g2 where 2: "KPTHCHelperDoubleTranslation lib k (mf s) g1 = (Inr h, g2)"
    unfolding rank_calls_succeed_def by blast
  from assms obtain a g3 where 3: "get_eri lib h (eri_kindices s) g2 = (Inr a, g3)" "a \<noteq> []"
    and ex: "\<forall>g1. \<exists>b g2. get_eri_exact lib h (eri_kindices s) g1 = (Inr b, g2) \<and> length b = length a"
    unfolding rank_calls_succeed_def by blast
  from ex obtain b g4 where 4: "get_eri_exact lib h (eri_kindices s) g3 = (Inr b, g4)"
    "length b = length a" by blast
  from assms obtain x g5 where 5: "compute_emp2_approx lib (mf s) h g4 = (Inr x, g5)"
    unfolding rank_calls_succeed_def by blast
  from 3 4 have 6: "\<exists>m. max_abs_diff a b = Inr m" by (simp add: max_abs_diff_def)
  from 1 2 3 4 5 6 show ?thesis
    by (auto simp: rank_step_def Let_def)
qed

lemma rank_sweep_succeeds:
  "rank_calls_succeed lib \<Longrightarrow> fst (rank_sweep lib ranks s) = None"
proof (induction ranks arbitrary: s)
  case Nil
  then show ?case by simp
next
  case (Cons c ranks)
  from rank_step_succeeds [OF Cons.prems, of c s]
  obtain s1 where "rank_step lib c s = (None, s1)" by (cases "rank_step lib c s") auto
  with Cons.IH [OF Cons.prems, of s1] show ?case by simp
qed

lemma rank_step_None:
  "rank_step lib c s = (None, s') \<Longrightarrow>
     \<exists>x y. delta_eri s' = delta_eri s @ [x] \<and> delta_mp2 s' = delta_mp2 s @ [y]"
  by (erule rank_step_NoneE) simp

lemma rank_step_prefix:
  "rank_step lib c s = (r, s') \<Longrightarrow>
     prefix (delta_eri s) (delta_eri s') \<and> prefix (delta_mp2 s) (delta_mp2 s')"
  by (auto simp: rank_step_def Let_def split: prod.splits sum.splits)

lemma rank_sweep_prefix:
  "rank_sweep lib ranks s = (r, s') \<Longrightarrow>
     prefix (delta_eri s) (delta_eri s') \<and> prefix (delta_mp2 s) (delta_mp2 s')"
proof (induction ranks arbitrary: s)
  case Nil
  then show ?case by simp
next
  case (Cons c ranks)
  obtain r1 s1 where st: "rank_step lib c s = (r1, s1)" by force
  show ?case
  proof (cases r1)
    case None
    with st Cons.prems have "rank_sweep lib ranks s1 = (r, s')" by simp
    from Cons.IH [OF this] rank_step_prefix [OF st] show ?thesis
      by (meson prefix_order.order_trans)
  next
    case (Some e)
    with st Cons.prems have "s' = s1" by simp
    with rank_step_prefix [OF st] show ?thesis by simp
  qed
qed

lemma rank_sweep_append:
  "rank_sweep lib (xs @ ys) s =
     (case rank_sweep lib xs s of
        (Some e, s') \<Rightarrow> (Some e, s')
      | (None, s') \<Rightarrow> rank_sweep lib ys s')"
  by (induction xs arbitrary: s) (auto split: prod.splits option.splits)

lemma rank_sweep_length:
  "rank_sweep lib ranks s = (None, s') \<Longrightarrow>
     length (delta_eri s') = length (delta_eri s) + length ranks \<and>
     length (delta_mp2 s') = length (delta_mp2 s) + length ranks"
proof (induction ranks arbitrary: s)
  case Nil
  then show ?case by simp
next
  case (Cons c ranks)
  obtain r1 s1 where st: "rank_step lib c s = (r1, s1)" by force
  with Cons.prems have r1: "r1 = None" and sw: "rank_sweep lib ranks s1 = (None, s')"
    by (auto split: option.splits)
  from rank_step_None [OF st [unfolded r1]] Cons.IH [OF sw] show ?case by auto
qed

lemma rank_sweep_entry:
  assumes all: "rank_sweep lib (pre @ c # post) s = (None, s')"
    and pre: "rank_sweep lib pre s = (None, s1)"
  shows "delta_eri s' ! length (delta_eri s1) = last (delta_eri (snd (rank_step lib c s1))) \<and>
         delta_mp2 s' ! length (delta_mp2 s1) = last (delta_mp2 (snd (rank_step lib c s1)))"
proof -
  from all pre have rest: "rank_sweep lib (c # post) s1 = (None, s')"
    by (simp add: rank_sweep_append)
  obtain r2 s2 where st: "rank_step lib c s1 = (r2, s2)" by force
  with rest have r2: "r2 = None" and post: "rank_sweep lib post s2 = (None, s')"
    by (auto split: option.splits)
  from rank_step_None [OF st [unfolded r2]] obtain x y where
    xy: "delta_eri s2 = delta_eri s1 @ [x]" "delta_mp2 s2 = delta_mp2 s1 @ [y]" by blast
  from rank_sweep_prefix [OF post] obtain zs ws where
    "delta_eri s' = delta_eri s2 @ zs" "delta_mp2 s' = delta_mp2 s2 @ ws"
    by (auto simp: prefix_def)
  with xy st show ?thesis by simp
qed

lemma rank_step_appends:
  "rank_step lib c s = (r, s') \<Longrightarrow>
     \<exists>zs. delta_eri s' = delta_eri s @ zs \<and> (\<forall>x\<in>set zs. 0 \<le> x)"
  by (auto simp: rank_step_def Let_def max_abs_diff_nonneg split: prod.splits sum.splits)

lemma rank_sweep_appends:
  "rank_sweep lib ranks s = (r, s') \<Longrightarrow>
     \<exists>zs. delta_eri s' = delta_eri s @ zs \<and> (\<forall>x\<in>set zs. 0 \<le> x)"
proof (induction ranks arbitrary: s)
  case Nil
  then show ?case by simp
next
  case (Cons c ranks)
  obtain r1 s1 where st: "rank_step lib c s = (r1, s1)" by force
  from rank_step_appends [OF st] obtain zs where
    zs: "delta_eri s1 = delta_eri s @ zs" "\<forall>x\<in>set zs. 0 \<le> x" by blast
  show ?case
  proof (cases r1)
    case None
    with st Cons.prems have "rank_sweep lib ranks s1 = (r, s')" by simp
    from Cons.IH [OF this] obtain ws where
      "delta_eri s' = delta_eri s1 @ ws" "\<forall>x\<in>set ws. 0 \<le> x" by blast
    with zs have "delta_eri s' = delta_eri s @ (zs @ ws) \<and> (\<forall>x\<in>set (zs @ ws). 0 \<le> x)"
      by auto
    then show ?thesis by blast
  next
    case (Some e)
    with st Cons.prems have "s' = s1" by simp
    with zs show ?thesis by blast
  qed
qed

lemma rank_step_frame:
  assumes "rank_step lib c s = (r, s')"
  shows "mf s' = mf s" "num_kpts s' = num_kpts s" "num_spatial_orbs s' = num_spatial_orbs s"
    "eri_kindices s' = eri_kindices s" "emp2_exact s' = emp2_exact s" "hcore s' = hcore s"
    "thc_ranks s' = thc_ranks s"
  using assms by (auto simp: rank_step_def Let_def split: prod.splits sum.splits)

lemma rank_sweep_frame:
  "rank_sweep lib ranks s = (r, s') \<Longrightarrow>
     mf s' = mf s \<and> num_kpts s' = num_kpts s \<and> num_spatial_orbs s' = num_spatial_orbs s \<and>
     eri_kindices s' = eri_kindices s \<and> emp2_exact s' = emp2_exact s \<and> hcore s' = hcore s \<and>
     thc_ranks s' = thc_ranks s"
proof (induction ranks arbitrary: s)
  case Nil
  then show ?case by simp
next
  case (Cons c ranks)
  obtain r1 s1 where st: "rank_step lib c s = (r1, s1)" by force
  note f = rank_step_frame [OF st]
  show ?case
  proof (cases r1)
    case None
    with st Cons.prems have "rank_sweep lib ranks s1 = (r, s')" by simp
    from Cons.IH [OF this] f show ?thesis by simp
  next
    case (Some e)
    with st Cons.prems have "s' = s1" by simp
    with f show ?thesis by simp
  qed
qed

lemma rank_step_emp2_exact: "emp2_exact (snd (rank_step lib c s)) = emp2_exact s"
  by (cases "rank_step lib c s") (simp add: rank_step_frame)

lemma rank_sweep_emp2_exact: "emp2_exact (snd (rank_sweep lib ranks s)) = emp2_exact s"
  by (cases "rank_sweep lib ranks s") (simp add: rank_sweep_frame)

lemma rank_step_sim:
  assumes "same_inputs s t"
  shows "\<exists>r s' t' zs ws.
           rank_step lib c s = (r, s') \<and> rank_step lib c t = (r, t') \<and> same_inputs s' t' \<and>
           delta_eri s' = delta_eri s @ zs \<and> delta_eri t' = delta_eri t @ zs \<and>
           delta_mp2 s' = delta_mp2 s @ ws \<and> delta_mp2 t' = delta_mp2 t @ ws"
  using assms
  by (auto simp: rank_step_def same_inputs_def Let_def split: prod.splits sum.splits)

lemma rank_sweep_sim:
  "same_inputs s t \<Longrightarrow>
     \<exists>r s' t' zs ws.
       rank_sweep lib ranks s = (r, s') \<and> rank_sweep lib ranks t = (r, t') \<and>
       same_inputs s' t' \<and>
       delta_eri s' = delta_eri s @ zs \<and> delta_eri t' = delta_eri t @ zs \<and>
       delta_mp2 s' = delta_mp2 s @ ws \<and> delta_mp2 t' = delta_mp2 t @ ws"
proof (induction ranks arbitrary: s t)
  case Nil
  then show ?case by simp
next
  case (Cons c ranks)
  from rank_step_sim [OF Cons.prems, of lib c] obtain r1 s1 t1 zs ws where
    st: "rank_step lib c s = (r1, s1)" "rank_step lib c t = (r1, t1)"
    and si: "same_inputs s1 t1"
    and d: "delta_eri s1 = delta_eri s @ zs" "delta_eri t1 = delta_eri t @ zs"
      "delta_mp2 s1 = delta_mp2 s @ ws" "delta_mp2 t1 = delta_mp2 t @ ws"
    by blast
  show ?case
  proof (cases r1)
    case None
    from Cons.IH [OF si] obtain r s' t' zs' ws' where
      sw: "rank_sweep lib ranks s1 = (r, s')" "rank_sweep lib ranks t1 = (r, t')"
      and si': "same_inputs s' t'"
      and d': "delta_eri s' = delta_eri s1 @ zs'" "delta_eri t' = delta_eri t1 @ zs'"
        "delta_mp2 s' = delta_mp2 s1 @ ws'" "delta_mp2 t' = delta_mp2 t1 @ ws'"
      by blast
    from None st sw have "rank_sweep lib (c # ranks) s = (r, s')"
      "rank_sweep lib (c # ranks) t = (r, t')" by simp_all
    moreover from d d' have "delta_eri s' = delta_eri s @ (zs @ zs')"
      "delta_eri t' = delta_eri t @ (zs @ zs')" "delta_mp2 s' = delta_mp2 s @ (ws @ ws')"
      "delta_mp2 t' = delta_mp2 t @ (ws @ ws')" by simp_all
    ultimately show ?thesis using si' by blast
  next
    case (Some e)
    with st have "rank_sweep lib (c # ranks) s = (r1, s1)"
      "rank_sweep lib (c # ranks) t = (r1, t1)" by simp_all
    with si d show ?thesis by blast
  qed
qed

lemma sint_rank_product:
  assumes "- (2 ^ 63) \<le> n" "n < 2 ^ 63" "- (2 ^ 63) \<le> sint c * n" "sint c * n < 2 ^ 63"
  shows "sint (c * word_of_int n :: int64) = sint c * n"
proof -
  from assms(1,2) have n: "sint (word_of_int n :: int64) = n"
    by (simp add: signed_of_int signed_take_bit_int_eq_self)
  have "sint (c * word_of_int n :: int64) =
      signed_take_bit 63 (sint c * sint (word_of_int n :: int64))"
    by (simp add: sint_word_ariths)
  also from assms(3,4) have "\<dots> = sint c * n"
    unfolding n by (simp add: signed_take_bit_int_eq_self)
  finally show ?thesis .
qed

subsection \<open>The mesh and basis sweeps\<close>

lemma dict_append_get:
  "dict_append k x d = Inr d' \<Longrightarrow> dict_get k d = Inr old \<Longrightarrow> dict_get k d' = Inr (old @ [x])"
proof -
  assume a: "dict_append k x d = Inr d'" and g: "dict_get k d = Inr old"
  let ?f = "\<lambda>(k', v). if k' = k then (k', v @ [x]) else (k', v)"
  from a have d': "d' = map ?f d"
    by (auto simp: dict_append_def split: if_splits)
  from g have "map_of d k = Some old"
    by (auto simp: dict_get_def split: option.splits)
  then have "map_of (map ?f d) k = Some (old @ [x])"
    by (induction d) (auto split: if_splits)
  with d' show ?thesis by (simp add: dict_get_def)
qed

lemma dict_append_other:
  "dict_append k x d = Inr d' \<Longrightarrow> k' \<noteq> k \<Longrightarrow> dict_get k' d' = dict_get k' d"
proof -
  assume a: "dict_append k x d = Inr d'" and ne: "k' \<noteq> k"
  let ?f = "\<lambda>(k', v). if k' = k then (k', v @ [x]) else (k', v)"
  from a have d': "d' = map ?f d"
    by (auto simp: dict_append_def split: if_splits)
  from ne have "map_of (map ?f d) k' = map_of d k'"
    by (induction d) (auto split: if_splits)
  with d' show ?thesis by (simp add: dict_get_def)
qed

lemma mesh_step_NoneE:
  assumes "mesh_step lib mesh c s = (None, s')"
  obtains k g1 h g2 approx g3 d where
    "solve_kmeans_kpisdf lib (mf s) (c * word_of_int (num_spatial_orbs s)) (rng s) = (Inr k, g1)"
    "KPTHCHelperDoubleTranslation lib k (mf s) g1 = (Inr h, g2)"
    "compute_emp2_approx lib (mf s) h g2 = (Inr approx, g3)"
    "dict_append mesh (emp2_exact s - approx) (results s) = Inr d"
    "s' = s\<lparr>stdout := stdout s @ [RunningMesh mesh c],
            num_thc := c * word_of_int (num_spatial_orbs s), rng := g3, results := d\<rparr>"
  using assms
  by (auto simp: mesh_step_def Let_def split: prod.splits sum.splits)

lemma basis_step_NoneE:
  assumes "basis_step lib basis c s = (None, s')"
  obtains k g1 h g2 approx g3 d where
    "solve_kmeans_kpisdf lib (mf s) (c * word_of_int (num_spatial_orbs s)) (rng s) = (Inr k, g1)"
    "KPTHCHelperDoubleTranslation lib k (mf s) g1 = (Inr h, g2)"
    "compute_emp2_approx lib (mf s) h g2 = (Inr approx, g3)"
    "dict_append basis (emp2_exact s - approx) (basis_results s) = Inr d"
    "s' = s\<lparr>stdout := stdout s @ [RunningBasis basis c],
            num_thc := c * word_of_int (num_spatial_orbs s), rng := g3, basis_results := d\<rparr>"
  using assms
  by (auto simp: basis_step_def Let_def split: prod.splits sum.splits)

lemma mesh_step_emp2_exact: "emp2_exact (snd (mesh_step lib mesh c s)) = emp2_exact s"
  by (auto simp: mesh_step_def Let_def split: prod.splits sum.splits)

lemma basis_step_emp2_exact: "emp2_exact (snd (basis_step lib basis c s)) = emp2_exact s"
  by (auto simp: basis_step_def Let_def split: prod.splits sum.splits)

lemma mesh_sweep_emp2_exact: "emp2_exact (snd (mesh_sweep lib mesh ranks s)) = emp2_exact s"
proof (induction ranks arbitrary: s)
  case Nil
  then show ?case by simp
next
  case (Cons c ranks)
  from mesh_step_emp2_exact [of lib mesh c s] Cons.IH show ?case
    by (cases "mesh_step lib mesh c s") (auto split: option.splits)
qed

lemma mesh_sweep_emp2_exactD:
  "mesh_sweep lib mesh ranks s = (r, u) \<Longrightarrow> emp2_exact u = emp2_exact s"
  using mesh_sweep_emp2_exact [of lib mesh ranks s] by simp

lemma basis_sweep_emp2_exact: "emp2_exact (snd (basis_sweep lib basis ranks s)) = emp2_exact s"
proof (induction ranks arbitrary: s)
  case Nil
  then show ?case by simp
next
  case (Cons c ranks)
  from basis_step_emp2_exact [of lib basis c s] Cons.IH show ?case
    by (cases "basis_step lib basis c s") (auto split: option.splits)
qed

lemma mesh_sweep_results:
  "mesh_sweep lib mesh ranks s = (None, s') \<Longrightarrow> dict_get mesh (results s) = Inr old \<Longrightarrow>
     \<exists>new. dict_get mesh (results s') = Inr (old @ new) \<and> length new = length ranks"
proof (induction ranks arbitrary: s old)
  case Nil
  then show ?case by simp
next
  case (Cons c ranks)
  obtain r1 s1 where st: "mesh_step lib mesh c s = (r1, s1)" by force
  with Cons.prems have r1: "r1 = None" and sw: "mesh_sweep lib mesh ranks s1 = (None, s')"
    by (auto split: option.splits)
  from st [unfolded r1] obtain x where "dict_append mesh x (results s) = Inr (results s1)"
    by (rule mesh_step_NoneE) simp
  from dict_append_get [OF this Cons.prems(2)]
  have "dict_get mesh (results s1) = Inr (old @ [x])" .
  from Cons.IH [OF sw this] obtain new where
    "dict_get mesh (results s') = Inr ((old @ [x]) @ new)" "length new = length ranks" by blast
  then have "dict_get mesh (results s') = Inr (old @ (x # new)) \<and>
      length (x # new) = length (c # ranks)" by simp
  then show ?case by blast
qed

lemma mesh_sweep_other_keys:
  "mesh_sweep lib mesh ranks s = (None, s') \<Longrightarrow> k \<noteq> mesh \<Longrightarrow>
     dict_get k (results s') = dict_get k (results s)"
proof (induction ranks arbitrary: s)
  case Nil
  then show ?case by simp
next
  case (Cons c ranks)
  obtain r1 s1 where st: "mesh_step lib mesh c s = (r1, s1)" by force
  with Cons.prems have r1: "r1 = None" and sw: "mesh_sweep lib mesh ranks s1 = (None, s')"
    by (auto split: option.splits)
  from st [unfolded r1] obtain x where "dict_append mesh x (results s) = Inr (results s1)"
    by (rule mesh_step_NoneE) simp
  from dict_append_other [OF this Cons.prems(2)] Cons.IH [OF sw Cons.prems(2)]
  show ?case by simp
qed

subsection \<open>The seeded \<open>\<lambda>\<close> sweep\<close>

lemma lambda_step_NoneE:
  assumes "lambda_step lib c s = (None, s')"
  obtains k g1 h g2 lam g3 emp2 g4 where
    "solve_kmeans_kpisdf lib (mf s) (c * word_of_int (num_spatial_orbs s)) (rng s) = (Inr k, g1)"
    "KPTHCHelperDoubleTranslation lib k (mf s) g1 = (Inr h, g2)"
    "compute_lambda lib (hcore s) h g2 = (Inr lam, g3)"
    "compute_emp2_approx lib (mf s) h g3 = (Inr emp2, g4)"
    "s' = s\<lparr>num_thc := c * word_of_int (num_spatial_orbs s), rng := g4,
            stdout := stdout s @
              Mp2Error c \<bar>emp2 - e_tot lib (mf s) - emp2_exact s\<bar> lam #
              (if \<bar>emp2 - e_tot lib (mf s) - emp2_exact s\<bar> < 1 / 10000
               then [Mp2Below c \<bar>emp2 - e_tot lib (mf s) - emp2_exact s\<bar> lam] else [])\<rparr>"
  using assms
  by (auto simp: lambda_step_def Let_def split: prod.splits sum.splits if_splits)

lemma lambda_step_emp2_exact: "emp2_exact (snd (lambda_step lib c s)) = emp2_exact s"
  by (auto simp: lambda_step_def Let_def split: prod.splits sum.splits)

lemma lambda_sweep_emp2_exact: "emp2_exact (snd (lambda_sweep lib ranks s)) = emp2_exact s"
proof (induction ranks arbitrary: s)
  case Nil
  then show ?case by simp
next
  case (Cons c ranks)
  from lambda_step_emp2_exact [of lib c s] Cons.IH show ?case
    by (cases "lambda_step lib c s") (auto split: option.splits)
qed

lemma lambda_step_sim:
  assumes "same_inputs s t"
  shows "\<exists>r s' t' out.
           lambda_step lib c s = (r, s') \<and> lambda_step lib c t = (r, t') \<and> same_inputs s' t' \<and>
           stdout s' = stdout s @ out \<and> stdout t' = stdout t @ out"
  using assms
  by (auto simp: lambda_step_def same_inputs_def Let_def split: prod.splits sum.splits)

lemma lambda_sweep_sim:
  "same_inputs s t \<Longrightarrow>
     \<exists>r s' t' out.
       lambda_sweep lib ranks s = (r, s') \<and> lambda_sweep lib ranks t = (r, t') \<and>
       same_inputs s' t' \<and> stdout s' = stdout s @ out \<and> stdout t' = stdout t @ out"
proof (induction ranks arbitrary: s t)
  case Nil
  then show ?case by simp
next
  case (Cons c ranks)
  from lambda_step_sim [OF Cons.prems, of lib c] obtain r1 s1 t1 out where
    st: "lambda_step lib c s = (r1, s1)" "lambda_step lib c t = (r1, t1)"
    and si: "same_inputs s1 t1"
    and d: "stdout s1 = stdout s @ out" "stdout t1 = stdout t @ out"
    by blast
  show ?case
  proof (cases r1)
    case None
    from Cons.IH [OF si] obtain r s' t' out' where
      sw: "lambda_sweep lib ranks s1 = (r, s')" "lambda_sweep lib ranks t1 = (r, t')"
      and si': "same_inputs s' t'"
      and d': "stdout s' = stdout s1 @ out'" "stdout t' = stdout t1 @ out'"
      by blast
    from None st sw have "lambda_sweep lib (c # ranks) s = (r, s')"
      "lambda_sweep lib (c # ranks) t = (r, t')" by simp_all
    moreover from d d' have "stdout s' = stdout s @ (out @ out')"
      "stdout t' = stdout t @ (out @ out')" by simp_all
    ultimately show ?thesis using si' by blast
  next
    case (Some e)
    with st have "lambda_sweep lib (c # ranks) s = (r1, s1)"
      "lambda_sweep lib (c # ranks) t = (r1, t1)" by simp_all
    with si d show ?thesis by blast
  qed
qed

lemma lambda_step_frame:
  "mf (snd (lambda_step lib c s)) = mf s \<and>
   num_kpts (snd (lambda_step lib c s)) = num_kpts s \<and>
   num_spatial_orbs (snd (lambda_step lib c s)) = num_spatial_orbs s \<and>
   eri_kindices (snd (lambda_step lib c s)) = eri_kindices s \<and>
   emp2_exact (snd (lambda_step lib c s)) = emp2_exact s \<and>
   hcore (snd (lambda_step lib c s)) = hcore s \<and>
   thc_ranks (snd (lambda_step lib c s)) = thc_ranks s"
  by (auto simp: lambda_step_def Let_def split: prod.splits sum.splits)

lemma lambda_sweep_frame:
  "mf (snd (lambda_sweep lib ranks s)) = mf s \<and>
   num_kpts (snd (lambda_sweep lib ranks s)) = num_kpts s \<and>
   num_spatial_orbs (snd (lambda_sweep lib ranks s)) = num_spatial_orbs s \<and>
   eri_kindices (snd (lambda_sweep lib ranks s)) = eri_kindices s \<and>
   emp2_exact (snd (lambda_sweep lib ranks s)) = emp2_exact s \<and>
   hcore (snd (lambda_sweep lib ranks s)) = hcore s \<and>
   thc_ranks (snd (lambda_sweep lib ranks s)) = thc_ranks s"
proof (induction ranks arbitrary: s)
  case Nil
  then show ?case by simp
next
  case (Cons c ranks)
  from lambda_step_frame [of lib c s] Cons.IH [of "snd (lambda_step lib c s)"] show ?case
    by (cases "lambda_step lib c s") (auto split: option.splits)
qed

lemma lambda_seeded_frame:
  "mf (snd (lambda_seeded lib s)) = mf s \<and>
   num_kpts (snd (lambda_seeded lib s)) = num_kpts s \<and>
   num_spatial_orbs (snd (lambda_seeded lib s)) = num_spatial_orbs s \<and>
   eri_kindices (snd (lambda_seeded lib s)) = eri_kindices s \<and>
   emp2_exact (snd (lambda_seeded lib s)) = emp2_exact s \<and>
   hcore (snd (lambda_seeded lib s)) = hcore s \<and>
   thc_ranks (snd (lambda_seeded lib s)) = thc_ranks s"
  using lambda_sweep_frame [of lib "thc_ranks s"
      "s\<lparr>rng := random_seed lib 7, stdout := stdout s @ [FftdfMp2 (emp2_exact s)]\<rparr>"]
  by (simp add: lambda_seeded_def Let_def)

lemma lambda_seeded_sim:
  assumes "mf s = mf t" "num_kpts s = num_kpts t" "num_spatial_orbs s = num_spatial_orbs t"
    "eri_kindices s = eri_kindices t" "emp2_exact s = emp2_exact t" "hcore s = hcore t"
    "thc_ranks s = thc_ranks t"
  shows "fst (lambda_seeded lib s) = fst (lambda_seeded lib t) \<and>
         printed (lambda_seeded lib) s = printed (lambda_seeded lib) t"
proof -
  let ?s = "s\<lparr>rng := random_seed lib 7, stdout := stdout s @ [FftdfMp2 (emp2_exact s)]\<rparr>"
  let ?t = "t\<lparr>rng := random_seed lib 7, stdout := stdout t @ [FftdfMp2 (emp2_exact t)]\<rparr>"
  from assms have "same_inputs ?s ?t" by (simp add: same_inputs_def)
  from lambda_sweep_sim [OF this, of lib "thc_ranks s"] obtain r s' t' out where
    "lambda_sweep lib (thc_ranks s) ?s = (r, s')" "lambda_sweep lib (thc_ranks s) ?t = (r, t')"
    "stdout s' = stdout ?s @ out" "stdout t' = stdout ?t @ out" by blast
  with assms show ?thesis
    by (simp add: lambda_seeded_def printed_def Let_def)
qed

subsection \<open>What the sweeps record\<close>

lemma mesh_sweep_append:
  "mesh_sweep lib mesh (xs @ ys) s =
     (case mesh_sweep lib mesh xs s of
        (Some e, s') \<Rightarrow> (Some e, s')
      | (None, s') \<Rightarrow> mesh_sweep lib mesh ys s')"
  by (induction xs arbitrary: s) (auto split: prod.splits option.splits)

lemma mesh_step_frame:
  "mf (snd (mesh_step lib mesh c s)) = mf s \<and>
   num_spatial_orbs (snd (mesh_step lib mesh c s)) = num_spatial_orbs s \<and>
   emp2_exact (snd (mesh_step lib mesh c s)) = emp2_exact s"
  by (auto simp: mesh_step_def Let_def split: prod.splits sum.splits)

lemma basis_step_frame:
  "mf (snd (basis_step lib basis c s)) = mf s \<and>
   num_spatial_orbs (snd (basis_step lib basis c s)) = num_spatial_orbs s \<and>
   emp2_exact (snd (basis_step lib basis c s)) = emp2_exact s"
  by (auto simp: basis_step_def Let_def split: prod.splits sum.splits)

lemma rank_step_mp2_entries:
  "rank_step lib c s = (r, s') \<Longrightarrow>
     \<exists>ws. delta_mp2 s' = delta_mp2 s @ ws \<and>
       (\<forall>x\<in>set ws. \<exists>h g g' approx.
          compute_emp2_approx lib (mf s) h g = (Inr approx, g') \<and> x = emp2_exact s - approx)"
  by (auto simp: rank_step_def Let_def split: prod.splits sum.splits) blast

lemma mesh_step_entries:
  "mesh_step lib mesh c s = (r, s') \<Longrightarrow> dict_get mesh (results s) = Inr old \<Longrightarrow>
     \<exists>ws. dict_get mesh (results s') = Inr (old @ ws) \<and>
       (r = None \<longrightarrow> length ws = 1) \<and>
       (\<forall>x\<in>set ws. \<exists>h g g' approx.
          compute_emp2_approx lib (mf s) h g = (Inr approx, g') \<and> x = emp2_exact s - approx)"
proof (cases r)
  case None
  assume st: "mesh_step lib mesh c s = (r, s')" and old: "dict_get mesh (results s) = Inr old"
  from st [unfolded None] obtain h g2 approx g3 where
    e: "compute_emp2_approx lib (mf s) h g2 = (Inr approx, g3)"
    and d: "dict_append mesh (emp2_exact s - approx) (results s) = Inr (results s')"
    by (rule mesh_step_NoneE) simp
  from dict_append_get [OF d old] e
  have "dict_get mesh (results s') = Inr (old @ [emp2_exact s - approx]) \<and>
       (r = None \<longrightarrow> length [emp2_exact s - approx] = 1) \<and>
       (\<forall>x\<in>set [emp2_exact s - approx]. \<exists>h g g' approx.
          compute_emp2_approx lib (mf s) h g = (Inr approx, g') \<and> x = emp2_exact s - approx)"
    by auto
  then show ?thesis by blast
next
  case (Some e)
  assume st: "mesh_step lib mesh c s = (r, s')" and old: "dict_get mesh (results s) = Inr old"
  from st Some have "results s' = results s"
    by (auto simp: mesh_step_def Let_def split: prod.splits sum.splits)
  with old Some have "dict_get mesh (results s') = Inr (old @ []) \<and>
       (r = None \<longrightarrow> length ([] :: real list) = 1) \<and>
       (\<forall>x\<in>set ([] :: real list). \<exists>h g g' approx.
          compute_emp2_approx lib (mf s) h g = (Inr approx, g') \<and> x = emp2_exact s - approx)"
    by simp
  then show ?thesis by blast
qed

lemma basis_step_entries:
  "basis_step lib basis c s = (r, s') \<Longrightarrow> dict_get basis (basis_results s) = Inr old \<Longrightarrow>
     \<exists>ws. dict_get basis (basis_results s') = Inr (old @ ws) \<and>
       (r = None \<longrightarrow> length ws = 1) \<and>
       (\<forall>x\<in>set ws. \<exists>h g g' approx.
          compute_emp2_approx lib (mf s) h g = (Inr approx, g') \<and> x = emp2_exact s - approx)"
proof (cases r)
  case None
  assume st: "basis_step lib basis c s = (r, s')"
    and old: "dict_get basis (basis_results s) = Inr old"
  from st [unfolded None] obtain h g2 approx g3 where
    e: "compute_emp2_approx lib (mf s) h g2 = (Inr approx, g3)"
    and d: "dict_append basis (emp2_exact s - approx) (basis_results s) = Inr (basis_results s')"
    by (rule basis_step_NoneE) simp
  from dict_append_get [OF d old] e
  have "dict_get basis (basis_results s') = Inr (old @ [emp2_exact s - approx]) \<and>
       (r = None \<longrightarrow> length [emp2_exact s - approx] = 1) \<and>
       (\<forall>x\<in>set [emp2_exact s - approx]. \<exists>h g g' approx.
          compute_emp2_approx lib (mf s) h g = (Inr approx, g') \<and> x = emp2_exact s - approx)"
    by auto
  then show ?thesis by blast
next
  case (Some e)
  assume st: "basis_step lib basis c s = (r, s')"
    and old: "dict_get basis (basis_results s) = Inr old"
  from st Some have "basis_results s' = basis_results s"
    by (auto simp: basis_step_def Let_def split: prod.splits sum.splits)
  with old Some have "dict_get basis (basis_results s') = Inr (old @ []) \<and>
       (r = None \<longrightarrow> length ([] :: real list) = 1) \<and>
       (\<forall>x\<in>set ([] :: real list). \<exists>h g g' approx.
          compute_emp2_approx lib (mf s) h g = (Inr approx, g') \<and> x = emp2_exact s - approx)"
    by simp
  then show ?thesis by blast
qed

lemma rank_sweep_mp2_entries:
  "rank_sweep lib ranks s = (r, s') \<Longrightarrow>
     \<exists>ws. delta_mp2 s' = delta_mp2 s @ ws \<and>
       (\<forall>x\<in>set ws. \<exists>h g g' approx.
          compute_emp2_approx lib (mf s) h g = (Inr approx, g') \<and> x = emp2_exact s - approx)"
proof (induction ranks arbitrary: s)
  case Nil
  then show ?case by simp
next
  case (Cons c ranks)
  obtain r1 s1 where st: "rank_step lib c s = (r1, s1)" by force
  from rank_step_mp2_entries [OF st] obtain ws where
    ws: "delta_mp2 s1 = delta_mp2 s @ ws"
    "\<forall>x\<in>set ws. \<exists>h g g' approx.
       compute_emp2_approx lib (mf s) h g = (Inr approx, g') \<and> x = emp2_exact s - approx"
    by blast
  show ?case
  proof (cases r1)
    case None
    with st Cons.prems have "rank_sweep lib ranks s1 = (r, s')" by simp
    from Cons.IH [OF this] rank_step_frame(1,5) [OF st] obtain vs where
      vs: "delta_mp2 s' = delta_mp2 s1 @ vs"
      "\<forall>x\<in>set vs. \<exists>h g g' approx.
         compute_emp2_approx lib (mf s) h g = (Inr approx, g') \<and> x = emp2_exact s - approx"
      by auto
    from ws vs have "delta_mp2 s' = delta_mp2 s @ (ws @ vs) \<and>
       (\<forall>x\<in>set (ws @ vs). \<exists>h g g' approx.
          compute_emp2_approx lib (mf s) h g = (Inr approx, g') \<and> x = emp2_exact s - approx)"
      by auto
    then show ?thesis by blast
  next
    case (Some e)
    with st Cons.prems have "s' = s1" by simp
    with ws show ?thesis by blast
  qed
qed

lemma mesh_sweep_entries:
  "mesh_sweep lib mesh ranks s = (r, s') \<Longrightarrow> dict_get mesh (results s) = Inr old \<Longrightarrow>
     \<exists>ws. dict_get mesh (results s') = Inr (old @ ws) \<and>
       (r = None \<longrightarrow> length ws = length ranks) \<and>
       (\<forall>x\<in>set ws. \<exists>h g g' approx.
          compute_emp2_approx lib (mf s) h g = (Inr approx, g') \<and> x = emp2_exact s - approx)"
proof (induction ranks arbitrary: s old)
  case Nil
  then show ?case by simp
next
  case (Cons c ranks)
  obtain r1 s1 where st: "mesh_step lib mesh c s = (r1, s1)" by force
  from mesh_step_entries [OF st Cons.prems(2)] obtain ws where
    ws: "dict_get mesh (results s1) = Inr (old @ ws)" "r1 = None \<longrightarrow> length ws = 1"
    "\<forall>x\<in>set ws. \<exists>h g g' approx.
       compute_emp2_approx lib (mf s) h g = (Inr approx, g') \<and> x = emp2_exact s - approx"
    by blast
  from mesh_step_frame [of lib mesh c s] st
  have fr: "mf s1 = mf s" "emp2_exact s1 = emp2_exact s" by simp_all
  show ?case
  proof (cases r1)
    case None
    with st Cons.prems have sw: "mesh_sweep lib mesh ranks s1 = (r, s')" by simp
    from Cons.IH [OF sw ws(1)] fr obtain vs where
      vs: "dict_get mesh (results s') = Inr ((old @ ws) @ vs)"
      "r = None \<longrightarrow> length vs = length ranks"
      "\<forall>x\<in>set vs. \<exists>h g g' approx.
         compute_emp2_approx lib (mf s) h g = (Inr approx, g') \<and> x = emp2_exact s - approx"
      by auto
    from ws vs None have "dict_get mesh (results s') = Inr (old @ (ws @ vs)) \<and>
       (r = None \<longrightarrow> length (ws @ vs) = length (c # ranks)) \<and>
       (\<forall>x\<in>set (ws @ vs). \<exists>h g g' approx.
          compute_emp2_approx lib (mf s) h g = (Inr approx, g') \<and> x = emp2_exact s - approx)"
      by auto
    then show ?thesis by blast
  next
    case (Some e)
    with st Cons.prems have "s' = s1" "r = Some e" by simp_all
    with ws show ?thesis by auto
  qed
qed

lemma basis_sweep_entries:
  "basis_sweep lib basis ranks s = (r, s') \<Longrightarrow> dict_get basis (basis_results s) = Inr old \<Longrightarrow>
     \<exists>ws. dict_get basis (basis_results s') = Inr (old @ ws) \<and>
       (r = None \<longrightarrow> length ws = length ranks) \<and>
       (\<forall>x\<in>set ws. \<exists>h g g' approx.
          compute_emp2_approx lib (mf s) h g = (Inr approx, g') \<and> x = emp2_exact s - approx)"
proof (induction ranks arbitrary: s old)
  case Nil
  then show ?case by simp
next
  case (Cons c ranks)
  obtain r1 s1 where st: "basis_step lib basis c s = (r1, s1)" by force
  from basis_step_entries [OF st Cons.prems(2)] obtain ws where
    ws: "dict_get basis (basis_results s1) = Inr (old @ ws)" "r1 = None \<longrightarrow> length ws = 1"
    "\<forall>x\<in>set ws. \<exists>h g g' approx.
       compute_emp2_approx lib (mf s) h g = (Inr approx, g') \<and> x = emp2_exact s - approx"
    by blast
  from basis_step_frame [of lib basis c s] st
  have fr: "mf s1 = mf s" "emp2_exact s1 = emp2_exact s" by simp_all
  show ?case
  proof (cases r1)
    case None
    with st Cons.prems have sw: "basis_sweep lib basis ranks s1 = (r, s')" by simp
    from Cons.IH [OF sw ws(1)] fr obtain vs where
      vs: "dict_get basis (basis_results s') = Inr ((old @ ws) @ vs)"
      "r = None \<longrightarrow> length vs = length ranks"
      "\<forall>x\<in>set vs. \<exists>h g g' approx.
         compute_emp2_approx lib (mf s) h g = (Inr approx, g') \<and> x = emp2_exact s - approx"
      by auto
    from ws vs None have "dict_get basis (basis_results s') = Inr (old @ (ws @ vs)) \<and>
       (r = None \<longrightarrow> length (ws @ vs) = length (c # ranks)) \<and>
       (\<forall>x\<in>set (ws @ vs). \<exists>h g g' approx.
          compute_emp2_approx lib (mf s) h g = (Inr approx, g') \<and> x = emp2_exact s - approx)"
      by auto
    then show ?thesis by blast
  next
    case (Some e)
    with st Cons.prems have "s' = s1" "r = Some e" by simp_all
    with ws show ?thesis by auto
  qed
qed

lemma mesh_sweep_entry:
  assumes all: "mesh_sweep lib mesh (pre @ c # post) s = (None, u)"
    and pre: "mesh_sweep lib mesh pre s = (None, s1)"
    and old: "dict_get mesh (results s) = Inr old"
  shows "\<exists>l1 lu. dict_get mesh (results (snd (mesh_step lib mesh c s1))) = Inr l1 \<and>
           dict_get mesh (results u) = Inr lu \<and>
           length l1 = length old + length pre + 1 \<and> prefix l1 lu \<and>
           lu ! (length old + length pre) = last l1"
proof -
  from all pre have rest: "mesh_sweep lib mesh (c # post) s1 = (None, u)"
    by (simp add: mesh_sweep_append)
  obtain r2 s2 where st: "mesh_step lib mesh c s1 = (r2, s2)" by force
  with rest have r2: "r2 = None" and post: "mesh_sweep lib mesh post s2 = (None, u)"
    by (auto split: option.splits)
  from mesh_sweep_entries [OF pre old] obtain ws where
    ws: "dict_get mesh (results s1) = Inr (old @ ws)" "length ws = length pre" by auto
  from mesh_step_entries [OF st ws(1)] r2 obtain xs where
    xs: "dict_get mesh (results s2) = Inr ((old @ ws) @ xs)" "length xs = 1" by auto
  from mesh_sweep_entries [OF post xs(1)] obtain vs where
    vs: "dict_get mesh (results u) = Inr (((old @ ws) @ xs) @ vs)" by auto
  from xs(2) obtain x where x: "xs = [x]" by (cases xs) auto
  let ?l1 = "(old @ ws) @ xs" and ?lu = "((old @ ws) @ xs) @ vs"
  have "dict_get mesh (results (snd (mesh_step lib mesh c s1))) = Inr ?l1 \<and>
           dict_get mesh (results u) = Inr ?lu \<and>
           length ?l1 = length old + length pre + 1 \<and> prefix ?l1 ?lu \<and>
           ?lu ! (length old + length pre) = last ?l1"
    using st xs vs ws x by (simp add: nth_append)
  then show ?thesis by blast
qed

lemma lambda_step_printed:
  "lambda_step lib c s = (r, s') \<Longrightarrow>
     \<exists>out. stdout s' = stdout s @ out \<and>
       (\<forall>l\<in>set out. \<exists>c' h g g' emp2 lam.
          compute_emp2_approx lib (mf s) h g = (Inr emp2, g') \<and>
          (l = Mp2Error c' (abs (emp2 - e_tot lib (mf s) - emp2_exact s)) lam \<or>
           l = Mp2Below c' (abs (emp2 - e_tot lib (mf s) - emp2_exact s)) lam))"
proof (cases r)
  case None
  assume "lambda_step lib c s = (r, s')"
  with None obtain h g3 emp2 g4 lam where
    e: "compute_emp2_approx lib (mf s) h g3 = (Inr emp2, g4)"
    and w: "stdout s' = stdout s @
              Mp2Error c (abs (emp2 - e_tot lib (mf s) - emp2_exact s)) lam #
              (if (abs (emp2 - e_tot lib (mf s) - emp2_exact s)) < 1 / 10000
               then [Mp2Below c (abs (emp2 - e_tot lib (mf s) - emp2_exact s)) lam] else [])"
    by (auto elim!: lambda_step_NoneE)
  let ?out = "Mp2Error c (abs (emp2 - e_tot lib (mf s) - emp2_exact s)) lam #
              (if (abs (emp2 - e_tot lib (mf s) - emp2_exact s)) < 1 / 10000
               then [Mp2Below c (abs (emp2 - e_tot lib (mf s) - emp2_exact s)) lam] else [])"
  from e have "\<forall>l\<in>set ?out. \<exists>c' h g g' emp2 lam.
          compute_emp2_approx lib (mf s) h g = (Inr emp2, g') \<and>
          (l = Mp2Error c' (abs (emp2 - e_tot lib (mf s) - emp2_exact s)) lam \<or>
           l = Mp2Below c' (abs (emp2 - e_tot lib (mf s) - emp2_exact s)) lam)"
    by (auto split: if_splits)
  with w show ?thesis by blast
next
  case (Some e)
  assume "lambda_step lib c s = (r, s')"
  with Some have "stdout s' = stdout s @ []"
    by (auto simp: lambda_step_def Let_def split: prod.splits sum.splits if_splits)
  then show ?thesis by (intro exI [of _ "[]"]) simp
qed

lemma lambda_sweep_printed:
  "lambda_sweep lib ranks s = (r, s') \<Longrightarrow>
     \<exists>out. stdout s' = stdout s @ out \<and>
       (\<forall>l\<in>set out. \<exists>c' h g g' emp2 lam.
          compute_emp2_approx lib (mf s) h g = (Inr emp2, g') \<and>
          (l = Mp2Error c' (abs (emp2 - e_tot lib (mf s) - emp2_exact s)) lam \<or>
           l = Mp2Below c' (abs (emp2 - e_tot lib (mf s) - emp2_exact s)) lam))"
proof (induction ranks arbitrary: s)
  case Nil
  then show ?case by simp
next
  case (Cons c ranks)
  obtain r1 s1 where st: "lambda_step lib c s = (r1, s1)" by force
  from lambda_step_printed [OF st] obtain out where
    out: "stdout s1 = stdout s @ out"
    "\<forall>l\<in>set out. \<exists>c' h g g' emp2 lam.
          compute_emp2_approx lib (mf s) h g = (Inr emp2, g') \<and>
          (l = Mp2Error c' (abs (emp2 - e_tot lib (mf s) - emp2_exact s)) lam \<or>
           l = Mp2Below c' (abs (emp2 - e_tot lib (mf s) - emp2_exact s)) lam)"
    by blast
  from lambda_step_frame [of lib c s] st
  have fr: "mf s1 = mf s" "emp2_exact s1 = emp2_exact s" by simp_all
  show ?case
  proof (cases r1)
    case None
    with st Cons.prems have "lambda_sweep lib ranks s1 = (r, s')" by simp
    from Cons.IH [OF this] fr obtain out' where
      out': "stdout s' = stdout s1 @ out'"
      "\<forall>l\<in>set out'. \<exists>c' h g g' emp2 lam.
          compute_emp2_approx lib (mf s) h g = (Inr emp2, g') \<and>
          (l = Mp2Error c' (abs (emp2 - e_tot lib (mf s) - emp2_exact s)) lam \<or>
           l = Mp2Below c' (abs (emp2 - e_tot lib (mf s) - emp2_exact s)) lam)"
      by auto
    from out out' have "stdout s' = stdout s @ (out @ out') \<and>
       (\<forall>l\<in>set (out @ out'). \<exists>c' h g g' emp2 lam.
          compute_emp2_approx lib (mf s) h g = (Inr emp2, g') \<and>
          (l = Mp2Error c' (abs (emp2 - e_tot lib (mf s) - emp2_exact s)) lam \<or>
           l = Mp2Below c' (abs (emp2 - e_tot lib (mf s) - emp2_exact s)) lam))"
      by auto
    then show ?thesis by blast
  next
    case (Some e)
    with st Cons.prems have "s' = s1" by simp
    with out show ?thesis by blast
  qed
qed

lemma lambda_seeded_printed:
  assumes "lambda_seeded lib s = (r, u)"
  shows "emp2_exact u = emp2_exact s \<and>
     (\<exists>out. stdout u = stdout s @ FftdfMp2 (emp2_exact s) # out \<and>
       (\<forall>l\<in>set out. \<exists>c' h g g' emp2 lam.
          compute_emp2_approx lib (mf s) h g = (Inr emp2, g') \<and>
          (l = Mp2Error c' (abs (emp2 - e_tot lib (mf s) - emp2_exact s)) lam \<or>
           l = Mp2Below c' (abs (emp2 - e_tot lib (mf s) - emp2_exact s)) lam)))"
proof -
  let ?s2 = "s\<lparr>rng := random_seed lib 7, stdout := stdout s @ [FftdfMp2 (emp2_exact s)]\<rparr>"
  from assms have sw: "lambda_sweep lib (thc_ranks s) ?s2 = (r, u)"
    by (simp add: lambda_seeded_def Let_def)
  from lambda_sweep_printed [OF sw] lambda_sweep_emp2_exact [of lib "thc_ranks s" ?s2] sw
  show ?thesis by auto
qed

subsection \<open>The cells: the statements before a loop, then the loop\<close>

lemma mesh_setup_NoneE:
  assumes "mesh_setup lib mesh s = (None, s5)"
  obtains cl g0 m0 g0' m g1 e g2 where
    "build_cell lib ''gth-szv'' mesh False (rng s) = (Inr cl, g0)"
    "KRHF lib cl g0 = (Inr m0, g0')"
    "scf_kernel lib m0 g0' = (Inr m, g1)"
    "kmp2_kernel lib m g1 = (Inr e, g2)"
    "mf s5 = m" "emp2_exact s5 = e + e_tot lib m" "rng s5 = g2"
    "thc_ranks s5 = arange_2_20_2"
    "num_spatial_orbs s5 = num_spatial_orbs s" "results s5 = results s"
  using assms
  by (auto simp: mesh_setup_def Let_def split: prod.splits sum.splits)

lemma basis_setup_NoneE:
  assumes "basis_setup lib basis s = (None, s6)"
  obtains cl g0 m0 g0' m g1 e g2 where
    "build_cell lib basis 15 True (rng s) = (Inr cl, g0)"
    "KRHF lib cl g0 = (Inr m0, g0')"
    "scf_kernel lib m0 g0' = (Inr m, g1)"
    "kmp2_kernel lib m g1 = (Inr e, g2)"
    "mf s6 = m" "emp2_exact s6 = e + e_tot lib m" "rng s6 = g2"
    "thc_ranks s6 = arange_2_20_2"
    "num_spatial_orbs s6 = mo_dim lib m" "basis_results s6 = basis_results s"
  using assms
  by (auto simp: basis_setup_def Let_def split: prod.splits sum.splits)

lemma rank_setup_NoneE:
  assumes "rank_setup lib s = (None, s4)"
  obtains cc g1 eri g2 e g3 where
    "build_cc_inst lib (mf s) (rng s) = (Inr cc, g1)"
    "ao2mo lib cc g1 = (Inr eri, g2)"
    "init_amps lib cc eri g2 = (Inr e, g3)"
    "mf s4 = mf s" "emp2_exact s4 = e + e_tot lib (mf s)" "eri_exact s4 = eri" "rng s4 = g3"
    "thc_ranks s4 = arange_2_20_2" "delta_eri s4 = []" "delta_mp2 s4 = []"
  using assms
  by (auto simp: rank_setup_def Let_def split: prod.splits sum.splits)

lemma lambda_setup_NoneE:
  assumes "lambda_setup lib s = (None, s7)"
  obtains cl g0 m0 g0' m g1 hc g2 cc g3 eri g4 e g5 where
    "build_cell lib ''gth-dzv'' 15 False (rng s) = (Inr cl, g0)"
    "KRHF lib cl g0 = (Inr m0, g0')"
    "scf_kernel lib m0 g0' = (Inr m, g1)"
    "mo_hcore lib m g1 = (Inr hc, g2)"
    "build_cc_inst lib m g2 = (Inr cc, g3)"
    "ao2mo lib cc g3 = (Inr eri, g4)"
    "init_amps lib cc eri g4 = (Inr e, g5)"
    "mf s7 = m" "emp2_exact s7 = e" "hcore s7 = hc" "rng s7 = g5"
    "thc_ranks s7 = arange_2_20_2" "num_spatial_orbs s7 = hcore_dim lib hc"
  using assms
  by (auto simp: lambda_setup_def Let_def split: prod.splits sum.splits)

lemma mesh_config_NoneE:
  assumes "mesh_config lib mesh s = (None, u)"
  obtains s5 where "mesh_setup lib mesh s = (None, s5)"
    "mesh_sweep lib mesh (thc_ranks s5) s5 = (None, u)"
  using assms by (auto simp: mesh_config_def split: prod.splits option.splits)

lemma basis_config_NoneE:
  assumes "basis_config lib basis s = (None, u)"
  obtains s6 where "basis_setup lib basis s = (None, s6)"
    "basis_sweep lib basis (thc_ranks s6) s6 = (None, u)"
  using assms by (auto simp: basis_config_def split: prod.splits option.splits)

lemma rank_cell_NoneE:
  assumes "rank_cell lib s = (None, u)"
  obtains s4 where "rank_setup lib s = (None, s4)"
    "rank_sweep lib (thc_ranks s4) s4 = (None, u)"
  using assms by (auto simp: rank_cell_def split: prod.splits option.splits)

lemma lambda_cell_NoneE:
  assumes "lambda_cell lib s = (None, u)"
  obtains s7 where "lambda_setup lib s = (None, s7)" "lambda_seeded lib s7 = (None, u)"
  using assms by (auto simp: lambda_cell_def split: prod.splits option.splits)

lemma basis_sweep_emp2_exactD:
  "basis_sweep lib basis ranks s = (r, u) \<Longrightarrow> emp2_exact u = emp2_exact s"
  using basis_sweep_emp2_exact [of lib basis ranks s] by simp

lemma rank_sweep_emp2_exactD:
  "rank_sweep lib ranks s = (r, u) \<Longrightarrow> emp2_exact u = emp2_exact s"
  using rank_sweep_emp2_exact [of lib ranks s] by simp

subsection \<open>Running the test data\<close>

lemmas run_simps = rank_step_def toy_lib_def strict_lib_def toy_state_def max_abs_diff_def Let_def

section \<open>One record entry per rank parameter\<close>

text \<open>
  Claim C1, as amended. When the library calls of the THC-rank sweep never raise, the
  sweep ends without an exception. A sweep that ends without an exception has added
  exactly one entry to \<^verbatim>\<open>delta_eri\<close> and one to \<^verbatim>\<open>delta_mp2\<close> for every rank
  parameter, and the entry at the position of a parameter is the one its iteration
  appended (input order). At every point of the sweep, whatever its outcome, the lists
  so far are a prefix of the final lists: no entry is overwritten or removed. The inner
  loop of the mesh sweep that ends without an exception likewise extends
  \<^verbatim>\<open>results[mesh]\<close> by one entry per rank parameter, the entry at the position of a
  parameter being the one its iteration appended, and leaves the lists of the other
  meshes as they were; whatever its outcome, the list so far is a prefix of the final
  list.
\<close>

theorem rank_sweep_one_entry_per_rank:
  "(rank_calls_succeed lib \<longrightarrow> fst (rank_sweep lib ranks s) = None) \<and>
   (rank_sweep lib ranks s = (None, s') \<longrightarrow>
      length (delta_eri s') = length (delta_eri s) + length ranks \<and>
      length (delta_mp2 s') = length (delta_mp2 s) + length ranks \<and>
      (\<forall>pre c post s1. ranks = pre @ c # post \<longrightarrow> rank_sweep lib pre s = (None, s1) \<longrightarrow>
         length (delta_eri s1) = length (delta_eri s) + length pre \<and>
         length (delta_mp2 s1) = length (delta_mp2 s) + length pre \<and>
         delta_eri s' ! length (delta_eri s1) = last (delta_eri (snd (rank_step lib c s1))) \<and>
         delta_mp2 s' ! length (delta_mp2 s1) = last (delta_mp2 (snd (rank_step lib c s1))))) \<and>
   (\<forall>pre post r1 s1. ranks = pre @ post \<longrightarrow> rank_sweep lib pre s = (r1, s1) \<longrightarrow>
      prefix (delta_eri s) (delta_eri s1) \<and>
      prefix (delta_eri s1) (delta_eri (snd (rank_sweep lib ranks s))) \<and>
      prefix (delta_mp2 s) (delta_mp2 s1) \<and>
      prefix (delta_mp2 s1) (delta_mp2 (snd (rank_sweep lib ranks s)))) \<and>
   (mesh_sweep lib mesh ranks s = (None, u) \<longrightarrow> dict_get mesh (results s) = Inr old \<longrightarrow>
      (\<exists>new. dict_get mesh (results u) = Inr (old @ new) \<and> length new = length ranks) \<and>
      (\<forall>k. k \<noteq> mesh \<longrightarrow> dict_get k (results u) = dict_get k (results s)) \<and>
      (\<forall>pre c post s1. ranks = pre @ c # post \<longrightarrow> mesh_sweep lib mesh pre s = (None, s1) \<longrightarrow>
         (\<exists>l1 lu. dict_get mesh (results (snd (mesh_step lib mesh c s1))) = Inr l1 \<and>
            dict_get mesh (results u) = Inr lu \<and>
            length l1 = length old + length pre + 1 \<and> prefix l1 lu \<and>
            lu ! (length old + length pre) = last l1))) \<and>
   (dict_get mesh (results s) = Inr old \<longrightarrow>
      (\<forall>pre post r1 s1. ranks = pre @ post \<longrightarrow> mesh_sweep lib mesh pre s = (r1, s1) \<longrightarrow>
         (\<exists>l1 lu. dict_get mesh (results s1) = Inr l1 \<and>
            dict_get mesh (results (snd (mesh_sweep lib mesh ranks s))) = Inr lu \<and>
            prefix old l1 \<and> prefix l1 lu)))"
proof (intro conjI impI allI)
  assume "rank_calls_succeed lib"
  then show "fst (rank_sweep lib ranks s) = None" by (rule rank_sweep_succeeds)
next
  assume "rank_sweep lib ranks s = (None, s')"
  then show "length (delta_eri s') = length (delta_eri s) + length ranks"
    by (simp add: rank_sweep_length)
next
  assume "rank_sweep lib ranks s = (None, s')"
  then show "length (delta_mp2 s') = length (delta_mp2 s) + length ranks"
    by (simp add: rank_sweep_length)
next
  fix pre c post s1
  assume "rank_sweep lib pre s = (None, s1)"
  then show "length (delta_eri s1) = length (delta_eri s) + length pre"
    by (simp add: rank_sweep_length)
next
  fix pre c post s1
  assume "rank_sweep lib pre s = (None, s1)"
  then show "length (delta_mp2 s1) = length (delta_mp2 s) + length pre"
    by (simp add: rank_sweep_length)
next
  fix pre c post s1
  assume "rank_sweep lib ranks s = (None, s')" "ranks = pre @ c # post"
    "rank_sweep lib pre s = (None, s1)"
  then show "delta_eri s' ! length (delta_eri s1) = last (delta_eri (snd (rank_step lib c s1)))"
    using rank_sweep_entry [of lib pre c post s s' s1] by simp
next
  fix pre c post s1
  assume "rank_sweep lib ranks s = (None, s')" "ranks = pre @ c # post"
    "rank_sweep lib pre s = (None, s1)"
  then show "delta_mp2 s' ! length (delta_mp2 s1) = last (delta_mp2 (snd (rank_step lib c s1)))"
    using rank_sweep_entry [of lib pre c post s s' s1] by simp
next
  fix pre post r1 s1
  assume "rank_sweep lib pre s = (r1, s1)"
  then show "prefix (delta_eri s) (delta_eri s1)" "prefix (delta_mp2 s) (delta_mp2 s1)"
    by (simp_all add: rank_sweep_prefix)
next
  fix pre post r1 s1
  assume sp: "ranks = pre @ post" and pre: "rank_sweep lib pre s = (r1, s1)"
  have "prefix (delta_eri s1) (delta_eri (snd (rank_sweep lib ranks s))) \<and>
        prefix (delta_mp2 s1) (delta_mp2 (snd (rank_sweep lib ranks s)))"
  proof (cases r1)
    case None
    with sp pre have "rank_sweep lib ranks s = rank_sweep lib post s1"
      by (simp add: rank_sweep_append)
    then show ?thesis
      using rank_sweep_prefix [of lib post s1] by (cases "rank_sweep lib post s1") simp
  next
    case (Some e)
    with sp pre have "rank_sweep lib ranks s = (Some e, s1)"
      by (simp add: rank_sweep_append)
    then show ?thesis by simp
  qed
  then show "prefix (delta_eri s1) (delta_eri (snd (rank_sweep lib ranks s)))"
    "prefix (delta_mp2 s1) (delta_mp2 (snd (rank_sweep lib ranks s)))" by simp_all
next
  assume "mesh_sweep lib mesh ranks s = (None, u)" "dict_get mesh (results s) = Inr old"
  then show "\<exists>new. dict_get mesh (results u) = Inr (old @ new) \<and> length new = length ranks"
    by (rule mesh_sweep_results)
next
  fix k
  assume "mesh_sweep lib mesh ranks s = (None, u)" "k \<noteq> mesh"
  then show "dict_get k (results u) = dict_get k (results s)"
    by (rule mesh_sweep_other_keys)
next
  fix pre c post s1
  assume "mesh_sweep lib mesh ranks s = (None, u)" "dict_get mesh (results s) = Inr old"
    "ranks = pre @ c # post" "mesh_sweep lib mesh pre s = (None, s1)"
  then show "\<exists>l1 lu. dict_get mesh (results (snd (mesh_step lib mesh c s1))) = Inr l1 \<and>
            dict_get mesh (results u) = Inr lu \<and>
            length l1 = length old + length pre + 1 \<and> prefix l1 lu \<and>
            lu ! (length old + length pre) = last l1"
    using mesh_sweep_entry [of lib mesh pre c post s u s1 old] by simp
next
  fix pre post r1 s1
  assume old: "dict_get mesh (results s) = Inr old" and sp: "ranks = pre @ post"
    and pre: "mesh_sweep lib mesh pre s = (r1, s1)"
  from mesh_sweep_entries [OF pre old] obtain ws where
    l1: "dict_get mesh (results s1) = Inr (old @ ws)" by blast
  obtain r2 s2 where post: "mesh_sweep lib mesh post s1 = (r2, s2)" by force
  from mesh_sweep_entries [OF post l1] obtain vs where
    l2: "dict_get mesh (results s2) = Inr ((old @ ws) @ vs)" by blast
  have "dict_get mesh (results (snd (mesh_sweep lib mesh ranks s))) = Inr (old @ ws) \<or>
        dict_get mesh (results (snd (mesh_sweep lib mesh ranks s))) = Inr ((old @ ws) @ vs)"
    using sp pre post l1 l2 by (cases r1) (simp_all add: mesh_sweep_append)
  then have "\<exists>lu. dict_get mesh (results (snd (mesh_sweep lib mesh ranks s))) = Inr lu \<and>
      prefix (old @ ws) lu"
    by (elim disjE) (simp_all add: prefix_def)
  with l1 show "\<exists>l1 lu. dict_get mesh (results s1) = Inr l1 \<and>
            dict_get mesh (results (snd (mesh_sweep lib mesh ranks s))) = Inr lu \<and>
            prefix old l1 \<and> prefix l1 lu"
    by auto
qed

theorem rank_sweep_one_entry_per_rank_witness:
  "rank_calls_succeed toy_lib \<and>
   fst (rank_sweep toy_lib [2, 4] toy_state) = None \<and>
   rank_sweep toy_lib [2] toy_state =
     (None, toy_state\<lparr>num_thc := 16, eri_exact := [0, 0], delta_eri := [1],
                       delta_mp2 := [3 / 4], rng := 1\<rparr>) \<and>
   rank_sweep toy_lib [2, 4] toy_state =
     (None, toy_state\<lparr>num_thc := 32, eri_exact := [0, 0], delta_eri := [1, 1],
                       delta_mp2 := [3 / 4, - 1 / 4], rng := 2\<rparr>) \<and>
   length [1, 1 :: real] = length (delta_eri toy_state) + length [2, 4 :: int64] \<and>
   [3 / 4, - 1 / 4] ! 1 =
     last (delta_mp2 (snd (rank_step toy_lib 4
       (toy_state\<lparr>num_thc := 16, eri_exact := [0, 0], delta_eri := [1],
                   delta_mp2 := [3 / 4], rng := 1\<rparr>)))) \<and>
   prefix [1] (delta_eri (snd (rank_sweep toy_lib [2, 4] toy_state))) \<and>
   mesh_sweep toy_lib 11 [2, 4] toy_state =
     (None, snd (mesh_sweep toy_lib 11 [2, 4] toy_state)) \<and>
   mesh_sweep toy_lib 11 [2] toy_state = (None, snd (mesh_sweep toy_lib 11 [2] toy_state)) \<and>
   dict_get 11 (results toy_state) = Inr [] \<and>
   (\<exists>new. dict_get 11 (results (snd (mesh_sweep toy_lib 11 [2, 4] toy_state))) =
      Inr ([] @ new) \<and> length new = length [2, 4 :: int64]) \<and>
   dict_get 11 (results (snd (mesh_sweep toy_lib 11 [2, 4] toy_state))) = Inr [3 / 4, - 1 / 4] \<and>
   (\<exists>l1 lu.
      dict_get 11 (results (snd (mesh_step toy_lib 11 4
        (snd (mesh_sweep toy_lib 11 [2] toy_state))))) = Inr l1 \<and>
      dict_get 11 (results (snd (mesh_sweep toy_lib 11 [2, 4] toy_state))) = Inr lu \<and>
      length l1 = length ([] :: real list) + length [2 :: int64] + 1 \<and> prefix l1 lu \<and>
      lu ! (length ([] :: real list) + length [2 :: int64]) = last l1) \<and>
   (\<exists>l1 lu. dict_get 11 (results (snd (mesh_sweep toy_lib 11 [2] toy_state))) = Inr l1 \<and>
      dict_get 11 (results (snd (mesh_sweep toy_lib 11 [2, 4] toy_state))) = Inr lu \<and>
      prefix [] l1 \<and> prefix l1 lu)"
proof -
  let ?s1 = "toy_state\<lparr>num_thc := 16, eri_exact := [0, 0], delta_eri := [1],
                       delta_mp2 := [3 / 4], rng := 1\<rparr>"
  let ?s2 = "toy_state\<lparr>num_thc := 32, eri_exact := [0, 0], delta_eri := [1, 1],
                       delta_mp2 := [3 / 4, - 1 / 4], rng := 2\<rparr>"
  note T = rank_sweep_one_entry_per_rank [where lib = toy_lib and ranks = "[2, 4]"
      and s = toy_state and s' = ?s2 and mesh = 11
      and u = "snd (mesh_sweep toy_lib 11 [2, 4] toy_state)" and old = "[]"]
  have ok: "rank_calls_succeed toy_lib"
    by (simp add: rank_calls_succeed_def toy_lib_def)
  have pre: "rank_sweep toy_lib [2] toy_state = (None, ?s1)"
    by (simp add: rank_step_def toy_lib_def toy_state_def max_abs_diff_def Let_def)
  have run: "rank_sweep toy_lib [2, 4] toy_state = (None, ?s2)"
    by (simp add: rank_step_def toy_lib_def toy_state_def max_abs_diff_def Let_def)
  have split1: "[2, 4] = [2] @ 4 # ([] :: int64 list)" and split2: "[2, 4] = [2] @ [4 :: int64]"
    by simp_all
  have mesh: "mesh_sweep toy_lib 11 [2, 4] toy_state =
     (None, snd (mesh_sweep toy_lib 11 [2, 4] toy_state))"
    by (simp add: mesh_step_def dict_append_def toy_lib_def toy_state_def Let_def)
  have mpre: "mesh_sweep toy_lib 11 [2] toy_state =
     (None, snd (mesh_sweep toy_lib 11 [2] toy_state))"
    by (simp add: mesh_step_def dict_append_def toy_lib_def toy_state_def Let_def)
  have old: "dict_get 11 (results toy_state) = Inr []"
    by (simp add: dict_get_def toy_state_def)
  have res: "dict_get 11 (results (snd (mesh_sweep toy_lib 11 [2, 4] toy_state))) =
      Inr [3 / 4, - 1 / 4]"
    by (simp add: mesh_step_def dict_append_def dict_get_def toy_lib_def toy_state_def Let_def)
  from T [THEN conjunct1, THEN mp, OF ok]
  have fin: "fst (rank_sweep toy_lib [2, 4] toy_state) = None" .
  note D = T [THEN conjunct2, THEN conjunct1, THEN mp, OF run]
  from D [THEN conjunct1]
  have len: "length [1, 1 :: real] = length (delta_eri toy_state) + length [2, 4 :: int64]"
    by simp
  from D [THEN conjunct2, THEN conjunct2, rule_format, OF split1 pre]
  have ent: "[3 / 4, - 1 / 4] ! 1 = last (delta_mp2 (snd (rank_step toy_lib 4 ?s1)))"
    by simp
  from T [THEN conjunct2, THEN conjunct2, THEN conjunct1, rule_format, OF split2 pre]
  have pfx: "prefix [1] (delta_eri (snd (rank_sweep toy_lib [2, 4] toy_state)))"
    by simp
  note M = T [THEN conjunct2, THEN conjunct2, THEN conjunct2, THEN conjunct1, THEN mp, THEN mp,
      OF mesh old]
  from M [THEN conjunct1]
  have new: "\<exists>new. dict_get 11 (results (snd (mesh_sweep toy_lib 11 [2, 4] toy_state))) =
      Inr ([] @ new) \<and> length new = length [2, 4 :: int64]" .
  from M [THEN conjunct2, THEN conjunct2, rule_format, OF split1 mpre]
  have ord: "\<exists>l1 lu.
      dict_get 11 (results (snd (mesh_step toy_lib 11 4
        (snd (mesh_sweep toy_lib 11 [2] toy_state))))) = Inr l1 \<and>
      dict_get 11 (results (snd (mesh_sweep toy_lib 11 [2, 4] toy_state))) = Inr lu \<and>
      length l1 = length ([] :: real list) + length [2 :: int64] + 1 \<and> prefix l1 lu \<and>
      lu ! (length ([] :: real list) + length [2 :: int64]) = last l1" .
  from T [THEN conjunct2, THEN conjunct2, THEN conjunct2, THEN conjunct2, THEN mp, OF old,
      rule_format, OF split2 mpre]
  have app: "\<exists>l1 lu. dict_get 11 (results (snd (mesh_sweep toy_lib 11 [2] toy_state))) = Inr l1 \<and>
      dict_get 11 (results (snd (mesh_sweep toy_lib 11 [2, 4] toy_state))) = Inr lu \<and>
      prefix [] l1 \<and> prefix l1 lu" .
  show ?thesis
    by (intro conjI) (rule ok fin pre run len ent pfx mesh mpre old new res ord app)+
qed

text \<open>
  As stated, without the condition on the outcome, C1 fails: a sweep in which a
  library call raises ends with fewer entries than rank parameters.
\<close>

theorem one_entry_per_rank_counterexample:
  "fst (rank_sweep strict_lib [2, 4, 200, 6] toy_state) = Some (LibraryError ''num_thc'') \<and>
   delta_eri (snd (rank_sweep strict_lib [2, 4, 200, 6] toy_state)) = [1, 1] \<and>
   delta_mp2 (snd (rank_sweep strict_lib [2, 4, 200, 6] toy_state)) = [3 / 4, - 1 / 4] \<and>
   length (delta_eri (snd (rank_sweep strict_lib [2, 4, 200, 6] toy_state))) \<noteq>
     length [2, 4, 200, 6 :: int64] \<and>
   length (delta_mp2 (snd (rank_sweep strict_lib [2, 4, 200, 6] toy_state))) \<noteq>
     length [2, 4, 200, 6 :: int64]"
  by (simp add: run_simps)

section \<open>The sign of the recorded deviations\<close>

text \<open>
  Claim C2, as amended. Every entry the THC-rank sweep adds to \<^verbatim>\<open>delta_eri\<close> is
  non-negative, whatever the outcome of the sweep. The MP2 deviation that the rank,
  mesh and basis sweeps store is the signed difference
  \<^verbatim>\<open>emp2_exact - emp2_approx\<close>: it is non-negative exactly when
  \<^verbatim>\<open>emp2_approx <= emp2_exact\<close>. (The notebook takes absolute values only where it
  plots the lists.)
\<close>

theorem recorded_deviation_signs:
  "(rank_sweep lib ranks s = (r, s') \<longrightarrow>
      (\<forall>x\<in>set (drop (length (delta_eri s)) (delta_eri s')). 0 \<le> x)) \<and>
   (rank_step lib c s = (None, t) \<longrightarrow>
      (\<exists>h g g' approx. compute_emp2_approx lib (mf s) h g = (Inr approx, g') \<and>
         delta_mp2 t = delta_mp2 s @ [emp2_exact s - approx] \<and>
         (0 \<le> last (delta_mp2 t) \<longleftrightarrow> approx \<le> emp2_exact s))) \<and>
   (mesh_step lib mesh c s = (None, u) \<longrightarrow> dict_get mesh (results s) = Inr old \<longrightarrow>
      (\<exists>h g g' approx. compute_emp2_approx lib (mf s) h g = (Inr approx, g') \<and>
         dict_get mesh (results u) = Inr (old @ [emp2_exact s - approx]) \<and>
         (0 \<le> emp2_exact s - approx \<longleftrightarrow> approx \<le> emp2_exact s))) \<and>
   (basis_step lib basis c s = (None, v) \<longrightarrow> dict_get basis (basis_results s) = Inr old \<longrightarrow>
      (\<exists>h g g' approx. compute_emp2_approx lib (mf s) h g = (Inr approx, g') \<and>
         dict_get basis (basis_results v) = Inr (old @ [emp2_exact s - approx]) \<and>
         (0 \<le> emp2_exact s - approx \<longleftrightarrow> approx \<le> emp2_exact s)))"
proof (intro conjI impI)
  assume "rank_sweep lib ranks s = (r, s')"
  from rank_sweep_appends [OF this]
  show "\<forall>x\<in>set (drop (length (delta_eri s)) (delta_eri s')). 0 \<le> x" by auto
next
  assume "rank_step lib c s = (None, t)"
  then obtain h g4 approx g5 where
    "compute_emp2_approx lib (mf s) h g4 = (Inr approx, g5)"
    "delta_mp2 t = delta_mp2 s @ [emp2_exact s - approx]"
    by (rule rank_step_NoneE) simp
  then have "compute_emp2_approx lib (mf s) h g4 = (Inr approx, g5) \<and>
         delta_mp2 t = delta_mp2 s @ [emp2_exact s - approx] \<and>
         (0 \<le> last (delta_mp2 t) \<longleftrightarrow> approx \<le> emp2_exact s)" by simp
  then show "\<exists>h g g' approx. compute_emp2_approx lib (mf s) h g = (Inr approx, g') \<and>
         delta_mp2 t = delta_mp2 s @ [emp2_exact s - approx] \<and>
         (0 \<le> last (delta_mp2 t) \<longleftrightarrow> approx \<le> emp2_exact s)" by blast
next
  assume st: "mesh_step lib mesh c s = (None, u)" and old: "dict_get mesh (results s) = Inr old"
  from st obtain h g2 approx g3 where
    e: "compute_emp2_approx lib (mf s) h g2 = (Inr approx, g3)"
    and d: "dict_append mesh (emp2_exact s - approx) (results s) = Inr (results u)"
    by (rule mesh_step_NoneE) simp
  from dict_append_get [OF d old] e
  have "compute_emp2_approx lib (mf s) h g2 = (Inr approx, g3) \<and>
         dict_get mesh (results u) = Inr (old @ [emp2_exact s - approx]) \<and>
         (0 \<le> emp2_exact s - approx \<longleftrightarrow> approx \<le> emp2_exact s)" by simp
  then show "\<exists>h g g' approx. compute_emp2_approx lib (mf s) h g = (Inr approx, g') \<and>
         dict_get mesh (results u) = Inr (old @ [emp2_exact s - approx]) \<and>
         (0 \<le> emp2_exact s - approx \<longleftrightarrow> approx \<le> emp2_exact s)" by blast
next
  assume st: "basis_step lib basis c s = (None, v)"
    and old: "dict_get basis (basis_results s) = Inr old"
  from st obtain h g2 approx g3 where
    e: "compute_emp2_approx lib (mf s) h g2 = (Inr approx, g3)"
    and d: "dict_append basis (emp2_exact s - approx) (basis_results s) = Inr (basis_results v)"
    by (rule basis_step_NoneE) simp
  from dict_append_get [OF d old] e
  have "compute_emp2_approx lib (mf s) h g2 = (Inr approx, g3) \<and>
         dict_get basis (basis_results v) = Inr (old @ [emp2_exact s - approx]) \<and>
         (0 \<le> emp2_exact s - approx \<longleftrightarrow> approx \<le> emp2_exact s)" by simp
  then show "\<exists>h g g' approx. compute_emp2_approx lib (mf s) h g = (Inr approx, g') \<and>
         dict_get basis (basis_results v) = Inr (old @ [emp2_exact s - approx]) \<and>
         (0 \<le> emp2_exact s - approx \<longleftrightarrow> approx \<le> emp2_exact s)" by blast
qed

theorem recorded_deviation_signs_witness:
  "rank_sweep toy_lib [2, 4] toy_state = (None, snd (rank_sweep toy_lib [2, 4] toy_state)) \<and>
   rank_step toy_lib 4 toy_state = (None, snd (rank_step toy_lib 4 toy_state)) \<and>
   mesh_step toy_lib 11 2 toy_state = (None, snd (mesh_step toy_lib 11 2 toy_state)) \<and>
   dict_get 11 (results toy_state) = Inr [] \<and>
   basis_step toy_lib ''gth-szv'' 2 toy_state =
     (None, snd (basis_step toy_lib ''gth-szv'' 2 toy_state)) \<and>
   dict_get ''gth-szv'' (basis_results toy_state) = Inr [] \<and>
   list_all (\<lambda>x. 0 \<le> x) (delta_eri (snd (rank_sweep toy_lib [2, 4] toy_state))) \<and>
   (\<exists>approx. delta_mp2 (snd (rank_step toy_lib 4 toy_state)) =
      delta_mp2 toy_state @ [emp2_exact toy_state - approx] \<and>
      (0 \<le> last (delta_mp2 (snd (rank_step toy_lib 4 toy_state))) \<longleftrightarrow>
       approx \<le> emp2_exact toy_state)) \<and>
   (\<exists>approx. dict_get 11 (results (snd (mesh_step toy_lib 11 2 toy_state))) =
      Inr ([] @ [emp2_exact toy_state - approx])) \<and>
   (\<exists>approx. dict_get ''gth-szv'' (basis_results (snd (basis_step toy_lib ''gth-szv'' 2 toy_state))) =
      Inr ([] @ [emp2_exact toy_state - approx]))"
proof -
  note T = recorded_deviation_signs [where lib = toy_lib and ranks = "[2, 4]"
      and s = toy_state and r = None and s' = "snd (rank_sweep toy_lib [2, 4] toy_state)"
      and c = 4 and t = "snd (rank_step toy_lib 4 toy_state)"]
  note U = recorded_deviation_signs [where lib = toy_lib and s = toy_state and c = 2
      and mesh = 11 and u = "snd (mesh_step toy_lib 11 2 toy_state)" and old = "[]"
      and basis = "''gth-szv''" and v = "snd (basis_step toy_lib ''gth-szv'' 2 toy_state)"]
  have h1: "rank_sweep toy_lib [2, 4] toy_state =
      (None, snd (rank_sweep toy_lib [2, 4] toy_state))"
    by (simp add: run_simps)
  have h2: "rank_step toy_lib 4 toy_state = (None, snd (rank_step toy_lib 4 toy_state))"
    by (simp add: run_simps)
  have h3: "mesh_step toy_lib 11 2 toy_state = (None, snd (mesh_step toy_lib 11 2 toy_state))"
    by (simp add: mesh_step_def dict_append_def toy_lib_def toy_state_def Let_def)
  have h4: "dict_get 11 (results toy_state) = Inr []"
    by (simp add: dict_get_def toy_state_def)
  have h5: "basis_step toy_lib ''gth-szv'' 2 toy_state =
      (None, snd (basis_step toy_lib ''gth-szv'' 2 toy_state))"
    by (simp add: basis_step_def dict_append_def toy_lib_def toy_state_def Let_def)
  have h6: "dict_get ''gth-szv'' (basis_results toy_state) = Inr []"
    by (simp add: dict_get_def toy_state_def)
  from T [THEN conjunct1, THEN mp, OF h1]
  have c1: "list_all (\<lambda>x. 0 \<le> x) (delta_eri (snd (rank_sweep toy_lib [2, 4] toy_state)))"
    by (simp add: list_all_iff toy_state_def)
  from T [THEN conjunct2, THEN conjunct1, THEN mp, OF h2]
  have c2: "\<exists>approx. delta_mp2 (snd (rank_step toy_lib 4 toy_state)) =
      delta_mp2 toy_state @ [emp2_exact toy_state - approx] \<and>
      (0 \<le> last (delta_mp2 (snd (rank_step toy_lib 4 toy_state))) \<longleftrightarrow>
       approx \<le> emp2_exact toy_state)"
    by (elim exE conjE) (rule exI, rule conjI)
  from U [THEN conjunct2, THEN conjunct2, THEN conjunct1, THEN mp, THEN mp, OF h3 h4]
  have c3: "\<exists>approx. dict_get 11 (results (snd (mesh_step toy_lib 11 2 toy_state))) =
      Inr ([] @ [emp2_exact toy_state - approx])"
    by (elim exE conjE) (rule exI)
  from U [THEN conjunct2, THEN conjunct2, THEN conjunct2, THEN mp, THEN mp, OF h5 h6]
  have c4: "\<exists>approx.
      dict_get ''gth-szv'' (basis_results (snd (basis_step toy_lib ''gth-szv'' 2 toy_state))) =
      Inr ([] @ [emp2_exact toy_state - approx])"
    by (elim exE conjE) (rule exI)
  from h1 h2 h3 h4 h5 h6 c1 c2 c3 c4 show ?thesis by blast
qed

text \<open>
  As stated, C2 fails: with an approximate energy above the reference, the entry
  stored in \<^verbatim>\<open>delta_mp2\<close> is negative.
\<close>

theorem negative_mp2_deviation_counterexample:
  "fst (rank_sweep toy_lib [2, 4] toy_state) = None \<and>
   delta_mp2 (snd (rank_sweep toy_lib [2, 4] toy_state)) = [3 / 4, - 1 / 4] \<and>
   \<not> (\<forall>x\<in>set (delta_mp2 (snd (rank_sweep toy_lib [2, 4] toy_state))). 0 \<le> x)"
  by (simp add: run_simps)

section \<open>The formula of the recorded deviations\<close>

text \<open>
  Claim C3, as amended. In an iteration of the THC-rank sweep that ends without an
  exception, the entry added to \<^verbatim>\<open>delta_eri\<close> is the largest modulus of the
  element-wise difference between the approximate tensor and the exact tensor that
  the iteration's own helper returns, divided by \<^verbatim>\<open>num_kpts\<close>; the entry added to
  \<^verbatim>\<open>delta_mp2\<close> is the signed difference \<^verbatim>\<open>emp2_exact - emp2_approx\<close>, whose
  absolute value is the absolute difference. The mesh and basis sweeps store the same
  signed difference. The \<open>\<lambda>\<close> sweep prints the absolute difference
  \<^verbatim>\<open>abs(emp2_approx - emp2_exact)\<close>, where \<^verbatim>\<open>emp2_approx\<close> is the library's value
  less \<^verbatim>\<open>mf.e_tot\<close>.
\<close>

theorem recorded_deviation_formula:
  "(rank_step lib c s = (None, t) \<longrightarrow>
      (\<exists>h g2 a g3 b g4 approx g5.
         get_eri lib h (eri_kindices s) g2 = (Inr a, g3) \<and>
         get_eri_exact lib h (eri_kindices s) g3 = (Inr b, g4) \<and>
         compute_emp2_approx lib (mf s) h g4 = (Inr approx, g5) \<and>
         delta_eri t =
           delta_eri s @ [Max (set (map2 (\<lambda>x y. cmod (x - y)) a b)) / real (num_kpts s)] \<and>
         delta_mp2 t = delta_mp2 s @ [emp2_exact s - approx] \<and>
         \<bar>last (delta_mp2 t)\<bar> = \<bar>approx - emp2_exact s\<bar>)) \<and>
   (mesh_step lib mesh c s = (None, u) \<longrightarrow> dict_get mesh (results s) = Inr old \<longrightarrow>
      (\<exists>h g g' approx. compute_emp2_approx lib (mf s) h g = (Inr approx, g') \<and>
         dict_get mesh (results u) = Inr (old @ [emp2_exact s - approx]))) \<and>
   (basis_step lib basis c s = (None, v) \<longrightarrow> dict_get basis (basis_results s) = Inr old \<longrightarrow>
      (\<exists>h g g' approx. compute_emp2_approx lib (mf s) h g = (Inr approx, g') \<and>
         dict_get basis (basis_results v) = Inr (old @ [emp2_exact s - approx]))) \<and>
   (lambda_step lib c s = (None, w) \<longrightarrow>
      (\<exists>h g g' emp2 lam rest. compute_emp2_approx lib (mf s) h g = (Inr emp2, g') \<and>
         stdout w =
           stdout s @ Mp2Error c \<bar>emp2 - e_tot lib (mf s) - emp2_exact s\<bar> lam # rest))"
proof (intro conjI impI)
  assume "rank_step lib c s = (None, t)"
  then obtain h g2 a g3 b g4 m approx g5 where
    1: "get_eri lib h (eri_kindices s) g2 = (Inr a, g3)"
    "get_eri_exact lib h (eri_kindices s) g3 = (Inr b, g4)"
    "compute_emp2_approx lib (mf s) h g4 = (Inr approx, g5)"
    and m: "max_abs_diff a b = Inr m"
    and t: "delta_eri t = delta_eri s @ [m / real (num_kpts s)]"
    "delta_mp2 t = delta_mp2 s @ [emp2_exact s - approx]"
    by (rule rank_step_NoneE) simp
  from 1 t max_abs_diff_InrD(3) [OF m]
  have "get_eri lib h (eri_kindices s) g2 = (Inr a, g3) \<and>
         get_eri_exact lib h (eri_kindices s) g3 = (Inr b, g4) \<and>
         compute_emp2_approx lib (mf s) h g4 = (Inr approx, g5) \<and>
         delta_eri t =
           delta_eri s @ [Max (set (map2 (\<lambda>x y. cmod (x - y)) a b)) / real (num_kpts s)] \<and>
         delta_mp2 t = delta_mp2 s @ [emp2_exact s - approx] \<and>
         \<bar>last (delta_mp2 t)\<bar> = \<bar>approx - emp2_exact s\<bar>" by simp
  then show "\<exists>h g2 a g3 b g4 approx g5.
         get_eri lib h (eri_kindices s) g2 = (Inr a, g3) \<and>
         get_eri_exact lib h (eri_kindices s) g3 = (Inr b, g4) \<and>
         compute_emp2_approx lib (mf s) h g4 = (Inr approx, g5) \<and>
         delta_eri t =
           delta_eri s @ [Max (set (map2 (\<lambda>x y. cmod (x - y)) a b)) / real (num_kpts s)] \<and>
         delta_mp2 t = delta_mp2 s @ [emp2_exact s - approx] \<and>
         \<bar>last (delta_mp2 t)\<bar> = \<bar>approx - emp2_exact s\<bar>" by blast
next
  assume st: "mesh_step lib mesh c s = (None, u)" and old: "dict_get mesh (results s) = Inr old"
  from st obtain h g2 approx g3 where
    e: "compute_emp2_approx lib (mf s) h g2 = (Inr approx, g3)"
    and d: "dict_append mesh (emp2_exact s - approx) (results s) = Inr (results u)"
    by (rule mesh_step_NoneE) simp
  from dict_append_get [OF d old] e
  show "\<exists>h g g' approx. compute_emp2_approx lib (mf s) h g = (Inr approx, g') \<and>
         dict_get mesh (results u) = Inr (old @ [emp2_exact s - approx])" by blast
next
  assume st: "basis_step lib basis c s = (None, v)"
    and old: "dict_get basis (basis_results s) = Inr old"
  from st obtain h g2 approx g3 where
    e: "compute_emp2_approx lib (mf s) h g2 = (Inr approx, g3)"
    and d: "dict_append basis (emp2_exact s - approx) (basis_results s) = Inr (basis_results v)"
    by (rule basis_step_NoneE) simp
  from dict_append_get [OF d old] e
  show "\<exists>h g g' approx. compute_emp2_approx lib (mf s) h g = (Inr approx, g') \<and>
         dict_get basis (basis_results v) = Inr (old @ [emp2_exact s - approx])" by blast
next
  assume "lambda_step lib c s = (None, w)"
  then obtain h g3 emp2 g4 lam where
    e: "compute_emp2_approx lib (mf s) h g3 = (Inr emp2, g4)"
    and w: "stdout w = stdout s @
              Mp2Error c \<bar>emp2 - e_tot lib (mf s) - emp2_exact s\<bar> lam #
              (if \<bar>emp2 - e_tot lib (mf s) - emp2_exact s\<bar> < 1 / 10000
               then [Mp2Below c \<bar>emp2 - e_tot lib (mf s) - emp2_exact s\<bar> lam] else [])"
    by (rule lambda_step_NoneE) simp
  then show "\<exists>h g g' emp2 lam rest. compute_emp2_approx lib (mf s) h g = (Inr emp2, g') \<and>
         stdout w =
           stdout s @ Mp2Error c \<bar>emp2 - e_tot lib (mf s) - emp2_exact s\<bar> lam # rest" by blast
qed

theorem recorded_deviation_formula_witness:
  "rank_step toy_lib 4 toy_state = (None, snd (rank_step toy_lib 4 toy_state)) \<and>
   mesh_step toy_lib 11 2 toy_state = (None, snd (mesh_step toy_lib 11 2 toy_state)) \<and>
   dict_get 11 (results toy_state) = Inr [] \<and>
   basis_step toy_lib ''gth-szv'' 2 toy_state =
     (None, snd (basis_step toy_lib ''gth-szv'' 2 toy_state)) \<and>
   dict_get ''gth-szv'' (basis_results toy_state) = Inr [] \<and>
   lambda_step toy_lib 2 toy_state = (None, snd (lambda_step toy_lib 2 toy_state)) \<and>
   stdout (snd (lambda_step toy_lib 2 toy_state)) = [Mp2Error 2 (37 / 4) 5] \<and>
   (\<exists>approx. delta_mp2 (snd (rank_step toy_lib 4 toy_state)) =
      delta_mp2 toy_state @ [emp2_exact toy_state - approx]) \<and>
   (\<exists>approx. dict_get 11 (results (snd (mesh_step toy_lib 11 2 toy_state))) =
      Inr ([] @ [emp2_exact toy_state - approx])) \<and>
   (\<exists>approx. dict_get ''gth-szv'' (basis_results (snd (basis_step toy_lib ''gth-szv'' 2 toy_state))) =
      Inr ([] @ [emp2_exact toy_state - approx])) \<and>
   (\<exists>emp2 lam rest. stdout (snd (lambda_step toy_lib 2 toy_state)) =
      stdout toy_state @
        Mp2Error 2 \<bar>emp2 - e_tot toy_lib (mf toy_state) - emp2_exact toy_state\<bar> lam # rest)"
proof -
  note T = recorded_deviation_formula [where lib = toy_lib and s = toy_state and c = 4
      and t = "snd (rank_step toy_lib 4 toy_state)"]
  note U = recorded_deviation_formula [where lib = toy_lib and s = toy_state and c = 2
      and mesh = 11 and u = "snd (mesh_step toy_lib 11 2 toy_state)" and old = "[]"
      and basis = "''gth-szv''" and v = "snd (basis_step toy_lib ''gth-szv'' 2 toy_state)"
      and w = "snd (lambda_step toy_lib 2 toy_state)"]
  have h2: "rank_step toy_lib 4 toy_state = (None, snd (rank_step toy_lib 4 toy_state))"
    by (simp add: run_simps)
  have h3: "mesh_step toy_lib 11 2 toy_state = (None, snd (mesh_step toy_lib 11 2 toy_state))"
    by (simp add: mesh_step_def dict_append_def toy_lib_def toy_state_def Let_def)
  have h4: "dict_get 11 (results toy_state) = Inr []"
    by (simp add: dict_get_def toy_state_def)
  have h5: "basis_step toy_lib ''gth-szv'' 2 toy_state =
      (None, snd (basis_step toy_lib ''gth-szv'' 2 toy_state))"
    by (simp add: basis_step_def dict_append_def toy_lib_def toy_state_def Let_def)
  have h6: "dict_get ''gth-szv'' (basis_results toy_state) = Inr []"
    by (simp add: dict_get_def toy_state_def)
  have h7: "lambda_step toy_lib 2 toy_state = (None, snd (lambda_step toy_lib 2 toy_state))"
    by (simp add: lambda_step_def toy_lib_def toy_state_def Let_def)
  have h8: "stdout (snd (lambda_step toy_lib 2 toy_state)) = [Mp2Error 2 (37 / 4) 5]"
    by (simp add: lambda_step_def toy_lib_def toy_state_def Let_def)
  from T [THEN conjunct1, THEN mp, OF h2]
  have c1: "\<exists>approx. delta_mp2 (snd (rank_step toy_lib 4 toy_state)) =
      delta_mp2 toy_state @ [emp2_exact toy_state - approx]"
    by (elim exE conjE) (rule exI)
  from U [THEN conjunct2, THEN conjunct1, THEN mp, THEN mp, OF h3 h4]
  have c2: "\<exists>approx. dict_get 11 (results (snd (mesh_step toy_lib 11 2 toy_state))) =
      Inr ([] @ [emp2_exact toy_state - approx])"
    by (elim exE conjE) (rule exI)
  from U [THEN conjunct2, THEN conjunct2, THEN conjunct1, THEN mp, THEN mp, OF h5 h6]
  have c3: "\<exists>approx.
      dict_get ''gth-szv'' (basis_results (snd (basis_step toy_lib ''gth-szv'' 2 toy_state))) =
      Inr ([] @ [emp2_exact toy_state - approx])"
    by (elim exE conjE) (rule exI)
  from U [THEN conjunct2, THEN conjunct2, THEN conjunct2, THEN mp, OF h7]
  have c4: "\<exists>emp2 lam rest. stdout (snd (lambda_step toy_lib 2 toy_state)) =
      stdout toy_state @
        Mp2Error 2 \<bar>emp2 - e_tot toy_lib (mf toy_state) - emp2_exact toy_state\<bar> lam # rest"
    by (elim exE conjE) (rule exI, rule exI, rule exI)
  from h2 h3 h4 h5 h6 h7 h8 c1 c2 c3 c4 show ?thesis by blast
qed

text \<open>
  As stated, C3 fails: the scalar stored is not the absolute difference where the
  approximation lies above the reference, and the tensor deviation stored is not the
  largest modulus itself where there are three k-points.
\<close>

theorem signed_and_scaled_deviation_counterexample:
  "rank_step toy_lib 2 toy_state =
     (None, toy_state\<lparr>num_thc := 16, eri_exact := [0, 0], delta_eri := [1],
                       delta_mp2 := [3 / 4], rng := 1\<rparr>) \<and>
   fst (compute_emp2_approx toy_lib () (32, 1) 2) = Inr (- 10) \<and>
   emp2_exact toy_state = - 41 / 4 \<and>
   fst (get_eri toy_lib (32, 1) [1, 0, 2, 0] 2) = Inr [1, 3] \<and>
   fst (get_eri_exact toy_lib (32, 1) [1, 0, 2, 0] 2) = Inr [0, 0] \<and>
   max_abs_diff [1, 3] [0, 0] = Inr 3 \<and>
   delta_mp2 (snd (rank_sweep toy_lib [2, 4] toy_state)) = [3 / 4, - 1 / 4] \<and>
   delta_eri (snd (rank_sweep toy_lib [2, 4] toy_state)) = [1, 1] \<and>
   last (delta_mp2 (snd (rank_sweep toy_lib [2, 4] toy_state))) \<noteq> \<bar>- 10 - (- 41 / 4 :: real)\<bar> \<and>
   last (delta_eri (snd (rank_sweep toy_lib [2, 4] toy_state))) \<noteq> 3"
  by (simp add: run_simps)

section \<open>A library call that raises\<close>

text \<open>
  Claim C4, as amended. The loop has no exception handling: when a library call raises
  in the iteration of one rank parameter, the exception ends the sweep there. The
  entries of the earlier parameters are kept (the failing iteration itself may already
  have appended its entry to \<^verbatim>\<open>delta_eri\<close>, never one to \<^verbatim>\<open>delta_mp2\<close>), and no
  later parameter is processed.
\<close>

theorem rank_sweep_stops_at_failure:
  assumes pre: "rank_sweep lib pre s = (None, s1)"
    and fail: "rank_step lib c s1 = (Some e, s2)"
  shows "rank_sweep lib (pre @ c # post) s = (Some e, s2) \<and>
         delta_mp2 s2 = delta_mp2 s1 \<and>
         length (delta_mp2 s2) = length (delta_mp2 s) + length pre \<and>
         prefix (delta_eri s1) (delta_eri s2) \<and>
         length (delta_eri s2) \<le> length (delta_eri s) + length pre + 1"
proof -
  from pre fail have "rank_sweep lib (pre @ c # post) s = (Some e, s2)"
    by (simp add: rank_sweep_append)
  moreover note rank_step_SomeD [OF fail] rank_sweep_length [OF pre]
    rank_step_prefix [OF fail]
  ultimately show ?thesis by auto
qed

theorem rank_sweep_stops_at_failure_witness:
  "rank_sweep strict_lib [2] toy_state =
     (None, toy_state\<lparr>num_thc := 16, eri_exact := [0, 0], delta_eri := [1],
                       delta_mp2 := [3 / 4], rng := 1\<rparr>) \<and>
   rank_step strict_lib 200
       (toy_state\<lparr>num_thc := 16, eri_exact := [0, 0], delta_eri := [1],
                   delta_mp2 := [3 / 4], rng := 1\<rparr>) =
     (Some (LibraryError ''num_thc''),
      toy_state\<lparr>num_thc := 1600, eri_exact := [0, 0], delta_eri := [1],
                 delta_mp2 := [3 / 4], rng := 1\<rparr>) \<and>
   rank_sweep strict_lib ([2] @ 200 # [4]) toy_state =
     (Some (LibraryError ''num_thc''),
      toy_state\<lparr>num_thc := 1600, eri_exact := [0, 0], delta_eri := [1],
                 delta_mp2 := [3 / 4], rng := 1\<rparr>)"
proof -
  let ?s1 = "toy_state\<lparr>num_thc := 16, eri_exact := [0, 0], delta_eri := [1],
                       delta_mp2 := [3 / 4], rng := 1\<rparr>"
  let ?s2 = "toy_state\<lparr>num_thc := 1600, eri_exact := [0, 0], delta_eri := [1],
                 delta_mp2 := [3 / 4], rng := 1\<rparr>"
  have pre: "rank_sweep strict_lib [2] toy_state = (None, ?s1)"
    by (simp add: run_simps)
  have fail: "rank_step strict_lib 200 ?s1 = (Some (LibraryError ''num_thc''), ?s2)"
    by (simp add: run_simps)
  from rank_sweep_stops_at_failure [OF pre fail, of "[4]", THEN conjunct1] pre fail
  show ?thesis by blast
qed

text \<open>
  As stated, C4 fails: the rank parameter 4 is processed when it stands alone, and is
  not processed after a parameter whose factorization raises.
\<close>

theorem later_ranks_blocked_counterexample:
  "fst (rank_sweep strict_lib [4] toy_state) = None \<and>
   fst (rank_sweep strict_lib [2, 200, 4] toy_state) = Some (LibraryError ''num_thc'') \<and>
   delta_eri (snd (rank_sweep strict_lib [2, 200, 4] toy_state)) = [1] \<and>
   delta_mp2 (snd (rank_sweep strict_lib [2, 200, 4] toy_state)) = [3 / 4] \<and>
   length (delta_mp2 (snd (rank_sweep strict_lib [2, 200, 4] toy_state))) < length [2, 200, 4 :: int64] - 1"
  by (simp add: run_simps)

section \<open>Repeating a seeded sweep\<close>

text \<open>
  Claim C6. The seeded part of the \<open>\<lambda>\<close> cell (lines 428-440) does not depend on the
  state of the generator it is entered with; run twice in a row, it ends in the same
  way and prints the same lines. The THC-rank sweep, run twice in a row with the
  generator seeded to the same value before each run, ends in the same way and leaves
  the same two lists.
\<close>

theorem seeded_sweeps_repeat:
  "lambda_seeded lib (s\<lparr>rng := g\<rparr>) = lambda_seeded lib s \<and>
   fst (lambda_seeded lib (snd (lambda_seeded lib s))) = fst (lambda_seeded lib s) \<and>
   printed (lambda_seeded lib) (snd (lambda_seeded lib s)) = printed (lambda_seeded lib) s \<and>
   fst (seeded_rank_sweep lib n ranks (snd (seeded_rank_sweep lib n ranks s))) =
     fst (seeded_rank_sweep lib n ranks s) \<and>
   delta_eri (snd (seeded_rank_sweep lib n ranks (snd (seeded_rank_sweep lib n ranks s)))) =
     delta_eri (snd (seeded_rank_sweep lib n ranks s)) \<and>
   delta_mp2 (snd (seeded_rank_sweep lib n ranks (snd (seeded_rank_sweep lib n ranks s)))) =
     delta_mp2 (snd (seeded_rank_sweep lib n ranks s))"
proof -
  have 1: "lambda_seeded lib (s\<lparr>rng := g\<rparr>) = lambda_seeded lib s"
    by (simp add: lambda_seeded_def Let_def)
  from lambda_seeded_frame [of lib s]
  have 2: "fst (lambda_seeded lib (snd (lambda_seeded lib s))) = fst (lambda_seeded lib s) \<and>
     printed (lambda_seeded lib) (snd (lambda_seeded lib s)) = printed (lambda_seeded lib) s"
    by (intro lambda_seeded_sim) simp_all
  let ?s0 = "s\<lparr>delta_eri := [], delta_mp2 := [], rng := random_seed lib n\<rparr>"
  obtain r s1 where run: "rank_sweep lib ranks ?s0 = (r, s1)" by force
  let ?s1 = "s1\<lparr>delta_eri := [], delta_mp2 := [], rng := random_seed lib n\<rparr>"
  from rank_sweep_frame [OF run] have "same_inputs ?s0 ?s1"
    by (simp add: same_inputs_def)
  from rank_sweep_sim [OF this, of lib ranks] run obtain t1 zs ws where
    "rank_sweep lib ranks ?s1 = (r, t1)"
    "delta_eri s1 = zs" "delta_eri t1 = zs" "delta_mp2 s1 = ws" "delta_mp2 t1 = ws"
    by auto
  with run have 3:
    "fst (seeded_rank_sweep lib n ranks (snd (seeded_rank_sweep lib n ranks s))) =
       fst (seeded_rank_sweep lib n ranks s) \<and>
     delta_eri (snd (seeded_rank_sweep lib n ranks (snd (seeded_rank_sweep lib n ranks s)))) =
       delta_eri (snd (seeded_rank_sweep lib n ranks s)) \<and>
     delta_mp2 (snd (seeded_rank_sweep lib n ranks (snd (seeded_rank_sweep lib n ranks s)))) =
       delta_mp2 (snd (seeded_rank_sweep lib n ranks s))"
    by (simp add: seeded_rank_sweep_def)
  from 1 2 3 show ?thesis by blast
qed

theorem seeded_sweeps_repeat_witness:
  "lambda_seeded toy_lib (toy_state\<lparr>rng := 5\<rparr>) = lambda_seeded toy_lib toy_state \<and>
   printed (lambda_seeded toy_lib) (snd (lambda_seeded toy_lib toy_state)) =
     printed (lambda_seeded toy_lib) toy_state \<and>
   delta_mp2 (snd (seeded_rank_sweep toy_lib 7 [2, 4]
       (snd (seeded_rank_sweep toy_lib 7 [2, 4] toy_state)))) =
     delta_mp2 (snd (seeded_rank_sweep toy_lib 7 [2, 4] toy_state)) \<and>
   delta_mp2 (snd (seeded_rank_sweep toy_lib 7 [2, 4] toy_state)) = [- 25 / 4, - 29 / 4]"
proof -
  note T = seeded_sweeps_repeat [where lib = toy_lib and s = toy_state and g = 5
      and n = 7 and ranks = "[2, 4]"]
  have "delta_mp2 (snd (seeded_rank_sweep toy_lib 7 [2, 4] toy_state)) = [- 25 / 4, - 29 / 4]"
    by (simp add: seeded_rank_sweep_def run_simps)
  with T show ?thesis by blast
qed

text \<open>
  Without a seed between the runs the second run starts from the generator state the
  first one left, and the lists can differ: the determinism is that of the seed.
\<close>

lemma rank_sweep_rerun_without_seed:
  "delta_mp2 (snd (rank_sweep toy_lib [2, 4] toy_state)) = [3 / 4, - 1 / 4] \<and>
   delta_mp2 (snd (rank_sweep toy_lib [2, 4]
     ((snd (rank_sweep toy_lib [2, 4] toy_state))\<lparr>delta_eri := [], delta_mp2 := []\<rparr>))) =
     [- 5 / 4, - 9 / 4]"
  by (simp add: run_simps)

section \<open>The reference values\<close>

text \<open>
  Claim C7, as amended. The reference energy \<^verbatim>\<open>emp2_exact\<close> is computed once per
  outer configuration, before the inner rank sweep: the inner sweep of a mesh, of a
  basis, of the THC-rank cell and of the \<open>\<lambda>\<close> cell is entered with the energy that
  the one reference call before it returned (with \<^verbatim>\<open>mf.e_tot\<close> added where the
  notebook adds it) and with the generator state that call left (the \<open>\<lambda>\<close> cell
  then seeds the generator). No iteration of a sweep changes it, and every deviation
  a sweep records or prints is taken against the value the sweep was entered with.
  The exact integral tensor is not computed once:
  every iteration of the THC-rank sweep that reaches line 170 assigns to
  \<^verbatim>\<open>eri_exact\<close> the tensor that the helper built in that iteration returns, and
  compares against it. The iterations compare against one tensor value when the
  library's \<^verbatim>\<open>get_eri_exact\<close> returns the same tensor through every helper.
\<close>

theorem reference_energy_fixed_tensor_recomputed:
  "emp2_exact (snd (rank_sweep lib ranks s)) = emp2_exact s \<and>
   emp2_exact (snd (mesh_sweep lib mesh ranks s)) = emp2_exact s \<and>
   emp2_exact (snd (basis_sweep lib basis ranks s)) = emp2_exact s \<and>
   emp2_exact (snd (lambda_sweep lib ranks s)) = emp2_exact s \<and>
   (rank_sweep lib ranks s = (r, s') \<longrightarrow>
      (\<exists>ws. delta_mp2 s' = delta_mp2 s @ ws \<and>
         (\<forall>x\<in>set ws. (\<exists>h g g' approx.
            compute_emp2_approx lib (mf s) h g = (Inr approx, g') \<and> x = emp2_exact s - approx)))) \<and>
   (mesh_sweep lib mesh ranks s = (r, s') \<longrightarrow> dict_get mesh (results s) = Inr old \<longrightarrow>
      (\<exists>ws. dict_get mesh (results s') = Inr (old @ ws) \<and>
         (\<forall>x\<in>set ws. (\<exists>h g g' approx.
            compute_emp2_approx lib (mf s) h g = (Inr approx, g') \<and> x = emp2_exact s - approx)))) \<and>
   (basis_sweep lib basis ranks s = (r, s') \<longrightarrow>
      dict_get basis (basis_results s) = Inr old \<longrightarrow>
      (\<exists>ws. dict_get basis (basis_results s') = Inr (old @ ws) \<and>
         (\<forall>x\<in>set ws. (\<exists>h g g' approx.
            compute_emp2_approx lib (mf s) h g = (Inr approx, g') \<and> x = emp2_exact s - approx)))) \<and>
   (lambda_sweep lib ranks s = (r, s') \<longrightarrow>
      (\<exists>out. stdout s' = stdout s @ out \<and>
         (\<forall>l\<in>set out. (\<exists>c' h g g' emp2 lam.
            compute_emp2_approx lib (mf s) h g = (Inr emp2, g') \<and>
            (l = Mp2Error c' (abs (emp2 - e_tot lib (mf s) - emp2_exact s)) lam \<or>
             l = Mp2Below c' (abs (emp2 - e_tot lib (mf s) - emp2_exact s)) lam))))) \<and>
   (mesh_config lib mesh s = (None, u) \<longrightarrow>
      (\<exists>cl g0 m0 g0' m g1 e g2 s5.
         build_cell lib ''gth-szv'' mesh False (rng s) = (Inr cl, g0) \<and>
         KRHF lib cl g0 = (Inr m0, g0') \<and> scf_kernel lib m0 g0' = (Inr m, g1) \<and>
         kmp2_kernel lib m g1 = (Inr e, g2) \<and>
         mesh_setup lib mesh s = (None, s5) \<and> mf s5 = m \<and>
         emp2_exact s5 = e + e_tot lib m \<and> rng s5 = g2 \<and>
         mesh_sweep lib mesh arange_2_20_2 s5 = (None, u) \<and>
         emp2_exact u = e + e_tot lib m)) \<and>
   (basis_config lib basis s = (None, u) \<longrightarrow>
      (\<exists>cl g0 m0 g0' m g1 e g2 s6.
         build_cell lib basis 15 True (rng s) = (Inr cl, g0) \<and>
         KRHF lib cl g0 = (Inr m0, g0') \<and> scf_kernel lib m0 g0' = (Inr m, g1) \<and>
         kmp2_kernel lib m g1 = (Inr e, g2) \<and>
         basis_setup lib basis s = (None, s6) \<and> mf s6 = m \<and>
         emp2_exact s6 = e + e_tot lib m \<and> rng s6 = g2 \<and>
         basis_sweep lib basis arange_2_20_2 s6 = (None, u) \<and>
         emp2_exact u = e + e_tot lib m)) \<and>
   (rank_cell lib s = (None, u) \<longrightarrow>
      (\<exists>cc g1 eri g2 e g3 s4.
         build_cc_inst lib (mf s) (rng s) = (Inr cc, g1) \<and> ao2mo lib cc g1 = (Inr eri, g2) \<and>
         init_amps lib cc eri g2 = (Inr e, g3) \<and>
         rank_setup lib s = (None, s4) \<and> mf s4 = mf s \<and>
         emp2_exact s4 = e + e_tot lib (mf s) \<and> eri_exact s4 = eri \<and> rng s4 = g3 \<and>
         rank_sweep lib arange_2_20_2 s4 = (None, u) \<and>
         emp2_exact u = e + e_tot lib (mf s))) \<and>
   (lambda_cell lib s = (None, u) \<longrightarrow>
      (\<exists>cl g0 m0 g0' m g1 hc g2 cc g3 eri g4 e g5 s7.
         build_cell lib ''gth-dzv'' 15 False (rng s) = (Inr cl, g0) \<and>
         KRHF lib cl g0 = (Inr m0, g0') \<and> scf_kernel lib m0 g0' = (Inr m, g1) \<and>
         mo_hcore lib m g1 = (Inr hc, g2) \<and> build_cc_inst lib m g2 = (Inr cc, g3) \<and>
         ao2mo lib cc g3 = (Inr eri, g4) \<and> init_amps lib cc eri g4 = (Inr e, g5) \<and>
         lambda_setup lib s = (None, s7) \<and> mf s7 = m \<and> emp2_exact s7 = e \<and>
         rng s7 = g5 \<and>
         lambda_seeded lib s7 = (None, u) \<and> emp2_exact u = e)) \<and>
   (rank_sweep lib (pre @ c # post) s = (None, s') \<longrightarrow> rank_sweep lib pre s = (None, s1) \<longrightarrow>
      (\<exists>h g g' approx. compute_emp2_approx lib (mf s) h g = (Inr approx, g') \<and>
         delta_mp2 s' ! length (delta_mp2 s1) = emp2_exact s - approx)) \<and>
   (rank_step lib c s = (None, t) \<longrightarrow>
      (\<exists>k g1 h g2 a g3 g4 m.
         solve_kmeans_kpisdf lib (mf s) (c * word_of_int (num_spatial_orbs s)) (rng s) =
           (Inr k, g1) \<and>
         KPTHCHelperDoubleTranslation lib k (mf s) g1 = (Inr h, g2) \<and>
         get_eri lib h (eri_kindices s) g2 = (Inr a, g3) \<and>
         get_eri_exact lib h (eri_kindices s) g3 = (Inr (eri_exact t), g4) \<and>
         max_abs_diff a (eri_exact t) = Inr m \<and>
         delta_eri t = delta_eri s @ [m / real (num_kpts s)])) \<and>
   ((\<forall>h h' i g g'. fst (get_eri_exact lib h i g) = fst (get_eri_exact lib h' i g')) \<longrightarrow>
      rank_sweep lib pa s = (None, qa) \<longrightarrow> rank_step lib ca qa = (None, ta) \<longrightarrow>
      rank_sweep lib pb s = (None, qb) \<longrightarrow> rank_step lib cb qb = (None, tb) \<longrightarrow>
      eri_exact ta = eri_exact tb)"
proof -
  have c_eq1: "emp2_exact (snd (rank_sweep lib ranks s)) = emp2_exact s"
    by (rule rank_sweep_emp2_exact)
  have c_eq2: "emp2_exact (snd (mesh_sweep lib mesh ranks s)) = emp2_exact s"
    by (rule mesh_sweep_emp2_exact)
  have c_eq3: "emp2_exact (snd (basis_sweep lib basis ranks s)) = emp2_exact s"
    by (rule basis_sweep_emp2_exact)
  have c_eq4: "emp2_exact (snd (lambda_sweep lib ranks s)) = emp2_exact s"
    by (rule lambda_sweep_emp2_exact)
  have c_B: "rank_sweep lib ranks s = (r, s') \<longrightarrow>
      (\<exists>ws. delta_mp2 s' = delta_mp2 s @ ws \<and>
         (\<forall>x\<in>set ws. (\<exists>h g g' approx.
            compute_emp2_approx lib (mf s) h g = (Inr approx, g') \<and> x = emp2_exact s - approx)))"
    by (intro impI) (rule rank_sweep_mp2_entries)
  have c_C: "mesh_sweep lib mesh ranks s = (r, s') \<longrightarrow> dict_get mesh (results s) = Inr old \<longrightarrow>
      (\<exists>ws. dict_get mesh (results s') = Inr (old @ ws) \<and>
         (\<forall>x\<in>set ws. (\<exists>h g g' approx.
            compute_emp2_approx lib (mf s) h g = (Inr approx, g') \<and> x = emp2_exact s - approx)))"
    using mesh_sweep_entries [of lib mesh ranks s r s' old]
    by (intro impI) (elim meta_impE exE conjE, assumption, assumption, rule exI, rule conjI)
  have c_D: "basis_sweep lib basis ranks s = (r, s') \<longrightarrow>
      dict_get basis (basis_results s) = Inr old \<longrightarrow>
      (\<exists>ws. dict_get basis (basis_results s') = Inr (old @ ws) \<and>
         (\<forall>x\<in>set ws. (\<exists>h g g' approx.
            compute_emp2_approx lib (mf s) h g = (Inr approx, g') \<and> x = emp2_exact s - approx)))"
    using basis_sweep_entries [of lib basis ranks s r s' old]
    by (intro impI) (elim meta_impE exE conjE, assumption, assumption, rule exI, rule conjI)
  have c_E: "lambda_sweep lib ranks s = (r, s') \<longrightarrow>
      (\<exists>out. stdout s' = stdout s @ out \<and>
         (\<forall>l\<in>set out. (\<exists>c' h g g' emp2 lam.
            compute_emp2_approx lib (mf s) h g = (Inr emp2, g') \<and>
            (l = Mp2Error c' (abs (emp2 - e_tot lib (mf s) - emp2_exact s)) lam \<or>
             l = Mp2Below c' (abs (emp2 - e_tot lib (mf s) - emp2_exact s)) lam))))"
    by (intro impI) (rule lambda_sweep_printed)
  have c_F: "mesh_config lib mesh s = (None, u) \<longrightarrow>
      (\<exists>cl g0 m0 g0' m g1 e g2 s5.
         build_cell lib ''gth-szv'' mesh False (rng s) = (Inr cl, g0) \<and>
         KRHF lib cl g0 = (Inr m0, g0') \<and> scf_kernel lib m0 g0' = (Inr m, g1) \<and>
         kmp2_kernel lib m g1 = (Inr e, g2) \<and>
         mesh_setup lib mesh s = (None, s5) \<and> mf s5 = m \<and>
         emp2_exact s5 = e + e_tot lib m \<and> rng s5 = g2 \<and>
         mesh_sweep lib mesh arange_2_20_2 s5 = (None, u) \<and>
         emp2_exact u = e + e_tot lib m)"
  proof
    assume "mesh_config lib mesh s = (None, u)"
    then obtain s5 where st: "mesh_setup lib mesh s = (None, s5)"
      and sw: "mesh_sweep lib mesh (thc_ranks s5) s5 = (None, u)"
      by (rule mesh_config_NoneE)
    from st obtain cl g0 m0 g0' m g1 e g2 where
      "build_cell lib ''gth-szv'' mesh False (rng s) = (Inr cl, g0)"
      "KRHF lib cl g0 = (Inr m0, g0')" "scf_kernel lib m0 g0' = (Inr m, g1)"
      "kmp2_kernel lib m g1 = (Inr e, g2)"
      "mf s5 = m" "emp2_exact s5 = e + e_tot lib m" "rng s5 = g2"
      "thc_ranks s5 = arange_2_20_2"
      by (rule mesh_setup_NoneE) simp
    moreover note st sw mesh_sweep_emp2_exactD [OF sw]
    ultimately have "build_cell lib ''gth-szv'' mesh False (rng s) = (Inr cl, g0) \<and>
         KRHF lib cl g0 = (Inr m0, g0') \<and> scf_kernel lib m0 g0' = (Inr m, g1) \<and>
         kmp2_kernel lib m g1 = (Inr e, g2) \<and>
         mesh_setup lib mesh s = (None, s5) \<and> mf s5 = m \<and>
         emp2_exact s5 = e + e_tot lib m \<and> rng s5 = g2 \<and>
         mesh_sweep lib mesh arange_2_20_2 s5 = (None, u) \<and>
         emp2_exact u = e + e_tot lib m"
      by simp
    then show "\<exists>cl g0 m0 g0' m g1 e g2 s5.
         build_cell lib ''gth-szv'' mesh False (rng s) = (Inr cl, g0) \<and>
         KRHF lib cl g0 = (Inr m0, g0') \<and> scf_kernel lib m0 g0' = (Inr m, g1) \<and>
         kmp2_kernel lib m g1 = (Inr e, g2) \<and>
         mesh_setup lib mesh s = (None, s5) \<and> mf s5 = m \<and>
         emp2_exact s5 = e + e_tot lib m \<and> rng s5 = g2 \<and>
         mesh_sweep lib mesh arange_2_20_2 s5 = (None, u) \<and>
         emp2_exact u = e + e_tot lib m"
      by (intro exI)
  qed
  have c_G: "basis_config lib basis s = (None, u) \<longrightarrow>
      (\<exists>cl g0 m0 g0' m g1 e g2 s6.
         build_cell lib basis 15 True (rng s) = (Inr cl, g0) \<and>
         KRHF lib cl g0 = (Inr m0, g0') \<and> scf_kernel lib m0 g0' = (Inr m, g1) \<and>
         kmp2_kernel lib m g1 = (Inr e, g2) \<and>
         basis_setup lib basis s = (None, s6) \<and> mf s6 = m \<and>
         emp2_exact s6 = e + e_tot lib m \<and> rng s6 = g2 \<and>
         basis_sweep lib basis arange_2_20_2 s6 = (None, u) \<and>
         emp2_exact u = e + e_tot lib m)"
  proof
    assume "basis_config lib basis s = (None, u)"
    then obtain s6 where st: "basis_setup lib basis s = (None, s6)"
      and sw: "basis_sweep lib basis (thc_ranks s6) s6 = (None, u)"
      by (rule basis_config_NoneE)
    from st obtain cl g0 m0 g0' m g1 e g2 where
      "build_cell lib basis 15 True (rng s) = (Inr cl, g0)"
      "KRHF lib cl g0 = (Inr m0, g0')" "scf_kernel lib m0 g0' = (Inr m, g1)"
      "kmp2_kernel lib m g1 = (Inr e, g2)"
      "mf s6 = m" "emp2_exact s6 = e + e_tot lib m" "rng s6 = g2"
      "thc_ranks s6 = arange_2_20_2"
      by (rule basis_setup_NoneE) simp
    moreover note st sw basis_sweep_emp2_exactD [OF sw]
    ultimately have "build_cell lib basis 15 True (rng s) = (Inr cl, g0) \<and>
         KRHF lib cl g0 = (Inr m0, g0') \<and> scf_kernel lib m0 g0' = (Inr m, g1) \<and>
         kmp2_kernel lib m g1 = (Inr e, g2) \<and>
         basis_setup lib basis s = (None, s6) \<and> mf s6 = m \<and>
         emp2_exact s6 = e + e_tot lib m \<and> rng s6 = g2 \<and>
         basis_sweep lib basis arange_2_20_2 s6 = (None, u) \<and>
         emp2_exact u = e + e_tot lib m"
      by simp
    then show "\<exists>cl g0 m0 g0' m g1 e g2 s6.
         build_cell lib basis 15 True (rng s) = (Inr cl, g0) \<and>
         KRHF lib cl g0 = (Inr m0, g0') \<and> scf_kernel lib m0 g0' = (Inr m, g1) \<and>
         kmp2_kernel lib m g1 = (Inr e, g2) \<and>
         basis_setup lib basis s = (None, s6) \<and> mf s6 = m \<and>
         emp2_exact s6 = e + e_tot lib m \<and> rng s6 = g2 \<and>
         basis_sweep lib basis arange_2_20_2 s6 = (None, u) \<and>
         emp2_exact u = e + e_tot lib m"
      by (intro exI)
  qed
  have c_H: "rank_cell lib s = (None, u) \<longrightarrow>
      (\<exists>cc g1 eri g2 e g3 s4.
         build_cc_inst lib (mf s) (rng s) = (Inr cc, g1) \<and> ao2mo lib cc g1 = (Inr eri, g2) \<and>
         init_amps lib cc eri g2 = (Inr e, g3) \<and>
         rank_setup lib s = (None, s4) \<and> mf s4 = mf s \<and>
         emp2_exact s4 = e + e_tot lib (mf s) \<and> eri_exact s4 = eri \<and> rng s4 = g3 \<and>
         rank_sweep lib arange_2_20_2 s4 = (None, u) \<and>
         emp2_exact u = e + e_tot lib (mf s))"
  proof
    assume "rank_cell lib s = (None, u)"
    then obtain s4 where st: "rank_setup lib s = (None, s4)"
      and sw: "rank_sweep lib (thc_ranks s4) s4 = (None, u)"
      by (rule rank_cell_NoneE)
    from st obtain cc g1 eri g2 e g3 where
      "build_cc_inst lib (mf s) (rng s) = (Inr cc, g1)" "ao2mo lib cc g1 = (Inr eri, g2)"
      "init_amps lib cc eri g2 = (Inr e, g3)"
      "mf s4 = mf s" "emp2_exact s4 = e + e_tot lib (mf s)" "eri_exact s4 = eri" "rng s4 = g3"
      "thc_ranks s4 = arange_2_20_2"
      by (rule rank_setup_NoneE) simp
    moreover note st sw rank_sweep_emp2_exactD [OF sw]
    ultimately have "build_cc_inst lib (mf s) (rng s) = (Inr cc, g1) \<and> ao2mo lib cc g1 = (Inr eri, g2) \<and>
         init_amps lib cc eri g2 = (Inr e, g3) \<and>
         rank_setup lib s = (None, s4) \<and> mf s4 = mf s \<and>
         emp2_exact s4 = e + e_tot lib (mf s) \<and> eri_exact s4 = eri \<and> rng s4 = g3 \<and>
         rank_sweep lib arange_2_20_2 s4 = (None, u) \<and>
         emp2_exact u = e + e_tot lib (mf s)"
      by simp
    then show "\<exists>cc g1 eri g2 e g3 s4.
         build_cc_inst lib (mf s) (rng s) = (Inr cc, g1) \<and> ao2mo lib cc g1 = (Inr eri, g2) \<and>
         init_amps lib cc eri g2 = (Inr e, g3) \<and>
         rank_setup lib s = (None, s4) \<and> mf s4 = mf s \<and>
         emp2_exact s4 = e + e_tot lib (mf s) \<and> eri_exact s4 = eri \<and> rng s4 = g3 \<and>
         rank_sweep lib arange_2_20_2 s4 = (None, u) \<and>
         emp2_exact u = e + e_tot lib (mf s)"
      by (intro exI)
  qed
  have c_I: "lambda_cell lib s = (None, u) \<longrightarrow>
      (\<exists>cl g0 m0 g0' m g1 hc g2 cc g3 eri g4 e g5 s7.
         build_cell lib ''gth-dzv'' 15 False (rng s) = (Inr cl, g0) \<and>
         KRHF lib cl g0 = (Inr m0, g0') \<and> scf_kernel lib m0 g0' = (Inr m, g1) \<and>
         mo_hcore lib m g1 = (Inr hc, g2) \<and> build_cc_inst lib m g2 = (Inr cc, g3) \<and>
         ao2mo lib cc g3 = (Inr eri, g4) \<and> init_amps lib cc eri g4 = (Inr e, g5) \<and>
         lambda_setup lib s = (None, s7) \<and> mf s7 = m \<and> emp2_exact s7 = e \<and>
         rng s7 = g5 \<and>
         lambda_seeded lib s7 = (None, u) \<and> emp2_exact u = e)"
  proof
    assume "lambda_cell lib s = (None, u)"
    then obtain s7 where st: "lambda_setup lib s = (None, s7)"
      and sw: "lambda_seeded lib s7 = (None, u)"
      by (rule lambda_cell_NoneE)
    from st obtain cl g0 m0 g0' m g1 hc g2 cc g3 eri g4 e g5 where
      "build_cell lib ''gth-dzv'' 15 False (rng s) = (Inr cl, g0)"
      "KRHF lib cl g0 = (Inr m0, g0')" "scf_kernel lib m0 g0' = (Inr m, g1)"
      "mo_hcore lib m g1 = (Inr hc, g2)" "build_cc_inst lib m g2 = (Inr cc, g3)"
      "ao2mo lib cc g3 = (Inr eri, g4)" "init_amps lib cc eri g4 = (Inr e, g5)"
      "mf s7 = m" "emp2_exact s7 = e" "rng s7 = g5"
      by (rule lambda_setup_NoneE) simp
    moreover from lambda_seeded_printed [OF sw] have "emp2_exact u = emp2_exact s7" by simp
    moreover note st sw
    ultimately have "build_cell lib ''gth-dzv'' 15 False (rng s) = (Inr cl, g0) \<and>
         KRHF lib cl g0 = (Inr m0, g0') \<and> scf_kernel lib m0 g0' = (Inr m, g1) \<and>
         mo_hcore lib m g1 = (Inr hc, g2) \<and> build_cc_inst lib m g2 = (Inr cc, g3) \<and>
         ao2mo lib cc g3 = (Inr eri, g4) \<and> init_amps lib cc eri g4 = (Inr e, g5) \<and>
         lambda_setup lib s = (None, s7) \<and> mf s7 = m \<and> emp2_exact s7 = e \<and>
         rng s7 = g5 \<and>
         lambda_seeded lib s7 = (None, u) \<and> emp2_exact u = e"
      by simp
    then show "\<exists>cl g0 m0 g0' m g1 hc g2 cc g3 eri g4 e g5 s7.
         build_cell lib ''gth-dzv'' 15 False (rng s) = (Inr cl, g0) \<and>
         KRHF lib cl g0 = (Inr m0, g0') \<and> scf_kernel lib m0 g0' = (Inr m, g1) \<and>
         mo_hcore lib m g1 = (Inr hc, g2) \<and> build_cc_inst lib m g2 = (Inr cc, g3) \<and>
         ao2mo lib cc g3 = (Inr eri, g4) \<and> init_amps lib cc eri g4 = (Inr e, g5) \<and>
         lambda_setup lib s = (None, s7) \<and> mf s7 = m \<and> emp2_exact s7 = e \<and>
         rng s7 = g5 \<and>
         lambda_seeded lib s7 = (None, u) \<and> emp2_exact u = e"
      by (intro exI)
  qed
  have c_P: "rank_sweep lib (pre @ c # post) s = (None, s') \<longrightarrow> rank_sweep lib pre s = (None, s1) \<longrightarrow>
      (\<exists>h g g' approx. compute_emp2_approx lib (mf s) h g = (Inr approx, g') \<and>
         delta_mp2 s' ! length (delta_mp2 s1) = emp2_exact s - approx)"
  proof (intro impI)
    assume all: "rank_sweep lib (pre @ c # post) s = (None, s')"
      and pre: "rank_sweep lib pre s = (None, s1)"
    note f = rank_sweep_frame [OF pre]
    from all pre have "fst (rank_step lib c s1) = None"
      by (auto simp: rank_sweep_append split: prod.splits option.splits)
    then obtain ta where st: "rank_step lib c s1 = (None, ta)"
      by (cases "rank_step lib c s1") auto
    then obtain h g4 approx g5 where
      e: "compute_emp2_approx lib (mf s1) h g4 = (Inr approx, g5)"
      and ta: "delta_mp2 ta = delta_mp2 s1 @ [emp2_exact s1 - approx]"
      by (rule rank_step_NoneE) simp
    from rank_sweep_entry [OF all pre] st ta
    have "delta_mp2 s' ! length (delta_mp2 s1) = emp2_exact s1 - approx" by simp
    with e f
    show "\<exists>h g g' approx. compute_emp2_approx lib (mf s) h g = (Inr approx, g') \<and>
         delta_mp2 s' ! length (delta_mp2 s1) = emp2_exact s - approx" by auto
  qed
  have c_J: "rank_step lib c s = (None, t) \<longrightarrow>
      (\<exists>k g1 h g2 a g3 g4 m.
         solve_kmeans_kpisdf lib (mf s) (c * word_of_int (num_spatial_orbs s)) (rng s) =
           (Inr k, g1) \<and>
         KPTHCHelperDoubleTranslation lib k (mf s) g1 = (Inr h, g2) \<and>
         get_eri lib h (eri_kindices s) g2 = (Inr a, g3) \<and>
         get_eri_exact lib h (eri_kindices s) g3 = (Inr (eri_exact t), g4) \<and>
         max_abs_diff a (eri_exact t) = Inr m \<and>
         delta_eri t = delta_eri s @ [m / real (num_kpts s)])"
  proof
    assume "rank_step lib c s = (None, t)"
    then obtain k g1 h g2 a g3 b g4 m where
      "solve_kmeans_kpisdf lib (mf s) (c * word_of_int (num_spatial_orbs s)) (rng s) =
         (Inr k, g1)"
      "KPTHCHelperDoubleTranslation lib k (mf s) g1 = (Inr h, g2)"
      "get_eri lib h (eri_kindices s) g2 = (Inr a, g3)"
      "get_eri_exact lib h (eri_kindices s) g3 = (Inr b, g4)"
      "max_abs_diff a b = Inr m" "eri_exact t = b"
      "delta_eri t = delta_eri s @ [m / real (num_kpts s)]"
      by (rule rank_step_NoneE) simp
    then have "solve_kmeans_kpisdf lib (mf s) (c * word_of_int (num_spatial_orbs s)) (rng s) =
           (Inr k, g1) \<and>
         KPTHCHelperDoubleTranslation lib k (mf s) g1 = (Inr h, g2) \<and>
         get_eri lib h (eri_kindices s) g2 = (Inr a, g3) \<and>
         get_eri_exact lib h (eri_kindices s) g3 = (Inr (eri_exact t), g4) \<and>
         max_abs_diff a (eri_exact t) = Inr m \<and>
         delta_eri t = delta_eri s @ [m / real (num_kpts s)]"
      by simp
    then show "\<exists>k g1 h g2 a g3 g4 m.
         solve_kmeans_kpisdf lib (mf s) (c * word_of_int (num_spatial_orbs s)) (rng s) =
           (Inr k, g1) \<and>
         KPTHCHelperDoubleTranslation lib k (mf s) g1 = (Inr h, g2) \<and>
         get_eri lib h (eri_kindices s) g2 = (Inr a, g3) \<and>
         get_eri_exact lib h (eri_kindices s) g3 = (Inr (eri_exact t), g4) \<and>
         max_abs_diff a (eri_exact t) = Inr m \<and>
         delta_eri t = delta_eri s @ [m / real (num_kpts s)]"
      by (intro exI)
  qed
  have c_K: "(\<forall>h h' i g g'. fst (get_eri_exact lib h i g) = fst (get_eri_exact lib h' i g')) \<longrightarrow>
      rank_sweep lib pa s = (None, qa) \<longrightarrow> rank_step lib ca qa = (None, ta) \<longrightarrow>
      rank_sweep lib pb s = (None, qb) \<longrightarrow> rank_step lib cb qb = (None, tb) \<longrightarrow>
      eri_exact ta = eri_exact tb"
  proof (intro impI)
    assume same: "\<forall>h h' i g g'. fst (get_eri_exact lib h i g) = fst (get_eri_exact lib h' i g')"
      and r1: "rank_sweep lib pa s = (None, qa)" and s1: "rank_step lib ca qa = (None, ta)"
      and r2: "rank_sweep lib pb s = (None, qb)" and s2: "rank_step lib cb qb = (None, tb)"
    from s1 obtain h1 g1 g1' where
      e1: "get_eri_exact lib h1 (eri_kindices qa) g1 = (Inr (eri_exact ta), g1')"
      by (rule rank_step_NoneE) simp
    from s2 obtain h2 g2 g2' where
      e2: "get_eri_exact lib h2 (eri_kindices qb) g2 = (Inr (eri_exact tb), g2')"
      by (rule rank_step_NoneE) simp
    from rank_sweep_frame [OF r1] rank_sweep_frame [OF r2]
    have "eri_kindices qa = eri_kindices qb" by simp
    with same [rule_format, of h1 "eri_kindices qa" g1 h2 g2] e1 e2
    show "eri_exact ta = eri_exact tb" by simp
  qed
  show ?thesis
    by (intro conjI) (rule c_eq1 c_eq2 c_eq3 c_eq4 c_B c_C c_D c_E c_F c_G c_H c_I c_P c_J c_K)+
qed

theorem reference_energy_fixed_tensor_recomputed_witness:
  "rank_sweep toy_lib [2, 4] toy_state = (None, snd (rank_sweep toy_lib [2, 4] toy_state)) \<and>
   mesh_sweep toy_lib 11 [2, 4] toy_state = (None, snd (mesh_sweep toy_lib 11 [2, 4] toy_state)) \<and>
   dict_get 11 (results toy_state) = Inr [] \<and>
   basis_sweep toy_lib ''gth-szv'' [2, 4] toy_state = (None, snd (basis_sweep toy_lib ''gth-szv'' [2, 4] toy_state)) \<and>
   dict_get ''gth-szv'' (basis_results toy_state) = Inr [] \<and>
   lambda_sweep toy_lib [2, 4] toy_state = (None, snd (lambda_sweep toy_lib [2, 4] toy_state)) \<and>
   mesh_config toy_lib 11 toy_state = (None, snd (mesh_config toy_lib 11 toy_state)) \<and>
   basis_config toy_lib ''gth-szv'' toy_state = (None, snd (basis_config toy_lib ''gth-szv'' toy_state)) \<and>
   rank_cell toy_lib toy_state = (None, snd (rank_cell toy_lib toy_state)) \<and>
   lambda_cell toy_lib toy_state = (None, snd (lambda_cell toy_lib toy_state)) \<and>
   rank_sweep toy_lib ([2] @ 4 # []) toy_state = (None, snd (rank_sweep toy_lib ([2] @ 4 # []) toy_state)) \<and>
   rank_sweep toy_lib [2] toy_state = (None, snd (rank_sweep toy_lib [2] toy_state)) \<and>
   rank_step toy_lib 4 toy_state = (None, snd (rank_step toy_lib 4 toy_state)) \<and>
   (\<forall>h h' i g g'. fst (get_eri_exact toy_lib h i g) = fst (get_eri_exact toy_lib h' i g')) \<and>
   rank_sweep toy_lib [] toy_state = (None, toy_state) \<and>
   rank_step toy_lib 2 toy_state = (None, snd (rank_step toy_lib 2 toy_state)) \<and>
   rank_step toy_lib 4 (snd (rank_sweep toy_lib [2] toy_state)) = (None, snd (rank_step toy_lib 4 (snd (rank_sweep toy_lib [2] toy_state)))) \<and>
   emp2_exact (snd (rank_sweep toy_lib [2, 4] toy_state)) = emp2_exact toy_state \<and>
   (\<exists>ws. delta_mp2 (snd (rank_sweep toy_lib [2, 4] toy_state)) = delta_mp2 toy_state @ ws) \<and>
   (\<exists>ws. dict_get 11 (results (snd (mesh_sweep toy_lib 11 [2, 4] toy_state))) = Inr ([] @ ws)) \<and>
   (\<exists>ws. dict_get ''gth-szv'' (basis_results (snd (basis_sweep toy_lib ''gth-szv'' [2, 4] toy_state))) = Inr ([] @ ws)) \<and>
   (\<exists>out. stdout (snd (lambda_sweep toy_lib [2, 4] toy_state)) = stdout toy_state @ out) \<and>
   (\<exists>e m. emp2_exact (snd (mesh_config toy_lib 11 toy_state)) = e + e_tot toy_lib m) \<and>
   (\<exists>e m. emp2_exact (snd (basis_config toy_lib ''gth-szv'' toy_state)) = e + e_tot toy_lib m) \<and>
   (\<exists>e. emp2_exact (snd (rank_cell toy_lib toy_state)) = e + e_tot toy_lib (mf toy_state)) \<and>
   (\<exists>cc eri g4 e g5. init_amps toy_lib cc eri g4 = (Inr e, g5) \<and>
      emp2_exact (snd (lambda_cell toy_lib toy_state)) = e) \<and>
   (\<exists>approx. delta_mp2 (snd (rank_sweep toy_lib ([2] @ 4 # []) toy_state)) !
        length (delta_mp2 (snd (rank_sweep toy_lib [2] toy_state))) =
      emp2_exact toy_state - approx) \<and>
   (\<exists>h g g'. get_eri_exact toy_lib h (eri_kindices toy_state) g =
      (Inr (eri_exact (snd (rank_step toy_lib 4 toy_state))), g')) \<and>
   eri_exact (snd (rank_step toy_lib 4 (snd (rank_sweep toy_lib [2] toy_state)))) = eri_exact (snd (rank_step toy_lib 2 toy_state))"
proof -
  note T = reference_energy_fixed_tensor_recomputed [where lib = toy_lib and s = toy_state and ranks = "[2, 4]"
      and r = None and s' = "snd (rank_sweep toy_lib [2, 4] toy_state)"]
  note TM = reference_energy_fixed_tensor_recomputed [where lib = toy_lib and s = toy_state and ranks = "[2, 4]"
      and mesh = 11 and r = None and s' = "snd (mesh_sweep toy_lib 11 [2, 4] toy_state)" and old = "[]"]
  note TB = reference_energy_fixed_tensor_recomputed [where lib = toy_lib and s = toy_state and ranks = "[2, 4]"
      and basis = "''gth-szv''" and r = None and s' = "snd (basis_sweep toy_lib ''gth-szv'' [2, 4] toy_state)"
      and old = "[]"]
  note TL = reference_energy_fixed_tensor_recomputed [where lib = toy_lib and s = toy_state and ranks = "[2, 4]"
      and r = None and s' = "snd (lambda_sweep toy_lib [2, 4] toy_state)"]
  note TF = reference_energy_fixed_tensor_recomputed [where lib = toy_lib and s = toy_state and mesh = 11
      and u = "snd (mesh_config toy_lib 11 toy_state)"]
  note TG = reference_energy_fixed_tensor_recomputed [where lib = toy_lib and s = toy_state and basis = "''gth-szv''"
      and u = "snd (basis_config toy_lib ''gth-szv'' toy_state)"]
  note TH = reference_energy_fixed_tensor_recomputed [where lib = toy_lib and s = toy_state
      and u = "snd (rank_cell toy_lib toy_state)"]
  note TI = reference_energy_fixed_tensor_recomputed [where lib = toy_lib and s = toy_state
      and u = "snd (lambda_cell toy_lib toy_state)"]
  note TP = reference_energy_fixed_tensor_recomputed [where lib = toy_lib and s = toy_state and pre = "[2]" and c = 4
      and post = "[]" and s' = "snd (rank_sweep toy_lib ([2] @ 4 # []) toy_state)"
      and ?s1.0 = "snd (rank_sweep toy_lib [2] toy_state)"]
  note TJ = reference_energy_fixed_tensor_recomputed [where lib = toy_lib and s = toy_state and c = 4
      and t = "snd (rank_step toy_lib 4 toy_state)"]
  note TK = reference_energy_fixed_tensor_recomputed [where lib = toy_lib and s = toy_state and pa = "[2]"
      and qa = "snd (rank_sweep toy_lib [2] toy_state)" and ca = 4
      and ta = "snd (rank_step toy_lib 4 (snd (rank_sweep toy_lib [2] toy_state)))"
      and pb = "[]" and qb = toy_state and cb = 2 and tb = "snd (rank_step toy_lib 2 toy_state)"]
  have h_rs: "rank_sweep toy_lib [2, 4] toy_state = (None, snd (rank_sweep toy_lib [2, 4] toy_state))"
    by (simp add: run_simps)
  have h_ms: "mesh_sweep toy_lib 11 [2, 4] toy_state = (None, snd (mesh_sweep toy_lib 11 [2, 4] toy_state))"
    by (simp add: mesh_step_def dict_append_def toy_lib_def toy_state_def Let_def)
  have h_mo: "dict_get 11 (results toy_state) = Inr []"
    by (simp add: dict_get_def toy_state_def)
  have h_bs: "basis_sweep toy_lib ''gth-szv'' [2, 4] toy_state = (None, snd (basis_sweep toy_lib ''gth-szv'' [2, 4] toy_state))"
    by (simp add: basis_step_def dict_append_def toy_lib_def toy_state_def Let_def)
  have h_bo: "dict_get ''gth-szv'' (basis_results toy_state) = Inr []"
    by (simp add: dict_get_def toy_state_def)
  have h_ls: "lambda_sweep toy_lib [2, 4] toy_state = (None, snd (lambda_sweep toy_lib [2, 4] toy_state))"
    by (simp add: lambda_step_def toy_lib_def toy_state_def Let_def)
  have h_mc: "mesh_config toy_lib 11 toy_state = (None, snd (mesh_config toy_lib 11 toy_state))"
    by (simp add: mesh_config_def mesh_setup_def mesh_step_def dict_append_def arange_2_20_2_def toy_lib_def toy_state_def Let_def)
  have h_bc: "basis_config toy_lib ''gth-szv'' toy_state = (None, snd (basis_config toy_lib ''gth-szv'' toy_state))"
    by (simp add: basis_config_def basis_setup_def basis_step_def dict_append_def arange_2_20_2_def toy_lib_def toy_state_def Let_def)
  have h_rc: "rank_cell toy_lib toy_state = (None, snd (rank_cell toy_lib toy_state))"
    by (simp add: rank_cell_def rank_setup_def arange_2_20_2_def run_simps)
  have h_lc: "lambda_cell toy_lib toy_state = (None, snd (lambda_cell toy_lib toy_state))"
    by (simp add: lambda_cell_def lambda_setup_def lambda_seeded_def lambda_step_def arange_2_20_2_def toy_lib_def toy_state_def Let_def)
  have h_rf: "rank_sweep toy_lib ([2] @ 4 # []) toy_state = (None, snd (rank_sweep toy_lib ([2] @ 4 # []) toy_state))"
    by (simp add: run_simps)
  have h_rp: "rank_sweep toy_lib [2] toy_state = (None, snd (rank_sweep toy_lib [2] toy_state))"
    by (simp add: run_simps)
  have h_st: "rank_step toy_lib 4 toy_state = (None, snd (rank_step toy_lib 4 toy_state))"
    by (simp add: run_simps)
  have h_same: "\<forall>h h' i g g'. fst (get_eri_exact toy_lib h i g) = fst (get_eri_exact toy_lib h' i g')"
    by (simp add: toy_lib_def)
  have h_re: "rank_sweep toy_lib [] toy_state = (None, toy_state)"
    by simp
  have h_s2: "rank_step toy_lib 2 toy_state = (None, snd (rank_step toy_lib 2 toy_state))"
    by (simp add: run_simps)
  have h_s4: "rank_step toy_lib 4 (snd (rank_sweep toy_lib [2] toy_state)) = (None, snd (rank_step toy_lib 4 (snd (rank_sweep toy_lib [2] toy_state))))"
    by (simp add: run_simps)
  have c_eq: "emp2_exact (snd (rank_sweep toy_lib [2, 4] toy_state)) = emp2_exact toy_state"
    by (rule T [THEN conjunct1])
  from T [THEN conjunct2, THEN conjunct2, THEN conjunct2, THEN conjunct2, THEN conjunct1, THEN mp, OF h_rs]
  have c_B: "\<exists>ws. delta_mp2 (snd (rank_sweep toy_lib [2, 4] toy_state)) = delta_mp2 toy_state @ ws"
    by (elim exE conjE) (rule exI)
  from TM [THEN conjunct2, THEN conjunct2, THEN conjunct2, THEN conjunct2, THEN conjunct2, THEN conjunct1, THEN mp, THEN mp, OF h_ms h_mo]
  have c_C: "\<exists>ws. dict_get 11 (results (snd (mesh_sweep toy_lib 11 [2, 4] toy_state))) = Inr ([] @ ws)"
    by (elim exE conjE) (rule exI)
  from TB [THEN conjunct2, THEN conjunct2, THEN conjunct2, THEN conjunct2, THEN conjunct2, THEN conjunct2, THEN conjunct1, THEN mp, THEN mp, OF h_bs h_bo]
  have c_D: "\<exists>ws. dict_get ''gth-szv'' (basis_results (snd (basis_sweep toy_lib ''gth-szv'' [2, 4] toy_state))) = Inr ([] @ ws)"
    by (elim exE conjE) (rule exI)
  from TL [THEN conjunct2, THEN conjunct2, THEN conjunct2, THEN conjunct2, THEN conjunct2, THEN conjunct2, THEN conjunct2, THEN conjunct1, THEN mp, OF h_ls]
  have c_E: "\<exists>out. stdout (snd (lambda_sweep toy_lib [2, 4] toy_state)) = stdout toy_state @ out"
    by (elim exE conjE) (rule exI)
  from TF [THEN conjunct2, THEN conjunct2, THEN conjunct2, THEN conjunct2, THEN conjunct2, THEN conjunct2, THEN conjunct2, THEN conjunct2, THEN conjunct1, THEN mp, OF h_mc]
  have c_F: "\<exists>e m. emp2_exact (snd (mesh_config toy_lib 11 toy_state)) = e + e_tot toy_lib m"
    by (elim exE conjE) (rule exI, rule exI)
  from TG [THEN conjunct2, THEN conjunct2, THEN conjunct2, THEN conjunct2, THEN conjunct2, THEN conjunct2, THEN conjunct2, THEN conjunct2, THEN conjunct2, THEN conjunct1, THEN mp, OF h_bc]
  have c_G: "\<exists>e m. emp2_exact (snd (basis_config toy_lib ''gth-szv'' toy_state)) = e + e_tot toy_lib m"
    by (elim exE conjE) (rule exI, rule exI)
  from TH [THEN conjunct2, THEN conjunct2, THEN conjunct2, THEN conjunct2, THEN conjunct2, THEN conjunct2, THEN conjunct2, THEN conjunct2, THEN conjunct2, THEN conjunct2, THEN conjunct1, THEN mp, OF h_rc]
  have c_H: "\<exists>e. emp2_exact (snd (rank_cell toy_lib toy_state)) = e + e_tot toy_lib (mf toy_state)"
    by (elim exE conjE) (rule exI)
  from TI [THEN conjunct2, THEN conjunct2, THEN conjunct2, THEN conjunct2, THEN conjunct2, THEN conjunct2, THEN conjunct2, THEN conjunct2, THEN conjunct2, THEN conjunct2, THEN conjunct2, THEN conjunct1, THEN mp, OF h_lc]
  have c_I: "\<exists>cc eri g4 e g5. init_amps toy_lib cc eri g4 = (Inr e, g5) \<and>
      emp2_exact (snd (lambda_cell toy_lib toy_state)) = e"
    by (elim exE conjE) (rule exI, rule exI, rule exI, rule exI, rule exI, rule conjI)
  from TP [THEN conjunct2, THEN conjunct2, THEN conjunct2, THEN conjunct2, THEN conjunct2, THEN conjunct2, THEN conjunct2, THEN conjunct2, THEN conjunct2, THEN conjunct2, THEN conjunct2, THEN conjunct2, THEN conjunct1, THEN mp, THEN mp, OF h_rf h_rp]
  have c_P: "\<exists>approx. delta_mp2 (snd (rank_sweep toy_lib ([2] @ 4 # []) toy_state)) !
        length (delta_mp2 (snd (rank_sweep toy_lib [2] toy_state))) =
      emp2_exact toy_state - approx"
    by (elim exE conjE) (rule exI)
  from TJ [THEN conjunct2, THEN conjunct2, THEN conjunct2, THEN conjunct2, THEN conjunct2, THEN conjunct2, THEN conjunct2, THEN conjunct2, THEN conjunct2, THEN conjunct2, THEN conjunct2, THEN conjunct2, THEN conjunct2, THEN conjunct1, THEN mp, OF h_st]
  have c_J: "\<exists>h g g'. get_eri_exact toy_lib h (eri_kindices toy_state) g =
      (Inr (eri_exact (snd (rank_step toy_lib 4 toy_state))), g')"
    by (elim exE conjE) (rule exI, rule exI, rule exI)
  from TK [THEN conjunct2, THEN conjunct2, THEN conjunct2, THEN conjunct2, THEN conjunct2, THEN conjunct2, THEN conjunct2, THEN conjunct2, THEN conjunct2, THEN conjunct2, THEN conjunct2, THEN conjunct2, THEN conjunct2, THEN conjunct2, THEN mp, THEN mp, THEN mp, THEN mp, THEN mp, OF h_same h_rp h_s4 h_re h_s2]
  have c_K: "eri_exact (snd (rank_step toy_lib 4 (snd (rank_sweep toy_lib [2] toy_state)))) = eri_exact (snd (rank_step toy_lib 2 toy_state))"
    .
  show ?thesis
    by (intro conjI) (rule h_rs h_ms h_mo h_bs h_bo h_ls h_mc h_bc h_rc h_lc h_rf h_rp h_st h_same h_re h_s2 h_s4 c_eq c_B c_C c_D c_E c_F c_G c_H c_I c_P c_J c_K)+
qed

text \<open>
  As stated, C7 fails for the exact integral tensor: an iteration replaces the tensor
  computed before the loop, and with a library whose exact tensor depends on the
  helper two iterations compare against different tensors.
\<close>

theorem reference_tensor_counterexample:
  "fst (ao2mo toy_lib () 0) = Inr [1, 1, 1] \<and>
   eri_exact toy_state = [1, 1, 1] \<and>
   fst (rank_step toy_lib 2 toy_state) = None \<and>
   eri_exact (snd (rank_step toy_lib 2 toy_state)) = [0, 0] \<and>
   eri_exact (snd (rank_step toy_lib 2 toy_state)) \<noteq> eri_exact toy_state \<and>
   fst (rank_sweep drift_lib [2, 4] toy_state) = None \<and>
   eri_exact (snd (rank_sweep drift_lib [2] toy_state)) = [0, 0] \<and>
   eri_exact (snd (rank_sweep drift_lib [2, 4] toy_state)) = [1, 0] \<and>
   eri_exact (snd (rank_sweep drift_lib [2] toy_state)) \<noteq>
     eri_exact (snd (rank_sweep drift_lib [2, 4] toy_state))"
  by (simp add: run_simps drift_lib_def)

section \<open>What a step depends on\<close>

text \<open>
  Claim C8, as amended. The iterations share the state of the random-number generator
  besides the two lists. What the iteration of a rank parameter records is a function
  of that parameter, the fixed configuration and the state of the generator when the
  iteration starts: after any two sequences of earlier iterations that leave the
  generator in the same state, the iteration ends in the same way and appends the same
  entries.
\<close>

theorem step_depends_on_generator_state:
  assumes "rank_sweep lib pre1 s = (None, s1)" and "rank_sweep lib pre2 s = (None, s2)"
    and "rng s1 = rng s2"
  shows "fst (rank_step lib c s1) = fst (rank_step lib c s2) \<and>
         drop (length (delta_eri s1)) (delta_eri (snd (rank_step lib c s1))) =
           drop (length (delta_eri s2)) (delta_eri (snd (rank_step lib c s2))) \<and>
         drop (length (delta_mp2 s1)) (delta_mp2 (snd (rank_step lib c s1))) =
           drop (length (delta_mp2 s2)) (delta_mp2 (snd (rank_step lib c s2)))"
proof -
  from rank_sweep_frame [OF assms(1)] rank_sweep_frame [OF assms(2)] assms(3)
  have "same_inputs s1 s2" by (simp add: same_inputs_def)
  from rank_step_sim [OF this, of lib c] show ?thesis by auto
qed

theorem step_depends_on_generator_state_witness:
  "rank_sweep toy_lib [2] toy_state = (None, snd (rank_sweep toy_lib [2] toy_state)) \<and>
   rank_sweep toy_lib [6] toy_state = (None, snd (rank_sweep toy_lib [6] toy_state)) \<and>
   rng (snd (rank_sweep toy_lib [2] toy_state)) = rng (snd (rank_sweep toy_lib [6] toy_state)) \<and>
   fst (rank_step toy_lib 4 (snd (rank_sweep toy_lib [2] toy_state))) =
     fst (rank_step toy_lib 4 (snd (rank_sweep toy_lib [6] toy_state))) \<and>
   drop (length (delta_mp2 (snd (rank_sweep toy_lib [2] toy_state))))
       (delta_mp2 (snd (rank_step toy_lib 4 (snd (rank_sweep toy_lib [2] toy_state))))) =
     drop (length (delta_mp2 (snd (rank_sweep toy_lib [6] toy_state))))
       (delta_mp2 (snd (rank_step toy_lib 4 (snd (rank_sweep toy_lib [6] toy_state)))))"
proof -
  have h1: "rank_sweep toy_lib [2] toy_state = (None, snd (rank_sweep toy_lib [2] toy_state))"
    by (simp add: run_simps)
  have h2: "rank_sweep toy_lib [6] toy_state = (None, snd (rank_sweep toy_lib [6] toy_state))"
    by (simp add: run_simps)
  have h3: "rng (snd (rank_sweep toy_lib [2] toy_state)) =
      rng (snd (rank_sweep toy_lib [6] toy_state))"
    by (simp add: run_simps)
  note T = step_depends_on_generator_state [OF h1 h2 h3, of 4]
  from T [THEN conjunct1] T [THEN conjunct2, THEN conjunct2] h1 h2 h3
  show ?thesis by blast
qed

text \<open>
  As stated, C8 fails: the deviation recorded for the rank parameter 4 differs
  according to whether the iteration of the parameter 2 ran before it.
\<close>

theorem earlier_steps_change_deviation_counterexample:
  "fst (rank_sweep toy_lib [2, 4] toy_state) = None \<and>
   fst (rank_sweep toy_lib [4] toy_state) = None \<and>
   delta_mp2 (snd (rank_sweep toy_lib [2, 4] toy_state)) = [3 / 4, - 1 / 4] \<and>
   delta_mp2 (snd (rank_sweep toy_lib [4] toy_state)) = [3 / 4] \<and>
   last (delta_mp2 (snd (rank_sweep toy_lib [2, 4] toy_state))) \<noteq>
     last (delta_mp2 (snd (rank_sweep toy_lib [4] toy_state)))"
  by (simp add: run_simps)

section \<open>The number of interpolation points\<close>

text \<open>
  Claim C9. In an iteration of each of the four sweeps \<^verbatim>\<open>num_thc\<close> is the product of
  the rank parameter and \<^verbatim>\<open>num_spatial_orbs\<close>, in 64-bit arithmetic. This is the
  argument of the factorization routine: the iteration is the same for every routine
  that agrees with \<^verbatim>\<open>solve_kmeans_kpisdf\<close> at this argument, and an exception of the
  routine at this argument is the exception of the iteration. The mesh does not enter
  the product. Where the product of the two integers fits 64 bits, it is the value of
  \<^verbatim>\<open>num_thc\<close>.
\<close>

theorem num_thc_is_rank_times_orbitals:
  "num_thc (snd (rank_step lib c s)) = c * word_of_int (num_spatial_orbs s) \<and>
   num_thc (snd (mesh_step lib mesh c s)) = c * word_of_int (num_spatial_orbs s) \<and>
   num_thc (snd (basis_step lib basis c s)) = c * word_of_int (num_spatial_orbs s) \<and>
   num_thc (snd (lambda_step lib c s)) = c * word_of_int (num_spatial_orbs s) \<and>
   (f (mf s) (c * word_of_int (num_spatial_orbs s)) =
      solve_kmeans_kpisdf lib (mf s) (c * word_of_int (num_spatial_orbs s)) \<longrightarrow>
    rank_step (lib\<lparr>solve_kmeans_kpisdf := f\<rparr>) c s = rank_step lib c s \<and>
    mesh_step (lib\<lparr>solve_kmeans_kpisdf := f\<rparr>) mesh c s = mesh_step lib mesh c s \<and>
    basis_step (lib\<lparr>solve_kmeans_kpisdf := f\<rparr>) basis c s = basis_step lib basis c s \<and>
    lambda_step (lib\<lparr>solve_kmeans_kpisdf := f\<rparr>) c s = lambda_step lib c s) \<and>
   (solve_kmeans_kpisdf lib (mf s) (c * word_of_int (num_spatial_orbs s)) (rng s) = (Inl e, g) \<longrightarrow>
    fst (rank_step lib c s) = Some e \<and> fst (mesh_step lib mesh c s) = Some e \<and>
    fst (basis_step lib basis c s) = Some e \<and> fst (lambda_step lib c s) = Some e) \<and>
   (- (2 ^ 63) \<le> num_spatial_orbs s \<and> num_spatial_orbs s < 2 ^ 63 \<and>
    - (2 ^ 63) \<le> sint c * num_spatial_orbs s \<and> sint c * num_spatial_orbs s < 2 ^ 63 \<longrightarrow>
    sint (num_thc (snd (rank_step lib c s))) = sint c * num_spatial_orbs s)"
proof -
  have a: "num_thc (snd (rank_step lib c s)) = c * word_of_int (num_spatial_orbs s)"
    by (auto simp: rank_step_def Let_def split: prod.splits sum.splits)
  have b: "num_thc (snd (mesh_step lib mesh c s)) = c * word_of_int (num_spatial_orbs s)"
    by (auto simp: mesh_step_def Let_def split: prod.splits sum.splits)
  have c: "num_thc (snd (basis_step lib basis c s)) = c * word_of_int (num_spatial_orbs s)"
    by (auto simp: basis_step_def Let_def split: prod.splits sum.splits)
  have d: "num_thc (snd (lambda_step lib c s)) = c * word_of_int (num_spatial_orbs s)"
    by (auto simp: lambda_step_def Let_def split: prod.splits sum.splits)
  have e: "rank_step (lib\<lparr>solve_kmeans_kpisdf := f\<rparr>) c s = rank_step lib c s \<and>
    mesh_step (lib\<lparr>solve_kmeans_kpisdf := f\<rparr>) mesh c s = mesh_step lib mesh c s \<and>
    basis_step (lib\<lparr>solve_kmeans_kpisdf := f\<rparr>) basis c s = basis_step lib basis c s \<and>
    lambda_step (lib\<lparr>solve_kmeans_kpisdf := f\<rparr>) c s = lambda_step lib c s"
    if "f (mf s) (c * word_of_int (num_spatial_orbs s)) =
      solve_kmeans_kpisdf lib (mf s) (c * word_of_int (num_spatial_orbs s))"
    using that
    by (auto simp: rank_step_def mesh_step_def basis_step_def lambda_step_def Let_def
        split: prod.splits sum.splits)
  have f: "fst (rank_step lib c s) = Some e \<and> fst (mesh_step lib mesh c s) = Some e \<and>
    fst (basis_step lib basis c s) = Some e \<and> fst (lambda_step lib c s) = Some e"
    if "solve_kmeans_kpisdf lib (mf s) (c * word_of_int (num_spatial_orbs s)) (rng s) = (Inl e, g)"
    using that by (simp add: rank_step_def mesh_step_def basis_step_def lambda_step_def Let_def)
  have g: "sint (num_thc (snd (rank_step lib c s))) = sint c * num_spatial_orbs s"
    if "- (2 ^ 63) \<le> num_spatial_orbs s \<and> num_spatial_orbs s < 2 ^ 63 \<and>
    - (2 ^ 63) \<le> sint c * num_spatial_orbs s \<and> sint c * num_spatial_orbs s < 2 ^ 63"
    using that unfolding a by (intro sint_rank_product) simp_all
  from a b c d e f g show ?thesis by blast
qed

theorem num_thc_is_rank_times_orbitals_witness:
  "(\<lambda>m n g. (Inl (LibraryError ''num_thc''), g)) (mf toy_state)
      (200 * word_of_int (num_spatial_orbs toy_state)) =
     solve_kmeans_kpisdf strict_lib (mf toy_state)
      (200 * word_of_int (num_spatial_orbs toy_state)) \<and>
   solve_kmeans_kpisdf strict_lib (mf toy_state)
      (200 * word_of_int (num_spatial_orbs toy_state)) (rng toy_state) =
     (Inl (LibraryError ''num_thc''), 0) \<and>
   - (2 ^ 63) \<le> num_spatial_orbs toy_state \<and> num_spatial_orbs toy_state < 2 ^ 63 \<and>
   - (2 ^ 63) \<le> sint (200 :: int64) * num_spatial_orbs toy_state \<and>
   sint (200 :: int64) * num_spatial_orbs toy_state < 2 ^ 63 \<and>
   num_thc (snd (rank_step strict_lib 200 toy_state)) = 1600 \<and>
   rank_step (strict_lib\<lparr>solve_kmeans_kpisdf :=
       \<lambda>m n g. (Inl (LibraryError ''num_thc''), g)\<rparr>) 200 toy_state =
     rank_step strict_lib 200 toy_state \<and>
   fst (rank_step strict_lib 200 toy_state) = Some (LibraryError ''num_thc'') \<and>
   sint (num_thc (snd (rank_step strict_lib 200 toy_state))) = 1600"
proof -
  let ?f = "\<lambda>(m :: unit) (n :: int64) (g :: nat).
    (Inl (LibraryError ''num_thc'') :: error + int64 \<times> nat, g)"
  note T = num_thc_is_rank_times_orbitals [where lib = strict_lib and c = 200
      and s = toy_state and f = ?f and e = "LibraryError ''num_thc''" and g = 0]
  have h1: "?f (mf toy_state) (200 * word_of_int (num_spatial_orbs toy_state)) =
     solve_kmeans_kpisdf strict_lib (mf toy_state)
      (200 * word_of_int (num_spatial_orbs toy_state))"
    by (simp add: strict_lib_def toy_lib_def toy_state_def)
  have h2: "solve_kmeans_kpisdf strict_lib (mf toy_state)
      (200 * word_of_int (num_spatial_orbs toy_state)) (rng toy_state) =
     (Inl (LibraryError ''num_thc''), 0)"
    by (simp add: strict_lib_def toy_lib_def toy_state_def)
  have h3: "- (2 ^ 63) \<le> num_spatial_orbs toy_state \<and> num_spatial_orbs toy_state < 2 ^ 63 \<and>
   - (2 ^ 63) \<le> sint (200 :: int64) * num_spatial_orbs toy_state \<and>
   sint (200 :: int64) * num_spatial_orbs toy_state < 2 ^ 63"
    by (simp add: toy_state_def)
  from T [THEN conjunct1]
  have c1: "num_thc (snd (rank_step strict_lib 200 toy_state)) = 1600"
    by (simp add: toy_state_def)
  from T [THEN conjunct2, THEN conjunct2, THEN conjunct2, THEN conjunct2, THEN conjunct1,
      THEN mp, OF h1, THEN conjunct1]
  have c0: "rank_step (strict_lib\<lparr>solve_kmeans_kpisdf := ?f\<rparr>) 200 toy_state =
     rank_step strict_lib 200 toy_state" .
  from T [THEN conjunct2, THEN conjunct2, THEN conjunct2, THEN conjunct2, THEN conjunct2,
      THEN conjunct1, THEN mp, OF h2, THEN conjunct1]
  have c2: "fst (rank_step strict_lib 200 toy_state) = Some (LibraryError ''num_thc'')" .
  from T [THEN conjunct2, THEN conjunct2, THEN conjunct2, THEN conjunct2, THEN conjunct2,
      THEN conjunct2, THEN mp, OF h3]
  have c3: "sint (num_thc (snd (rank_step strict_lib 200 toy_state))) = 1600"
    by (simp add: toy_state_def)
  from h1 h2 h3 c0 c1 c2 c3 show ?thesis by simp
qed

section \<open>The division by the number of k-points\<close>

text \<open>
  Claim C10. The entry an iteration of the THC-rank sweep adds to \<^verbatim>\<open>delta_eri\<close> is
  the largest modulus of the element-wise difference between the approximate and the
  exact tensor, divided by \<^verbatim>\<open>num_kpts\<close>. With more than one k-point and tensors that
  differ, it is smaller than that largest modulus.
\<close>

theorem delta_eri_divided_by_num_kpts:
  assumes "rank_step lib c s = (None, s')"
  shows "\<exists>h g2 a g3 b g4 m.
           get_eri lib h (eri_kindices s) g2 = (Inr a, g3) \<and>
           get_eri_exact lib h (eri_kindices s) g3 = (Inr b, g4) \<and>
           m = Max (set (map2 (\<lambda>x y. cmod (x - y)) a b)) \<and>
           delta_eri s' = delta_eri s @ [m / real (num_kpts s)] \<and>
           (0 < num_kpts s \<longrightarrow> last (delta_eri s') * real (num_kpts s) = m) \<and>
           (1 < num_kpts s \<longrightarrow> 0 < m \<longrightarrow> last (delta_eri s') < m)"
proof -
  from assms obtain h g2 a g3 b g4 m approx g5 where
    e: "get_eri lib h (eri_kindices s) g2 = (Inr a, g3)"
    and x: "get_eri_exact lib h (eri_kindices s) g3 = (Inr b, g4)"
    and m: "max_abs_diff a b = Inr m"
    and s': "s' = s\<lparr>num_thc := c * word_of_int (num_spatial_orbs s), eri_exact := b,
            delta_eri := delta_eri s @ [m / real (num_kpts s)],
            delta_mp2 := delta_mp2 s @ [emp2_exact s - approx], rng := g5\<rparr>"
    by (rule rank_step_NoneE)
  have lt: "m / real (num_kpts s) < m" if "1 < num_kpts s" "0 < m"
  proof -
    from that have "m / real (num_kpts s) < m / 1"
      by (intro divide_strict_left_mono) auto
    then show ?thesis by simp
  qed
  from e x max_abs_diff_InrD(3) [OF m] s' lt show ?thesis
    by (intro exI [of _ h] exI [of _ g2] exI [of _ a] exI [of _ g3] exI [of _ b]
        exI [of _ g4] exI [of _ m]) simp
qed

theorem delta_eri_divided_by_num_kpts_witness:
  "rank_step toy_lib 2 toy_state =
     (None, toy_state\<lparr>num_thc := 16, eri_exact := [0, 0], delta_eri := [1],
                       delta_mp2 := [3 / 4], rng := 1\<rparr>) \<and>
   0 < num_kpts toy_state \<and> 1 < num_kpts toy_state \<and>
   (\<exists>m. m = 3 \<and> 0 < m \<and> 1 * real (num_kpts toy_state) = m \<and> (1 :: real) < m)"
proof -
  let ?s1 = "toy_state\<lparr>num_thc := 16, eri_exact := [0, 0], delta_eri := [1],
                       delta_mp2 := [3 / 4], rng := 1\<rparr>"
  have run: "rank_step toy_lib 2 toy_state = (None, ?s1)"
    by (simp add: run_simps)
  have k: "0 < num_kpts toy_state" "1 < num_kpts toy_state"
    by (simp_all add: toy_state_def)
  from delta_eri_divided_by_num_kpts [OF run] obtain m where
    app: "delta_eri ?s1 = delta_eri toy_state @ [m / real (num_kpts toy_state)]"
    and mul: "0 < num_kpts toy_state \<longrightarrow> last (delta_eri ?s1) * real (num_kpts toy_state) = m"
    and less: "1 < num_kpts toy_state \<longrightarrow> 0 < m \<longrightarrow> last (delta_eri ?s1) < m"
    by (elim exE conjE) (rule that; assumption)
  from app have m: "m = 3" by (simp add: toy_state_def)
  from mul k have "1 * real (num_kpts toy_state) = m" by simp
  moreover from less k m have "1 < m" by simp
  ultimately show ?thesis using run k m by simp
qed

end
